theory Spec2Isabelle
  imports Main "HOL-Library.Sublist"
begin

unbundle bit_operations_syntax

section \<open>Python values shared by the modules\<close>

text \<open>
  A path is the list of its segments. Python exceptions are values of one datatype; a
  function that can raise returns \<open>exn + 'a\<close>, with \<open>Inl\<close> for the exception.
  The problem classes of \<^verbatim>\<open>pims/importer/importer.py\<close> (\<open>FileErrorProblem\<close>,
  \<open>ImageParsingProblem\<close>, \<open>FormatConversionProblem\<close>) and of
  \<^verbatim>\<open>pims/api/exceptions.py\<close> keep their names and their argument.
  \<open>OtherException\<close> stands for any exception class the code never names
  (a \<open>KeyError\<close> of a listener, for instance).
\<close>

type_synonym path = "string list"

datatype exn =
    BadRequestException
  | FilepathNotFoundProblem path
  | NoMatchingFormatProblem path
  | FileErrorProblem path
  | ImageParsingProblem path
  | FormatConversionProblem
  | NotImplementedError
  | AssertionError
  | AttributeError
  | ArchiveError
  | FileNotFoundError
  | FileExistsError
  | ZeroDivisionError
  | ValueError
  | OverflowError
  | OtherException string

section \<open>Histogram queries (\<^verbatim>\<open>pims/api/histograms.py\<close>)\<close>

text \<open>
  A raw histogram is the list of its bin counts. \<open>parse_n_bins\<close>, \<open>_histogram_binning\<close>,
  \<open>histogram_formatter\<close>, \<open>is_power_of_2\<close> and the constructor of \<open>HistogramConfig\<close>
  are translated line by line. Python integers are \<open>int\<close>; \<open>%\<close> is \<open>mod\<close> (both
  take the sign of the divisor) and raises \<open>ZeroDivisionError\<close> on a zero divisor.
\<close>

definition parse_n_bins :: "int \<Rightarrow> int \<Rightarrow> int" where
  "parse_n_bins nb hist_len = (if nb \<le> hist_len then nb else hist_len)"

text \<open>
  \<open>hist.reshape((n_bins, -1)).sum(axis=1)\<close> for a one-dimensional array whose length
  \<open>n_bins\<close> divides: row \<open>i\<close> of the reshaped array holds the \<open>len / n_bins\<close> entries
  from index \<open>i * (len / n_bins)\<close> on, and the sum runs along each row.
\<close>

definition reshape_sum :: "nat list \<Rightarrow> nat \<Rightarrow> nat list" where
  "reshape_sum hist n =
     (let k = length hist div n
      in map (\<lambda>i. sum_list (take k (drop (i * k) hist))) [0..<n])"

text \<open>
  \<open>_histogram_binning\<close>. The test \<open>hist.shape[-1] % n_bins != 0\<close> comes first; numpy's
  \<open>reshape\<close> then refuses a negative row count and an empty array with an unknown
  dimension (\<open>ValueError\<close>).
\<close>

definition histogram_binning :: "nat list \<Rightarrow> int \<Rightarrow> exn + nat list" where
  "histogram_binning hist nb =
     (if nb = 0 then Inl ZeroDivisionError
      else if int (length hist) mod nb \<noteq> 0 then Inl BadRequestException
      else if nb < 0 \<or> hist = [] then Inl ValueError
      else Inr (reshape_sum hist (nat nb)))"

text \<open>
  Modelled from the spec: \<open>argmin_nonzero\<close> and \<open>argmax_nonzero\<close> of
  \<^verbatim>\<open>pims/files/histogram.py\<close>, which is not among the sources. The spec calls the
  tight bounds "the first and last non-zero-count bin index in a histogram". It does not
  say what they are for a histogram with no non-zero bin; the definitions give 0 there
  and no theorem below rests on that choice.
\<close>

definition argmin_nonzero :: "nat list \<Rightarrow> int" where
  "argmin_nonzero xs =
     (if list_all (\<lambda>x. x = 0) xs then 0
      else int (length (takeWhile (\<lambda>x. x = 0) xs)))"

definition argmax_nonzero :: "nat list \<Rightarrow> int" where
  "argmax_nonzero xs =
     (if list_all (\<lambda>x. x = 0) xs then 0
      else int (length xs - 1 - length (takeWhile (\<lambda>x. x = 0) (rev xs))))"

text \<open>
  Python's slice \<open>xs[a:b]\<close> of a sequence: a negative index counts from the end, and
  both ends are clipped to the sequence.
\<close>

definition slice_index :: "int \<Rightarrow> nat \<Rightarrow> nat" where
  "slice_index i n = (if i < 0 then nat (max 0 (i + int n)) else min (nat i) n)"

definition py_slice :: "'a list \<Rightarrow> int \<Rightarrow> int \<Rightarrow> 'a list" where
  "py_slice xs a b =
     (let lo = slice_index a (length xs); hi = slice_index b (length xs)
      in take (hi - lo) (drop lo xs))"

text \<open>The dictionary that \<open>histogram_formatter\<close> returns, one field per key.\<close>

record histogram_response =
  histogram :: "nat list"
  first_bin :: int
  last_bin :: int
  minimum :: int
  maximum :: int
  n_bins :: int

definition histogram_formatter ::
  "nat list \<Rightarrow> int \<times> int \<Rightarrow> int \<Rightarrow> bool \<Rightarrow> exn + histogram_response" where
  "histogram_formatter hist bounds nb full_range =
     (if nb = int (length hist) then
        (let bin_bounds = bounds;
             hist1 = (if \<not> full_range
                      then py_slice hist (fst bin_bounds) (snd bin_bounds + 1) else hist)
         in Inr \<lparr>histogram = hist1, first_bin = fst bin_bounds, last_bin = snd bin_bounds,
                 minimum = fst bounds, maximum = snd bounds, n_bins = nb\<rparr>)
      else
        (case histogram_binning hist nb of
           Inl e \<Rightarrow> Inl e
         | Inr binned \<Rightarrow>
            (let bin_bounds = (argmin_nonzero binned, argmax_nonzero binned);
                 hist1 = (if \<not> full_range
                          then py_slice binned (fst bin_bounds) (snd bin_bounds + 1)
                          else binned)
             in Inr \<lparr>histogram = hist1, first_bin = fst bin_bounds,
                     last_bin = snd bin_bounds,
                     minimum = fst bounds, maximum = snd bounds, n_bins = nb\<rparr>)))"

definition is_power_of_2 :: "int \<Rightarrow> bool" where
  "is_power_of_2 n = ((n AND (n - 1) = 0) \<and> n \<noteq> 0)"

text \<open>
  \<open>HistogramConfig.__init__\<close>: the query parameters of every histogram endpoint, refused
  with a bad request when \<open>n_bins\<close> is not a power of two.
\<close>

record HistogramConfig =
  cfg_n_bins :: int
  cfg_full_range :: bool

definition HistogramConfig_init :: "int \<Rightarrow> bool \<Rightarrow> exn + HistogramConfig" where
  "HistogramConfig_init nb full_range =
     (if \<not> is_power_of_2 nb then Inl BadRequestException
      else Inr \<lparr>cfg_n_bins = nb, cfg_full_range = full_range\<rparr>)"

text \<open>
  \<open>Image.max_value\<close> and \<open>Image.value_range\<close> of \<^verbatim>\<open>pims/files/image.py\<close>, as functions
  of the image's \<open>significant_bits\<close>: \<open>2 ** significant_bits - 1\<close> and
  \<open>range(0, max_value + 1)\<close>.
\<close>

definition max_value :: "nat \<Rightarrow> int" where
  "max_value significant_bits = 2 ^ significant_bits - 1"

definition value_range :: "nat \<Rightarrow> int list" where
  "value_range significant_bits = [0..max_value significant_bits]"

text \<open>
  What a histogram endpoint needs of the spatial image: its significant bits, and the
  stored histogram with its stored bounds for the scope that is asked for.
\<close>

record histogram_source =
  significant_bits :: nat
  stored_histogram :: "nat list"
  stored_bounds :: "int \<times> int"

text \<open>
  The built-in \<open>len\<close>, applied to a \<open>range\<close>. It answers with a C \<open>Py_ssize_t\<close> and
  raises \<open>OverflowError\<close> for a range of more than \<open>sys.maxsize\<close> elements; on the 64-bit
  builds of CPython \<open>sys.maxsize\<close> is \<open>2 ** 63 - 1\<close>.
\<close>

definition sys_maxsize :: int where
  "sys_maxsize = 2 ^ 63 - 1"

definition len_range :: "int list \<Rightarrow> exn + int" where
  "len_range r =
     (if sys_maxsize < int (length r) then Inl OverflowError else Inr (int (length r)))"

text \<open>
  The bin count an endpoint uses (\<open>show_image_histogram\<close>, \<open>show_channels_histogram\<close> and
  \<open>show_plane_histogram\<close> all compute it the same way):
  \<open>parse_n_bins(hist_config.n_bins, len(in_image.value_range))\<close>, where \<open>len\<close> may raise.
\<close>

definition effective_n_bins :: "HistogramConfig \<Rightarrow> histogram_source \<Rightarrow> exn + int" where
  "effective_n_bins cfg img =
     (case len_range (value_range (significant_bits img)) of
        Inl e \<Rightarrow> Inl e
      | Inr hist_len \<Rightarrow> Inr (parse_n_bins (cfg_n_bins cfg) hist_len))"

text \<open>
  \<open>show_image_histogram\<close>, from the query parameters to the formatted histogram. The
  dependency \<open>HistogramConfig\<close> is built first, so a bad bin count is refused before the
  image is read; the bin count is computed before the stored histogram is read.
\<close>

definition show_image_histogram ::
  "histogram_source \<Rightarrow> int \<Rightarrow> bool \<Rightarrow> exn + histogram_response" where
  "show_image_histogram img nb full_range =
     (case HistogramConfig_init nb full_range of
        Inl e \<Rightarrow> Inl e
      | Inr cfg \<Rightarrow>
          (case effective_n_bins cfg img of
             Inl e \<Rightarrow> Inl e
           | Inr n \<Rightarrow>
               histogram_formatter (stored_histogram img) (stored_bounds img)
                 n (cfg_full_range cfg)))"

text \<open>
  The spec's "first and last non-zero bin" of a histogram, as predicates on a bin index.
\<close>

definition is_first_nonzero :: "nat list \<Rightarrow> int \<Rightarrow> bool" where
  "is_first_nonzero xs b =
     (0 \<le> b \<and> nat b < length xs \<and> xs ! nat b \<noteq> 0 \<and> (\<forall>j < nat b. xs ! j = 0))"

definition is_last_nonzero :: "nat list \<Rightarrow> int \<Rightarrow> bool" where
  "is_last_nonzero xs b =
     (0 \<le> b \<and> nat b < length xs \<and> xs ! nat b \<noteq> 0
      \<and> (\<forall>j. nat b < j \<and> j < length xs \<longrightarrow> xs ! j = 0))"

text \<open>A three-bit image with an eight-bin stored histogram, to evaluate the endpoints on.\<close>

definition hist_src8 :: histogram_source where
  "hist_src8 = \<lparr>significant_bits = 3, stored_histogram = [0, 1, 2, 0, 4, 0, 0, 0],
                stored_bounds = (1, 4)\<rparr>"

text \<open>
  A 64-bit image (a TIFF with 64 bits per sample), of which only the significant bits
  matter to the bin count: the stored histogram is not read before the count is known.
\<close>

definition hist_src64 :: histogram_source where
  "hist_src64 = \<lparr>significant_bits = 64, stored_histogram = [], stored_bounds = (0, 0)\<rparr>"

section \<open>The normalized pyramid\<close>

text \<open>
  \<open>Image.normalized_pyramid\<close> of \<^verbatim>\<open>pims/files/image.py\<close> returns
  \<open>normalized_pyramid(self.width, self.height)\<close>; the function itself lives in
  \<^verbatim>\<open>pims/formats/utils/pyramid.py\<close>, which is not among the sources.

  Modelled from the spec: \<open>synthesize_normalized(width, height, min_tier_dim, tile_size)\<close>
  of the spec's section 4.3, in place of the missing \<open>normalized_pyramid\<close>. "Starting
  from (width, height), repeatedly halve both dimensions (integer division, floor) until
  both are below \<open>min_tier_dim\<close>, recording one tier per halving step including the base
  [...] Tile dimensions are fixed and identical across tiers [...] Edge case: if base
  width or height is already below \<open>min_tier_dim\<close>, the pyramid has exactly one tier."
  A tier keeps its width, height and tile dimensions; the downsampling factor, a float,
  and the tile counts derived from these fields are left out. The loop of the spec may
  run forever, so it is a partial function: \<open>None\<close> is "does not return".
\<close>

record PyramidTier =
  width :: nat
  height :: nat
  tile_width :: nat
  tile_height :: nat

definition make_tier :: "nat \<Rightarrow> nat \<Rightarrow> nat \<Rightarrow> PyramidTier" where
  "make_tier w h t = \<lparr>width = w, height = h, tile_width = t, tile_height = t\<rparr>"

partial_function (option) halve_until_below ::
  "nat \<Rightarrow> nat \<Rightarrow> nat \<Rightarrow> nat \<Rightarrow> PyramidTier list \<Rightarrow> PyramidTier list option" where
  "halve_until_below w h m t tiers =
     (if w < m \<and> h < m then Some tiers
      else halve_until_below (w div 2) (h div 2) m t
             (tiers @ [make_tier (w div 2) (h div 2) t]))"

definition synthesize_normalized ::
  "nat \<Rightarrow> nat \<Rightarrow> nat \<Rightarrow> nat \<Rightarrow> PyramidTier list option" where
  "synthesize_normalized w h m t =
     (if w < m \<or> h < m then Some [make_tier w h t]
      else halve_until_below w h m t [make_tier w h t])"

section \<open>The import pipeline (\<^verbatim>\<open>pims/importer/importer.py\<close>)\<close>

subsection \<open>Events and listeners\<close>

text \<open>
  \<open>ImportEventType\<close> is imported from \<^verbatim>\<open>pims/importer/listeners.py\<close>; the importer uses
  the members below. An event is the member with the arguments that \<open>notify\<close> passes on
  (positional and keyword arguments in the order of the call): paths, a format (by its
  identifier), an exception, the list of integrity errors, a flag. An image argument is
  given by its path, since \<open>Image\<close> is a subclass of \<open>Path\<close>.
\<close>

datatype ImportEventType =
    START_DATA_EXTRACTION | END_DATA_EXTRACTION | MOVED_PENDING_FILE
  | FILE_NOT_FOUND | FILE_NOT_MOVED | FILE_ERROR
  | START_FORMAT_DETECTION | END_FORMAT_DETECTION | ERROR_NO_FORMAT
  | START_UNPACKING | END_UNPACKING | ERROR_UNPACKING | REGISTER_FILE
  | START_INTEGRITY_CHECK | END_INTEGRITY_CHECK | ERROR_INTEGRITY_CHECK
  | START_SPATIAL_DEPLOY | END_SPATIAL_DEPLOY
  | START_CONVERSION | END_CONVERSION | ERROR_CONVERSION
  | START_HISTOGRAM_DEPLOY | END_HISTOGRAM_DEPLOY | ERROR_HISTOGRAM
  | END_SUCCESSFUL_IMPORT

datatype arg =
    APath path | ANone | AFormat string | AErrors "(string \<times> exn) list" | AExc exn
  | AFlag bool

type_synonym event = "ImportEventType \<times> arg list"

text \<open>
  What \<open>getattr(logger, method)(*args, **kwargs)\<close> does for one listener: the listener
  has no such method (\<open>getattr\<close> raises \<open>AttributeError\<close>), or its handler runs and
  returns, or its handler runs and raises. A listener is an object with a state of its
  own, so its answer to an event may depend on the events it has handled before: the
  handler takes that history. \<open>is_cytomine\<close> is \<open>isinstance(logger, CytomineListener)\<close>;
  \<open>new_listener_ok child\<close> says whether \<open>new_listener_from_registered_child(child)\<close>
  returns rather than raises.
\<close>

datatype outcome = Returns | Raises exn | NoHandler

record listener =
  handler :: "event list \<Rightarrow> event \<Rightarrow> outcome"
  is_cytomine :: bool
  new_listener_ok :: "path \<Rightarrow> bool"

subsection \<open>The file system\<close>

text \<open>
  The file system maps a path to what is there: a regular file, a directory or a
  symbolic link with its target. Only the entries the importer itself names are
  tracked; the content of an extracted archive is behind \<open>get_extracted_children\<close>.
  Looking a path up follows at most 40 links, as Linux does. Permission errors are not
  modelled.
\<close>

datatype node = File | Dir | Link path

type_synonym filesystem = "path \<Rightarrow> node option"

fun resolve :: "nat \<Rightarrow> filesystem \<Rightarrow> path \<Rightarrow> (path \<times> node) option" where
  "resolve 0 fsys p = None"
| "resolve (Suc n) fsys p =
     (case fsys p of
        None \<Rightarrow> None
      | Some nd \<Rightarrow>
          (case nd of Link q \<Rightarrow> resolve n fsys q | File \<Rightarrow> Some (p, File)
           | Dir \<Rightarrow> Some (p, Dir)))"

definition path_exists :: "filesystem \<Rightarrow> path \<Rightarrow> bool" where
  "path_exists fsys p = (case resolve 40 fsys p of None \<Rightarrow> False | Some _ \<Rightarrow> True)"

definition is_dir :: "filesystem \<Rightarrow> path \<Rightarrow> bool" where
  "is_dir fsys p =
     (case resolve 40 fsys p of
        None \<Rightarrow> False
      | Some pn \<Rightarrow> (case snd pn of Dir \<Rightarrow> True | File \<Rightarrow> False | Link _ \<Rightarrow> False))"

definition parent :: "path \<Rightarrow> path" where
  "parent p = butlast p"

definition path_name :: "path \<Rightarrow> string" where
  "path_name p = (if p = [] then [] else last p)"

text \<open>\<open>Path.mkdir\<close>, \<open>shutil.move\<close>, \<open>shutil.copy\<close> and \<open>Path.symlink_to\<close>.\<close>

definition fs_mkdir :: "filesystem \<Rightarrow> path \<Rightarrow> exn + filesystem" where
  "fs_mkdir fsys d =
     (case fsys d of
        Some _ \<Rightarrow> Inl FileExistsError
      | None \<Rightarrow> if \<not> is_dir fsys (parent d) then Inl FileNotFoundError
                else Inr (fsys(d \<mapsto> Dir)))"

definition fs_move :: "filesystem \<Rightarrow> path \<Rightarrow> path \<Rightarrow> exn + filesystem" where
  "fs_move fsys origin dest =
     (case fsys origin of
        None \<Rightarrow> Inl FileNotFoundError
      | Some nd \<Rightarrow> if \<not> is_dir fsys (parent dest) then Inl FileNotFoundError
                   else Inr ((fsys(origin := None))(dest \<mapsto> nd)))"

definition fs_copy :: "filesystem \<Rightarrow> path \<Rightarrow> path \<Rightarrow> exn + filesystem" where
  "fs_copy fsys origin dest =
     (case resolve 40 fsys origin of
        None \<Rightarrow> Inl FileNotFoundError
      | Some pn \<Rightarrow>
          (case snd pn of
             Dir \<Rightarrow> Inl (OtherException ''IsADirectoryError'')
           | _ \<Rightarrow> if \<not> is_dir fsys (parent dest) then Inl FileNotFoundError
                  else Inr (fsys(dest \<mapsto> File))))"

definition fs_symlink :: "filesystem \<Rightarrow> path \<Rightarrow> path \<Rightarrow> exn + filesystem" where
  "fs_symlink fsys p target =
     (case fsys p of
        Some _ \<Rightarrow> Inl FileExistsError
      | None \<Rightarrow> if \<not> is_dir fsys (parent p) then Inl FileNotFoundError
                else Inr (fsys(p \<mapsto> Link target)))"

subsection \<open>Formats, archives and images\<close>

text \<open>
  The format plugins, the archive reader and the histogram builder are not among the
  sources; the importer only calls them. A format is what the importer reads of it:
  \<open>get_identifier()\<close>, \<open>is_spatial()\<close>, \<open>need_conversion\<close>, the identifier of
  \<open>conversion_format()\<close> (or what that call raises), and what \<open>convert(target)\<close> does:
  it raises, or it returns a truth value and leaves the target present or absent.
  An archive has its format and what \<open>extract(target)\<close> does: it raises, or it leaves a
  file or a directory at the target.
\<close>

record format =
  get_identifier :: string
  is_spatial :: bool
  need_conversion :: bool
  conversion_format :: "exn + string"
  convert :: "exn + bool \<times> bool"

record archive =
  archive_format :: format
  archive_extract :: "exn + node"

text \<open>
  An \<open>Image\<close> is a path with its format; \<open>getattr_raises attr\<close> is the exception that
  reading the attribute \<open>attr\<close> raises, if it raises.
\<close>

record image =
  image_path :: path
  image_format :: format
  getattr_raises :: "string \<Rightarrow> exn option"

text \<open>\<open>Image.check_integrity\<close> of \<^verbatim>\<open>pims/files/image.py\<close>, with its loop over the attributes.\<close>

definition metadata_attributes :: "string list" where
  "metadata_attributes =
     [''width'', ''height'', ''depth'', ''duration'', ''n_channels'', ''pixel_type'',
      ''physical_size_x'', ''physical_size_y'', ''physical_size_z'', ''frame_rate'',
      ''description'', ''acquisition_datetime'', ''channels'', ''objective'',
      ''microscope'',
      ''associated_thumb'', ''associated_label'', ''associated_macro'',
      ''raw_metadata'', ''pyramid'']"

fun check_attributes ::
  "bool \<Rightarrow> (string \<Rightarrow> exn option) \<Rightarrow> string list \<Rightarrow> (string \<times> exn) list
     \<Rightarrow> (string \<times> exn) list" where
  "check_attributes lazy_mode getattr [] errors = errors"
| "check_attributes lazy_mode getattr (attr # attributes) errors =
     (case getattr attr of
        None \<Rightarrow> check_attributes lazy_mode getattr attributes errors
      | Some e \<Rightarrow>
          if lazy_mode then errors @ [(attr, e)]
          else check_attributes lazy_mode getattr attributes (errors @ [(attr, e)]))"

definition check_integrity :: "image \<Rightarrow> bool \<Rightarrow> bool \<Rightarrow> (string \<times> exn) list" where
  "check_integrity img lazy_mode metadata =
     (if metadata then check_attributes lazy_mode (getattr_raises img) metadata_attributes []
      else [])"

subsection \<open>The environment of an import\<close>

text \<open>
  Everything the importer asks of code outside \<^verbatim>\<open>importer.py\<close>: the settings
  (\<open>PENDING_PATH\<close>, \<open>FILE_ROOT_PATH\<close>), the name of the fresh upload directory
  (\<open>UPLOAD_DIR_PREFIX\<close> followed by \<open>unique_name_generator()\<close>), \<open>Path.is_extracted\<close>, the
  two format factories, \<open>Archive.from_path\<close>, the metadata parser behind the attributes
  of an image, \<open>Path.get_spatial\<close>, \<open>build_histogram_file\<close> (the exception it raises, if
  any), the three role tests of the assertions, \<open>get_extracted_children\<close>, and what
  waiting for the group of child tasks raises, if anything.
\<close>

record env =
  PENDING_PATH :: path
  FILE_ROOT_PATH :: path
  upload_dir_name :: string
  is_extracted :: "path \<Rightarrow> bool"
  FormatFactory_match :: "filesystem \<Rightarrow> path \<Rightarrow> format option"
  SpatialReadableFormatFactory_match :: "filesystem \<Rightarrow> path \<Rightarrow> format option"
  Archive_from_path :: "filesystem \<Rightarrow> path \<Rightarrow> archive option"
  metadata_raises :: "path \<Rightarrow> format \<Rightarrow> string \<Rightarrow> exn option"
  get_spatial :: "filesystem \<Rightarrow> image \<Rightarrow> image option"
  build_histogram_file :: "filesystem \<Rightarrow> image option \<Rightarrow> path \<Rightarrow> exn option"
  has_original_role :: "path \<Rightarrow> bool"
  has_spatial_role :: "path \<Rightarrow> bool"
  has_histogram_role :: "path \<Rightarrow> bool"
  get_extracted_children :: "filesystem \<Rightarrow> path \<Rightarrow> path list"
  group_get :: "(string \<times> path) list \<Rightarrow> exn option"

text \<open>
  Modelled from the spec: the constants of \<^verbatim>\<open>pims/files/file.py\<close>, which is not among
  the sources, after the file system layout of the spec's section 6
  (\<open>processed/original.<format-id>\<close>, \<open>processed/spatial.<format-id>\<close>,
  \<open>processed/histogram\<close>, \<open>processed/extracted/\<close>).
\<close>

definition PROCESSED_DIR :: string where "PROCESSED_DIR = ''processed''"
definition ORIGINAL_STEM :: string where "ORIGINAL_STEM = ''original''"
definition SPATIAL_STEM :: string where "SPATIAL_STEM = ''spatial''"
definition HISTOGRAM_STEM :: string where "HISTOGRAM_STEM = ''histogram''"
definition EXTRACTED_DIR :: string where "EXTRACTED_DIR = ''extracted''"

text \<open>\<open>Image(path, format=format)\<close>, for a format that is not \<open>None\<close>.\<close>

definition Image_init :: "env \<Rightarrow> path \<Rightarrow> format \<Rightarrow> image" where
  "Image_init ev p f =
     \<lparr>image_path = p, image_format = f, getattr_raises = metadata_raises ev p f\<rparr>"

subsection \<open>State and control flow\<close>

text \<open>
  The state of an import: the file system, the attributes of the \<open>FileImporter\<close> (\<open>None\<close>
  until \<open>run\<close> sets them), the task signatures handed to the worker pool, and two traces
  that the code does not keep but the claims speak of: \<open>emitted\<close>, the calls of
  \<open>notify\<close> in order, and \<open>delivered\<close>, the handler invocations in order, each with the
  index of its listener.
\<close>

record state =
  fs :: filesystem
  emitted :: "event list"
  delivered :: "(nat \<times> event) list"
  dispatched :: "(string \<times> path) list"
  upload_dir :: "path option"
  upload_path :: "path option"
  original_path :: "path option"
  spatial_path :: "path option"
  histogram_path :: "path option"
  processed_dir :: "path option"
  extracted_dir :: "path option"
  original :: "image option"
  spatial :: "image option"

definition initial_state :: "filesystem \<Rightarrow> state" where
  "initial_state fsys =
     \<lparr>fs = fsys, emitted = [], delivered = [], dispatched = [],
      upload_dir = None, upload_path = None, original_path = None, spatial_path = None,
      histogram_path = None, processed_dir = None, extracted_dir = None,
      original = None, spatial = None\<rparr>"

text \<open>
  A statement sequence is a function from the state to a result and the new state; the
  result is \<open>Inl\<close> of the exception that was raised or \<open>Inr\<close> of the value.
  \<open>try_except body handler\<close> is \<open>try: body except Exception as e: handler(e)\<close>.
\<close>

type_synonym 'a action = "state \<Rightarrow> (exn + 'a) \<times> state"

definition returnE :: "'a \<Rightarrow> 'a action" where
  "returnE x = (\<lambda>s. (Inr x, s))"

definition raise :: "exn \<Rightarrow> 'a action" where
  "raise e = (\<lambda>s. (Inl e, s))"

definition bindE :: "'a action \<Rightarrow> ('a \<Rightarrow> 'b action) \<Rightarrow> 'b action" where
  "bindE m f = (\<lambda>s. case m s of (Inl e, s1) \<Rightarrow> (Inl e, s1) | (Inr x, s1) \<Rightarrow> f x s1)"

definition thenE :: "'a action \<Rightarrow> 'b action \<Rightarrow> 'b action" where
  "thenE m n = bindE m (\<lambda>_. n)"

definition try_except :: "'a action \<Rightarrow> (exn \<Rightarrow> 'a action) \<Rightarrow> 'a action" where
  "try_except m h = (\<lambda>s. case m s of (Inl e, s1) \<Rightarrow> h e s1 | (Inr x, s1) \<Rightarrow> (Inr x, s1))"

definition gets :: "(state \<Rightarrow> 'a) \<Rightarrow> 'a action" where
  "gets f = (\<lambda>s. (Inr (f s), s))"

definition modify :: "(state \<Rightarrow> state) \<Rightarrow> unit action" where
  "modify f = (\<lambda>s. (Inr (), f s))"

definition arg_of_path :: "path option \<Rightarrow> arg" where
  "arg_of_path p = (case p of None \<Rightarrow> ANone | Some q \<Rightarrow> APath q)"

definition arg_of_image :: "image option \<Rightarrow> arg" where
  "arg_of_image i = (case i of None \<Rightarrow> ANone | Some img \<Rightarrow> APath (image_path img))"

subsection \<open>\<open>FileImporter.notify\<close>\<close>

text \<open>
  The loop over \<open>self.loggers\<close>. A listener without the method is skipped (the
  \<open>AttributeError\<close> of \<open>getattr\<close> is caught); so is a handler that raises
  \<open>AttributeError\<close> itself, since the \<open>try\<close> spans the call; any other exception of a
  handler leaves the loop and \<open>notify\<close>.
\<close>

definition history :: "nat \<Rightarrow> (nat \<times> event) list \<Rightarrow> event list" where
  "history i d = map snd (filter (\<lambda>je. fst je = i) d)"

fun notify_from :: "nat \<Rightarrow> listener list \<Rightarrow> event \<Rightarrow> unit action" where
  "notify_from i [] ev = returnE ()"
| "notify_from i (logger # loggers) ev =
     (\<lambda>s. case handler logger (history i (delivered s)) ev of
            NoHandler \<Rightarrow> notify_from (Suc i) loggers ev s
          | Returns \<Rightarrow>
              notify_from (Suc i) loggers ev (s\<lparr>delivered := delivered s @ [(i, ev)]\<rparr>)
          | Raises e \<Rightarrow>
              if e = AttributeError
              then notify_from (Suc i) loggers ev (s\<lparr>delivered := delivered s @ [(i, ev)]\<rparr>)
              else (Inl e, s\<lparr>delivered := delivered s @ [(i, ev)]\<rparr>))"

definition notify :: "listener list \<Rightarrow> ImportEventType \<Rightarrow> arg list \<Rightarrow> unit action" where
  "notify loggers method args =
     (\<lambda>s. notify_from 0 loggers (method, args) (s\<lparr>emitted := emitted s @ [(method, args)]\<rparr>))"

subsection \<open>\<open>mkdir\<close>, \<open>move\<close> and \<open>mksymlink\<close>\<close>

definition mkdir :: "listener list \<Rightarrow> path \<Rightarrow> unit action" where
  "mkdir loggers directory =
     (\<lambda>s. case fs_mkdir (fs s) directory of
            Inr fs1 \<Rightarrow> (Inr (), s\<lparr>fs := fs1\<rparr>)
          | Inl e \<Rightarrow>
              thenE (notify loggers FILE_ERROR [APath directory, AExc e])
                (raise (FileErrorProblem directory)) s)"

definition move :: "listener list \<Rightarrow> path \<Rightarrow> path \<Rightarrow> bool \<Rightarrow> unit action" where
  "move loggers origin dest prefer_copy =
     (\<lambda>s. case (if prefer_copy then fs_copy (fs s) origin dest
                 else fs_move (fs s) origin dest) of
            Inr fs1 \<Rightarrow> (Inr (), s\<lparr>fs := fs1\<rparr>)
          | Inl e \<Rightarrow>
              thenE (notify loggers FILE_NOT_MOVED [APath origin, AExc e])
                (raise (FileErrorProblem origin)) s)"

definition mksymlink :: "listener list \<Rightarrow> path \<Rightarrow> path \<Rightarrow> unit action" where
  "mksymlink loggers p target =
     (\<lambda>s. case fs_symlink (fs s) p target of
            Inr fs1 \<Rightarrow> (Inr (), s\<lparr>fs := fs1\<rparr>)
          | Inl e \<Rightarrow>
              thenE (notify loggers FILE_ERROR [APath p, AExc e])
                (raise (FileErrorProblem p)) s)"

subsection \<open>\<open>FileImporter.import_collection\<close>\<close>

text \<open>
  The loop registers every child and appends a task signature for it unless building
  the signature raises (the Cytomine listener's \<open>new_listener_from_registered_child\<close>
  may); the group of tasks runs on the workers and \<open>r.get()\<close> waits for it. The list
  \<open>imported\<close> is created empty, is never appended to, and is returned.
\<close>

fun register_children ::
  "listener list \<Rightarrow> listener option \<Rightarrow> string \<Rightarrow> path \<Rightarrow> path list
     \<Rightarrow> (string \<times> path) list \<Rightarrow> (string \<times> path) list action" where
  "register_children loggers cytomine task up [] tasks = returnE tasks"
| "register_children loggers cytomine task up (child # children) tasks =
     thenE (notify loggers REGISTER_FILE [APath child, APath up])
       (register_children loggers cytomine task up children
          (case cytomine of
             Some c \<Rightarrow> if new_listener_ok c child then tasks @ [(task, child)] else tasks
           | None \<Rightarrow> tasks @ [(task, child)]))"

definition import_collection ::
  "env \<Rightarrow> listener list \<Rightarrow> path \<Rightarrow> bool \<Rightarrow> path \<Rightarrow> path list action" where
  "import_collection ev loggers collection prefer_copy up =
     (let cytomine = find is_cytomine loggers;
          task = (case cytomine of
                    Some _ \<Rightarrow> ''pims.tasks.worker.run_import_with_cytomine''
                  | None \<Rightarrow> ''pims.tasks.worker.run_import'');
          imported = []
      in bindE (gets fs) (\<lambda>fs1.
         bindE (register_children loggers cytomine task up
                  (get_extracted_children ev fs1 collection) []) (\<lambda>tasks.
         thenE (modify (\<lambda>s. s\<lparr>dispatched := dispatched s @ tasks\<rparr>))
           (case group_get ev tasks of
              Some e \<Rightarrow> raise e
            | None \<Rightarrow> returnE imported))))"

subsection \<open>\<open>FileImporter.run\<close>, up to the original role\<close>

text \<open>Lines 116 to 151: the pending file is checked and moved into a fresh upload directory.\<close>

definition move_pending_file ::
  "env \<Rightarrow> listener list \<Rightarrow> path \<Rightarrow> string option \<Rightarrow> bool \<Rightarrow> (path \<times> path) action" where
  "move_pending_file ev loggers pending_file pending_name prefer_copy =
     thenE (notify loggers START_DATA_EXTRACTION [APath pending_file])
     (bindE (gets fs) (\<lambda>fs0.
      if (\<not> is_extracted ev pending_file \<and> parent pending_file \<noteq> PENDING_PATH ev)
         \<or> \<not> path_exists fs0 pending_file
      then thenE (notify loggers FILE_NOT_FOUND [APath pending_file])
             (raise (FilepathNotFoundProblem pending_file))
      else
       (let udir = FILE_ROOT_PATH ev @ [upload_dir_name ev];
            name = (case pending_name of
                      None \<Rightarrow> path_name pending_file
                    | Some n \<Rightarrow> if n \<noteq> [] then n else path_name pending_file);
            up = udir @ [name]
        in thenE (modify (\<lambda>s. s\<lparr>upload_dir := Some udir\<rparr>))
          (thenE (mkdir loggers udir)
          (thenE (modify (\<lambda>s. s\<lparr>upload_path := Some up\<rparr>))
          (thenE (move loggers pending_file up prefer_copy)
          (thenE (if \<not> prefer_copy \<and> is_extracted ev pending_file
                  then mksymlink loggers pending_file up else returnE ())
          (thenE (notify loggers MOVED_PENDING_FILE [APath pending_file, APath up])
          (thenE (notify loggers END_DATA_EXTRACTION [APath up])
          (returnE (udir, up)))))))))))"

text \<open>Lines 153 to 170: the format of the upload, or of the archive it is.\<close>

definition identify_format ::
  "env \<Rightarrow> listener list \<Rightarrow> path \<Rightarrow> (format \<times> archive option) action" where
  "identify_format ev loggers up =
     thenE (notify loggers START_FORMAT_DETECTION [APath up])
     (bindE (gets fs) (\<lambda>fs1.
      case FormatFactory_match ev fs1 up of
        Some f \<Rightarrow>
          thenE (notify loggers END_FORMAT_DETECTION [APath up, AFormat (get_identifier f)])
            (returnE (f, None))
      | None \<Rightarrow>
          (case Archive_from_path ev fs1 up of
             Some a \<Rightarrow>
               thenE (notify loggers END_FORMAT_DETECTION
                        [APath up, AFormat (get_identifier (archive_format a))])
                 (returnE (archive_format a, Some a))
           | None \<Rightarrow>
               thenE (notify loggers ERROR_NO_FORMAT [APath up])
                 (raise (NoMatchingFormatProblem up)))))"

text \<open>
  Lines 172 to 224: the processed directory and the original role. The result is either
  the early \<open>return collection\<close> or what the rest of \<open>run\<close> goes on with: the format,
  \<open>self.original_path\<close>, \<open>self.upload_path\<close> and \<open>self.processed_dir\<close>.
\<close>

datatype original_role = Collection "path list" | Single format path path path

definition role_filename :: "string \<Rightarrow> string \<Rightarrow> string" where
  "role_filename stem identifier = stem @ ''.'' @ identifier"

definition extract_archive :: "archive \<Rightarrow> path \<Rightarrow> unit action" where
  "extract_archive a target =
     (\<lambda>s. case archive_extract a of
            Inl e \<Rightarrow> (Inl e, s)
          | Inr nd \<Rightarrow> (Inr (), s\<lparr>fs := (fs s)(target \<mapsto> nd)\<rparr>))"

definition create_original_role ::
  "env \<Rightarrow> listener list \<Rightarrow> bool \<Rightarrow> path \<Rightarrow> path \<Rightarrow> format \<Rightarrow> archive option
     \<Rightarrow> original_role action" where
  "create_original_role ev loggers prefer_copy udir up f arch =
     (let pdir = udir @ [PROCESSED_DIR];
          opath = pdir @ [role_filename ORIGINAL_STEM (get_identifier f)]
      in thenE (modify (\<lambda>s. s\<lparr>processed_dir := Some pdir\<rparr>))
        (thenE (mkdir loggers pdir)
        (thenE (modify (\<lambda>s. s\<lparr>original_path := Some opath\<rparr>))
        (case arch of
           Some a \<Rightarrow>
             thenE
               (try_except
                  (thenE (notify loggers START_UNPACKING [APath up])
                     (extract_archive a opath))
                  (\<lambda>e. if e = ArchiveError
                        then thenE (notify loggers ERROR_UNPACKING [APath up, AExc e])
                               (raise (FileErrorProblem up))
                        else raise e))
               (bindE (gets fs) (\<lambda>fs1.
                case FormatFactory_match ev fs1 opath of
                  Some f2 \<Rightarrow>
                    (let new_opath = pdir @ [role_filename ORIGINAL_STEM (get_identifier f2)]
                     in thenE (move loggers opath new_opath False)
                       (thenE (modify (\<lambda>s. s\<lparr>original_path := Some new_opath\<rparr>))
                       (thenE (notify loggers END_UNPACKING
                                 [APath up, APath new_opath, AFormat (get_identifier f2),
                                  AFlag False])
                       (thenE (modify (\<lambda>s. s\<lparr>upload_path := Some new_opath\<rparr>))
                       (returnE (Single f2 new_opath new_opath pdir))))))
                | None \<Rightarrow>
                    (let edir = pdir @ [EXTRACTED_DIR]
                     in thenE (modify (\<lambda>s. s\<lparr>extracted_dir := Some edir\<rparr>))
                       (thenE (mksymlink loggers edir opath)
                       (bindE (import_collection ev loggers opath prefer_copy up)
                          (\<lambda>collection.
                       thenE (notify loggers END_UNPACKING
                                [APath up, APath opath, AFlag True])
                         (returnE (Collection collection))))))))
         | None \<Rightarrow>
             thenE (mksymlink loggers opath up)
               (if has_original_role ev opath then returnE (Single f opath up pdir)
                else raise AssertionError)))))"

definition prepare_original ::
  "env \<Rightarrow> listener list \<Rightarrow> path \<Rightarrow> string option \<Rightarrow> bool \<Rightarrow> original_role action" where
  "prepare_original ev loggers pending_file pending_name prefer_copy =
     bindE (move_pending_file ev loggers pending_file pending_name prefer_copy) (\<lambda>dirs.
     bindE (identify_format ev loggers (snd dirs)) (\<lambda>fa.
     create_original_role ev loggers prefer_copy (fst dirs) (snd dirs) (fst fa) (snd fa)))"

subsection \<open>Reporting the integrity of a representation\<close>

text \<open>
  Lines 229 to 236 of \<open>run\<close> (the original) and lines 302 to 309 of \<open>deploy_spatial\<close>
  (the converted image) are the same statements on two images:
  \<open>check_integrity(metadata=True)\<close>, then the error event with \<open>ImageParsingProblem\<close>
  when the list of errors is not empty, the end event otherwise.
\<close>

definition report_integrity :: "listener list \<Rightarrow> image \<Rightarrow> unit action" where
  "report_integrity loggers img =
     (let errors = check_integrity img False True
      in if length errors > 0
         then thenE (notify loggers ERROR_INTEGRITY_CHECK
                       [APath (image_path img), AErrors errors])
                (raise (ImageParsingProblem (image_path img)))
         else notify loggers END_INTEGRITY_CHECK [APath (image_path img)])"

subsection \<open>\<open>FileImporter.deploy_spatial\<close>\<close>

text \<open>
  The attributes of \<open>self\<close> that the method reads (\<open>original_path\<close>, \<open>processed_dir\<close>,
  \<open>upload_path\<close>) are arguments; \<open>run\<close> has set them before the call. The handler of
  the conversion's \<open>try\<close> reads \<open>self.spatial_path\<close>, which is still \<open>None\<close> when
  \<open>conversion_format()\<close> raised.
\<close>

definition run_convert :: "format \<Rightarrow> path \<Rightarrow> bool action" where
  "run_convert f target =
     (\<lambda>s. case convert f of
            Inl e \<Rightarrow> (Inl e, s)
          | Inr rp \<Rightarrow>
              (Inr (fst rp),
               s\<lparr>fs := (if snd rp then (fs s)(target \<mapsto> File) else (fs s)(target := None))\<rparr>))"

text \<open>Lines 262 to 283.\<close>

definition convert_to_spatial ::
  "listener list \<Rightarrow> format \<Rightarrow> path \<Rightarrow> path \<Rightarrow> path action" where
  "convert_to_spatial loggers f pdir up =
     try_except
       (case conversion_format f of
          Inl e \<Rightarrow> raise e
        | Inr ext \<Rightarrow>
            (let spath = pdir @ [role_filename SPATIAL_STEM ext]
             in thenE (modify (\<lambda>s. s\<lparr>spatial_path := Some spath\<rparr>))
               (thenE (notify loggers START_CONVERSION [APath spath, APath up])
               (bindE (run_convert f spath) (\<lambda>r.
                bindE (gets fs) (\<lambda>fs1.
                if \<not> r \<or> \<not> path_exists fs1 spath
                then thenE (notify loggers ERROR_CONVERSION [APath spath])
                       (raise FormatConversionProblem)
                else returnE spath))))))
       (\<lambda>e. bindE (gets spatial_path) (\<lambda>sp.
             thenE (notify loggers ERROR_CONVERSION [arg_of_path sp, AExc e])
               (raise FormatConversionProblem)))"

text \<open>Lines 285 to 309.\<close>

definition check_converted :: "env \<Rightarrow> listener list \<Rightarrow> path \<Rightarrow> image action" where
  "check_converted ev loggers spath =
     thenE (notify loggers END_CONVERSION [APath spath])
     (thenE (notify loggers START_FORMAT_DETECTION [APath spath])
     (bindE (gets fs) (\<lambda>fs1.
      case SpatialReadableFormatFactory_match ev fs1 spath of
        None \<Rightarrow>
          thenE (notify loggers ERROR_NO_FORMAT [APath spath])
            (raise (NoMatchingFormatProblem spath))
      | Some spatial_format \<Rightarrow>
          thenE (notify loggers END_FORMAT_DETECTION
                   [APath spath, AFormat (get_identifier spatial_format)])
          (thenE (modify (\<lambda>s. s\<lparr>spatial := Some (Image_init ev spath spatial_format)\<rparr>))
          (thenE (notify loggers START_INTEGRITY_CHECK [APath spath])
          (thenE (report_integrity loggers (Image_init ev spath spatial_format))
          (returnE (Image_init ev spath spatial_format))))))))"

definition deploy_spatial ::
  "env \<Rightarrow> listener list \<Rightarrow> format \<Rightarrow> path \<Rightarrow> path \<Rightarrow> path \<Rightarrow> image action" where
  "deploy_spatial ev loggers f opath pdir up =
     thenE (notify loggers START_SPATIAL_DEPLOY [APath opath])
     (bindE
        (if need_conversion f
         then bindE (convert_to_spatial loggers f pdir up) (check_converted ev loggers)
         else
          (let spath = pdir @ [role_filename SPATIAL_STEM (get_identifier f)]
           in thenE (modify (\<lambda>s. s\<lparr>spatial_path := Some spath\<rparr>))
             (thenE (mksymlink loggers spath opath)
             (thenE (modify (\<lambda>s. s\<lparr>spatial := Some (Image_init ev spath f)\<rparr>))
             (returnE (Image_init ev spath f))))))
        (\<lambda>img. if has_spatial_role ev (image_path img)
               then thenE (notify loggers END_SPATIAL_DEPLOY [APath (image_path img)])
                      (returnE img)
               else raise AssertionError))"

subsection \<open>\<open>FileImporter.deploy_histogram\<close>\<close>

definition deploy_histogram ::
  "env \<Rightarrow> listener list \<Rightarrow> image option \<Rightarrow> path \<Rightarrow> path action" where
  "deploy_histogram ev loggers img pdir =
     (let hpath = pdir @ [HISTOGRAM_STEM]
      in thenE (modify (\<lambda>s. s\<lparr>histogram_path := Some hpath\<rparr>))
        (thenE (notify loggers START_HISTOGRAM_DEPLOY [APath hpath, arg_of_image img])
        (bindE (gets fs) (\<lambda>fs1.
         case build_histogram_file ev fs1 img hpath of
           Some e \<Rightarrow>
             if e = FileNotFoundError \<or> e = FileExistsError
             then thenE (notify loggers ERROR_HISTOGRAM [APath hpath, arg_of_image img, AExc e])
                    (raise (FileErrorProblem hpath))
             else raise e
         | None \<Rightarrow>
             thenE (modify (\<lambda>s. s\<lparr>fs := (fs s)(hpath \<mapsto> File)\<rparr>))
               (if has_histogram_role ev hpath
                then thenE (notify loggers END_HISTOGRAM_DEPLOY [APath hpath, arg_of_image img])
                       (returnE hpath)
                else raise AssertionError)))))"

subsection \<open>\<open>FileImporter.run\<close>\<close>

text \<open>Lines 226 to 250, after the original role exists or the collection was returned.\<close>

definition finish_import :: "env \<Rightarrow> listener list \<Rightarrow> original_role \<Rightarrow> path list action" where
  "finish_import ev loggers role =
     (case role of
        Collection collection \<Rightarrow> returnE collection
      | Single f opath up pdir \<Rightarrow>
          thenE (notify loggers START_INTEGRITY_CHECK [APath opath])
          (thenE (modify (\<lambda>s. s\<lparr>original := Some (Image_init ev opath f)\<rparr>))
          (thenE (report_integrity loggers (Image_init ev opath f))
          (thenE (if is_spatial f then deploy_spatial ev loggers f opath pdir up
                  else raise NotImplementedError)
          (bindE (gets fs) (\<lambda>fs1.
           thenE (deploy_histogram ev loggers (get_spatial ev fs1 (Image_init ev opath f)) pdir)
          (thenE (notify loggers END_SUCCESSFUL_IMPORT [APath up, APath opath])
          (returnE [up]))))))))"

text \<open>The whole of \<open>run\<close>, with its \<open>except Exception as e\<close> around the body.\<close>

definition run ::
  "env \<Rightarrow> listener list \<Rightarrow> path \<Rightarrow> string option \<Rightarrow> bool \<Rightarrow> path list action" where
  "run ev loggers pending_file pending_name prefer_copy =
     try_except
       (bindE (prepare_original ev loggers pending_file pending_name prefer_copy)
          (finish_import ev loggers))
       (\<lambda>e. bindE (gets upload_path) (\<lambda>up.
             thenE (notify loggers FILE_ERROR [arg_of_path up, AExc e]) (raise e)))"

subsection \<open>Notions used in the statements about the importer\<close>

text \<open>
  A list of listeners is quiet when no handler ever raises anything but
  \<open>AttributeError\<close>, the one exception \<open>notify\<close> catches; a listener passes an event,
  after the events it has received, when its handler for it does not raise anything
  else. \<open>listener_failure loggers e\<close> says that \<open>e\<close> is an exception some handler raises
  and \<open>notify\<close> lets through. \<open>notified loggers k a s\<close> is the state after \<open>notify\<close>.
\<close>

definition quiet :: "listener list \<Rightarrow> bool" where
  "quiet loggers =
     (\<forall>l \<in> set loggers. \<forall>past ev e. handler l past ev = Raises e \<longrightarrow> e = AttributeError)"

definition listener_failure :: "listener list \<Rightarrow> exn \<Rightarrow> bool" where
  "listener_failure loggers e =
     (e \<noteq> AttributeError \<and> (\<exists>l \<in> set loggers. \<exists>past ev. handler l past ev = Raises e))"

definition notified :: "listener list \<Rightarrow> ImportEventType \<Rightarrow> arg list \<Rightarrow> state \<Rightarrow> state" where
  "notified loggers k a s = snd (notify loggers k a s)"





text \<open>
  The errors that reading the attributes in order raises, as the docstring of
  \<open>check_integrity\<close> describes its result: "a list of problematic attributes with the
  associated exception".
\<close>

definition attribute_errors ::
  "(string \<Rightarrow> exn option) \<Rightarrow> string list \<Rightarrow> (string \<times> exn) list" where
  "attribute_errors getattr attributes =
     concat (map (\<lambda>a. case getattr a of None \<Rightarrow> [] | Some e \<Rightarrow> [(a, e)]) attributes)"

text \<open>
  A state is unconverted when no \<open>START_CONVERSION\<close> event has been emitted so far; a
  statement sequence keeps a state unconverted when it emits none, however it ends.
\<close>

definition unconverted :: "state \<Rightarrow> bool" where
  "unconverted s = (START_CONVERSION \<notin> fst ` set (emitted s))"

definition keeps_unconverted :: "'a action \<Rightarrow> bool" where
  "keeps_unconverted m = (\<forall>s r s'. m s = (r, s') \<longrightarrow> unconverted s \<longrightarrow> unconverted s')"

text \<open>
  The role paths of an upload directory (the layout of the spec's section 6), the events
  of an import that converts, in the order \<open>run\<close> emits them, and the events that the
  spec's end-to-end scenario lists.
\<close>

definition original_role_path :: "path \<Rightarrow> format \<Rightarrow> path" where
  "original_role_path udir f =
     udir @ [PROCESSED_DIR, role_filename ORIGINAL_STEM (get_identifier f)]"

definition spatial_role_path :: "path \<Rightarrow> string \<Rightarrow> path" where
  "spatial_role_path udir identifier = udir @ [PROCESSED_DIR, role_filename SPATIAL_STEM identifier]"

definition histogram_role_path :: "path \<Rightarrow> path" where
  "histogram_role_path udir = udir @ [PROCESSED_DIR, HISTOGRAM_STEM]"

definition converted_import_events ::
  "path \<Rightarrow> path \<Rightarrow> path \<Rightarrow> path \<Rightarrow> path \<Rightarrow> string \<Rightarrow> string \<Rightarrow> arg \<Rightarrow> event list" where
  "converted_import_events pf up opath spath hpath detected converted himg =
     [(START_DATA_EXTRACTION, [APath pf]),
      (MOVED_PENDING_FILE, [APath pf, APath up]),
      (END_DATA_EXTRACTION, [APath up]),
      (START_FORMAT_DETECTION, [APath up]),
      (END_FORMAT_DETECTION, [APath up, AFormat detected]),
      (START_INTEGRITY_CHECK, [APath opath]),
      (END_INTEGRITY_CHECK, [APath opath]),
      (START_SPATIAL_DEPLOY, [APath opath]),
      (START_CONVERSION, [APath spath, APath up]),
      (END_CONVERSION, [APath spath]),
      (START_FORMAT_DETECTION, [APath spath]),
      (END_FORMAT_DETECTION, [APath spath, AFormat converted]),
      (START_INTEGRITY_CHECK, [APath spath]),
      (END_INTEGRITY_CHECK, [APath spath]),
      (END_SPATIAL_DEPLOY, [APath spath]),
      (START_HISTOGRAM_DEPLOY, [APath hpath, himg]),
      (END_HISTOGRAM_DEPLOY, [APath hpath, himg]),
      (END_SUCCESSFUL_IMPORT, [APath up, APath opath])]"

definition scenario_events ::
  "path \<Rightarrow> path \<Rightarrow> path \<Rightarrow> path \<Rightarrow> path \<Rightarrow> string \<Rightarrow> arg \<Rightarrow> event list" where
  "scenario_events pf up opath spath hpath detected himg =
     [(START_DATA_EXTRACTION, [APath pf]),
      (MOVED_PENDING_FILE, [APath pf, APath up]),
      (END_FORMAT_DETECTION, [APath up, AFormat detected]),
      (START_CONVERSION, [APath spath, APath up]),
      (END_CONVERSION, [APath spath]),
      (END_INTEGRITY_CHECK, [APath spath]),
      (END_HISTOGRAM_DEPLOY, [APath hpath, himg]),
      (END_SUCCESSFUL_IMPORT, [APath up, APath opath])]"

section \<open>Concrete imports\<close>

text \<open>
  A small world to run the importer in: the root \<open>/data/pims\<close>, the staging area
  \<open>/tmp/uploaded\<close> with one pending file, a format that needs no conversion, a format
  that is converted to the first one, and an archive of two images.
\<close>

definition tiff_format :: format where
  "tiff_format =
     \<lparr>get_identifier = ''TIFF'', is_spatial = True, need_conversion = False,
      conversion_format = Inl NotImplementedError, convert = Inl NotImplementedError\<rparr>"

definition jpeg_format :: format where
  "jpeg_format =
     \<lparr>get_identifier = ''JPEG'', is_spatial = True, need_conversion = True,
      conversion_format = Inr ''TIFF'', convert = Inr (True, True)\<rparr>"

text \<open>The same format with a converter that reports success and writes nothing.\<close>

definition lying_format :: format where
  "lying_format = jpeg_format\<lparr>convert := Inr (True, False)\<rparr>"

definition zip_format :: format where
  "zip_format =
     \<lparr>get_identifier = ''ZIP'', is_spatial = False, need_conversion = False,
      conversion_format = Inl NotImplementedError, convert = Inl NotImplementedError\<rparr>"

definition zip_archive :: archive where
  "zip_archive = \<lparr>archive_format = zip_format, archive_extract = Inr Dir\<rparr>"

definition pending :: path where
  "pending = [''tmp'', ''uploaded'', ''slide'']"

definition disk :: filesystem where
  "disk = [[''data'', ''pims''] \<mapsto> Dir, [''tmp'', ''uploaded''] \<mapsto> Dir, pending \<mapsto> File]"

text \<open>
  The environment identifies the upload as \<open>detected\<close> (when given), every converted
  file as TIFF, every other file as nothing, and the upload as the archive \<open>arch\<close>
  (when given); no attribute raises and the histogram is built.
\<close>

definition world :: "format option \<Rightarrow> archive option \<Rightarrow> env" where
  "world detected arch =
     \<lparr>PENDING_PATH = [''tmp'', ''uploaded''],
      FILE_ROOT_PATH = [''data'', ''pims''],
      upload_dir_name = ''upload0'',
      is_extracted = (\<lambda>p. False),
      FormatFactory_match =
        (\<lambda>fsys p. if p = [''data'', ''pims'', ''upload0'', ''slide''] then detected else None),
      SpatialReadableFormatFactory_match = (\<lambda>fsys p. Some tiff_format),
      Archive_from_path = (\<lambda>fsys p. arch),
      metadata_raises = (\<lambda>p f a. None),
      get_spatial = (\<lambda>fsys img. Some img),
      build_histogram_file = (\<lambda>fsys img p. None),
      has_original_role = (\<lambda>p. True),
      has_spatial_role = (\<lambda>p. True),
      has_histogram_role = (\<lambda>p. True),
      get_extracted_children =
        (\<lambda>fsys p. [p @ [''a.tif''], p @ [''b.tif'']]),
      group_get = (\<lambda>tasks. None)\<rparr>"

text \<open>
  Three listeners: one that handles every event, one without any handler, and one whose
  handler of \<open>matching_format_found\<close> raises a \<open>KeyError\<close> (as the mapping lookup of the
  Cytomine listener does for a path it has not seen) and handles the rest.
\<close>

definition stdout_listener :: listener where
  "stdout_listener =
     \<lparr>handler = (\<lambda>past ev. Returns), is_cytomine = False, new_listener_ok = (\<lambda>p. True)\<rparr>"

definition mute_listener :: listener where
  "mute_listener =
     \<lparr>handler = (\<lambda>past ev. NoHandler), is_cytomine = False, new_listener_ok = (\<lambda>p. True)\<rparr>"

definition failing_listener :: listener where
  "failing_listener =
     \<lparr>handler = (\<lambda>past ev. case fst ev of
                     END_FORMAT_DETECTION \<Rightarrow> Raises (OtherException ''KeyError'')
                   | _ \<Rightarrow> Returns),
      is_cytomine = False, new_listener_ok = (\<lambda>p. True)\<rparr>"

text \<open>A listener whose handler of \<open>start_conversion\<close> raises a \<open>KeyError\<close>.\<close>

definition conversion_failing_listener :: listener where
  "conversion_failing_listener =
     \<lparr>handler = (\<lambda>past ev. case fst ev of
                     START_CONVERSION \<Rightarrow> Raises (OtherException ''KeyError'')
                   | _ \<Rightarrow> Returns),
      is_cytomine = False, new_listener_ok = (\<lambda>p. True)\<rparr>"

text \<open>An image whose width and pyramid cannot be read.\<close>

definition broken_image :: image where
  "broken_image =
     \<lparr>image_path = [''data'', ''pims'', ''upload0'', ''processed'', ''original.TIFF''],
      image_format = tiff_format,
      getattr_raises = (\<lambda>a. if a = ''width'' \<or> a = ''pyramid'' then Some ValueError else None)\<rparr>"

text \<open>The upload directory of these imports.\<close>

definition upload0 :: path where
  "upload0 = [''data'', ''pims'', ''upload0'']"

text \<open>
  The world of an upload identified as \<open>detected\<close>, with a metadata parser that cannot
  read the width of the image at the path \<open>p\<close>.
\<close>

definition world_unreadable :: "format option \<Rightarrow> path \<Rightarrow> env" where
  "world_unreadable detected p =
     (world detected None)
       \<lparr>metadata_raises := (\<lambda>q f a. if q = p \<and> a = ''width'' then Some ValueError else None)\<rparr>"

section \<open>Properties of the histogram queries\<close>

subsection \<open>Lemmas on powers of two\<close>

lemma is_power_of_2_power: "is_power_of_2 (2 ^ k)"
proof -
  have "(2::int) ^ k AND (2 ^ k - 1) = take_bit k (2 ^ k)"
    by (simp add: take_bit_eq_mask mask_eq_exp_minus_1)
  also have "\<dots> = 0" by simp
  finally show ?thesis by (simp add: is_power_of_2_def)
qed

lemma is_power_of_2_pos: "is_power_of_2 n \<Longrightarrow> 0 < n"
proof (rule ccontr)
  assume a: "is_power_of_2 n" and "\<not> 0 < n"
  then have "n < 0" by (simp add: is_power_of_2_def)
  then have "n AND (n - 1) < 0" by simp
  with a show False by (simp add: is_power_of_2_def)
qed

lemma and_pred_zero_power:
  fixes n :: int
  shows "0 < n \<Longrightarrow> n AND (n - 1) = 0 \<Longrightarrow> \<exists>k. n = 2 ^ k"
proof (induction "nat n" arbitrary: n rule: less_induct)
  case less
  have "n AND (n - 1) = of_bool (odd n \<and> odd (n - 1)) + 2 * (n div 2 AND (n - 1) div 2)"
    by (rule and_int_rec)
  with less.prems(2) have half: "n div 2 AND (n - 1) div 2 = 0" by simp
  show ?case
  proof (cases "even n")
    case True
    then obtain m where m: "n = 2 * m" by (elim evenE)
    with less.prems have mpos: "0 < m" by simp
    have "(n - 1) div 2 = m - 1" using m by simp
    with half m have "m AND (m - 1) = 0" by simp
    moreover have "nat m < nat n" using m mpos by simp
    ultimately obtain k where "m = 2 ^ k" using less.hyps mpos by blast
    with m have "n = 2 ^ Suc k" by simp
    then show ?thesis by blast
  next
    case False
    then obtain m where m: "n = 2 * m + 1" by (elim oddE)
    have "(n - 1) div 2 = m" "n div 2 = m" using m by simp_all
    with half have "m = 0" by simp
    with m have "n = 2 ^ 0" by simp
    then show ?thesis by blast
  qed
qed

lemma is_power_of_2_iff: "is_power_of_2 n \<longleftrightarrow> (\<exists>k. n = 2 ^ k)"
  using and_pred_zero_power is_power_of_2_pos is_power_of_2_power
  by (metis is_power_of_2_def)

lemma length_value_range: "int (length (value_range sb)) = 2 ^ sb"
  by (simp add: value_range_def max_value_def)

subsection \<open>Lemmas on binning, bounds and slices\<close>

lemma upt_0_Suc_shift: "[0..<Suc n] = 0 # map Suc [0..<n]"
  by (simp only: upt_conv_Cons [OF zero_less_Suc] map_Suc_upt)

lemma reshape_sum_total_aux:
  "length hist = n * k \<Longrightarrow>
     sum_list (map (\<lambda>i. sum_list (take k (drop (i * k) hist))) [0..<n]) = sum_list hist"
proof (induction n arbitrary: hist)
  case 0
  then show ?case by simp
next
  case (Suc n)
  have len: "length (drop k hist) = n * k" using Suc.prems by simp
  have "sum_list (map (\<lambda>i. sum_list (take k (drop (i * k) hist))) [0..<Suc n])
        = sum_list (take k hist)
          + sum_list (map (\<lambda>i. sum_list (take k (drop (i * k) (drop k hist)))) [0..<n])"
    unfolding upt_0_Suc_shift by (simp add: comp_def add.commute)
  also have "\<dots> = sum_list (take k hist) + sum_list (drop k hist)"
    using Suc.IH [OF len] by simp
  also have "\<dots> = sum_list (take k hist @ drop k hist)" by (simp only: sum_list_append)
  also have "\<dots> = sum_list hist" by (simp only: append_take_drop_id)
  finally show ?case .
qed

lemma length_reshape_sum: "length (reshape_sum hist n) = n"
  by (simp add: reshape_sum_def Let_def)

lemma nth_reshape_sum:
  "i < n \<Longrightarrow> reshape_sum hist n ! i
     = sum_list (take (length hist div n) (drop (i * (length hist div n)) hist))"
  by (simp add: reshape_sum_def Let_def del: upt_Suc)

lemma sum_list_reshape_sum:
  assumes "n dvd length hist" "0 < n"
  shows "sum_list (reshape_sum hist n) = sum_list hist"
proof -
  have "length hist = n * (length hist div n)" using assms by simp
  then show ?thesis
    unfolding reshape_sum_def Let_def by (rule reshape_sum_total_aux)
qed

lemma take_drop_map_nth:
  "lo \<le> hi \<Longrightarrow> hi \<le> length xs \<Longrightarrow> take (hi - lo) (drop lo xs) = map ((!) xs) [lo..<hi]"
  by (rule nth_equalityI) simp_all

lemma py_slice_inclusive:
  assumes "0 \<le> a" "a \<le> b" "b < int (length xs)"
  shows "py_slice xs a (b + 1) = map ((!) xs) [nat a..<nat b + 1]"
proof -
  have lo: "slice_index a (length xs) = nat a"
    using assms by (simp add: slice_index_def)
  have hi: "slice_index (b + 1) (length xs) = nat b + 1"
    using assms by (simp add: slice_index_def nat_add_distrib)
  have "take (nat b + 1 - nat a) (drop (nat a) xs) = map ((!) xs) [nat a..<nat b + 1]"
    using assms by (intro take_drop_map_nth) simp_all
  then show ?thesis by (simp only: py_slice_def lo hi Let_def)
qed

lemma argmin_nonzero_first:
  assumes "\<not> list_all (\<lambda>x. x = 0) xs"
  shows "0 \<le> argmin_nonzero xs \<and> nat (argmin_nonzero xs) < length xs
         \<and> xs ! nat (argmin_nonzero xs) \<noteq> 0
         \<and> (\<forall>j < nat (argmin_nonzero xs). xs ! j = 0)"
proof -
  let ?t = "takeWhile (\<lambda>x. x = 0) xs"
  have lt: "length ?t < length xs"
  proof (rule ccontr)
    assume "\<not> length ?t < length xs"
    then have "length ?t = length xs" using length_takeWhile_le [of "\<lambda>x. x = 0" xs] by simp
    then have "?t = xs" by (metis takeWhile_eq_take take_all order_refl)
    then have "\<forall>x\<in>set xs. x = 0" by (auto dest: set_takeWhileD)
    with assms show False by (simp add: list_all_iff)
  qed
  have nz: "xs ! length ?t \<noteq> 0" using nth_length_takeWhile [OF lt] .
  have "xs ! j = 0" if "j < length ?t" for j
  proof -
    have "?t ! j \<in> set ?t" using that by (rule nth_mem)
    then have "?t ! j = 0" by (rule set_takeWhileD [THEN conjunct2])
    with takeWhile_nth [OF that] show ?thesis by simp
  qed
  with lt nz assms show ?thesis by (simp add: argmin_nonzero_def)
qed

lemma argmax_nonzero_last:
  assumes "\<not> list_all (\<lambda>x. x = 0) xs"
  shows "0 \<le> argmax_nonzero xs \<and> nat (argmax_nonzero xs) < length xs
         \<and> xs ! nat (argmax_nonzero xs) \<noteq> 0
         \<and> (\<forall>j. nat (argmax_nonzero xs) < j \<and> j < length xs \<longrightarrow> xs ! j = 0)"
proof -
  let ?t = "takeWhile (\<lambda>x. x = 0) (rev xs)"
  have nrev: "\<not> list_all (\<lambda>x. x = 0) (rev xs)" using assms by (simp add: list_all_iff)
  have lt: "length ?t < length xs"
  proof (rule ccontr)
    assume "\<not> length ?t < length xs"
    then have "length ?t = length (rev xs)"
      using length_takeWhile_le [of "\<lambda>x. x = 0" "rev xs"] by simp
    then have "?t = rev xs" by (metis takeWhile_eq_take take_all order_refl)
    then have "\<forall>x\<in>set (rev xs). x = 0" by (auto dest: set_takeWhileD)
    with assms show False by (simp add: list_all_iff)
  qed
  have "rev xs ! length ?t \<noteq> 0"
    using nth_length_takeWhile [of "\<lambda>x. x = 0" "rev xs"] lt by simp
  then have nz: "xs ! (length xs - 1 - length ?t) \<noteq> 0"
    using lt by (simp add: rev_nth)
  have tail: "xs ! j = 0" if "length xs - 1 - length ?t < j" "j < length xs" for j
  proof -
    have j': "length xs - 1 - j < length ?t" using that lt by arith
    have "?t ! (length xs - 1 - j) \<in> set ?t" using j' by (rule nth_mem)
    then have "?t ! (length xs - 1 - j) = 0" by (rule set_takeWhileD [THEN conjunct2])
    with takeWhile_nth [OF j'] have "rev xs ! (length xs - 1 - j) = 0" by simp
    moreover have "rev xs ! (length xs - 1 - j) = xs ! j"
      using that by (simp add: rev_nth)
    ultimately show ?thesis by simp
  qed
  have eq: "argmax_nonzero xs = int (length xs - 1 - length ?t)"
    using assms by (simp only: argmax_nonzero_def if_False)
  have idx: "nat (argmax_nonzero xs) = length xs - 1 - length ?t"
    by (simp only: eq nat_int)
  have nn: "0 \<le> argmax_nonzero xs" by (simp only: eq of_nat_0_le_iff)
  have inb: "length xs - 1 - length ?t < length xs" using lt by arith
  show ?thesis unfolding idx using nn inb nz tail by blast
qed

lemma reshape_sum_nonzero:
  assumes "n dvd length hist" "0 < n" "\<not> list_all (\<lambda>x. x = 0) hist"
  shows "\<not> list_all (\<lambda>x. x = 0) (reshape_sum hist n)"
proof
  assume "list_all (\<lambda>x. x = 0) (reshape_sum hist n)"
  then have "sum_list (reshape_sum hist n) = 0" by (simp add: list_all_iff)
  then have "sum_list hist = 0" using sum_list_reshape_sum [OF assms(1,2)] by simp
  then have "list_all (\<lambda>x. x = 0) hist" by (simp add: list_all_iff)
  with assms(3) show False by simp
qed

lemma formatter_downsampled:
  assumes "0 < nb" "nb < int (length hist)" "int (length hist) mod nb = 0"
  shows "histogram_formatter hist bounds nb full_range =
           Inr \<lparr>histogram =
                  (if full_range then reshape_sum hist (nat nb)
                   else py_slice (reshape_sum hist (nat nb))
                          (argmin_nonzero (reshape_sum hist (nat nb)))
                          (argmax_nonzero (reshape_sum hist (nat nb)) + 1)),
                first_bin = argmin_nonzero (reshape_sum hist (nat nb)),
                last_bin = argmax_nonzero (reshape_sum hist (nat nb)),
                minimum = fst bounds, maximum = snd bounds, n_bins = nb\<rparr>"
proof -
  have ne: "hist \<noteq> []" using assms by auto
  have "histogram_binning hist nb = Inr (reshape_sum hist (nat nb))"
    using assms ne by (simp add: histogram_binning_def)
  then show ?thesis using assms by (simp add: histogram_formatter_def Let_def)
qed

subsection \<open>Bin counts that do not divide the histogram length\<close>

text \<open>
  Claim C2. For a raw histogram of length \<open>L\<close> and a requested bin count
  \<open>n_bins < L\<close> (not zero, where \<open>%\<close> itself is undefined): when
  \<open>L % n_bins \<noteq> 0\<close>, \<open>_histogram_binning\<close> and with it \<open>histogram_formatter\<close>
  raise the bad-request exception, so nothing is truncated silently; and a downsampled
  histogram is returned only when \<open>n_bins\<close> divides \<open>L\<close>.
\<close>

theorem uneven_bin_count_rejected:
  assumes "nb \<noteq> 0" and "nb < int (length hist)"
  shows "(int (length hist) mod nb \<noteq> 0 \<longrightarrow>
            histogram_binning hist nb = Inl BadRequestException \<and>
            histogram_formatter hist bounds nb full_range = Inl BadRequestException)
         \<and> ((\<exists>binned. histogram_binning hist nb = Inr binned) \<longrightarrow>
              int (length hist) mod nb = 0)
         \<and> ((\<exists>r. histogram_formatter hist bounds nb full_range = Inr r) \<longrightarrow>
              int (length hist) mod nb = 0)"
  using assms
  by (auto simp add: histogram_binning_def histogram_formatter_def split: if_splits sum.splits)

theorem uneven_bin_count_rejected_witness:
  "histogram_binning [1, 2, 3, 4, 5, 6] 4 = Inl BadRequestException
   \<and> histogram_formatter [1, 2, 3, 4, 5, 6] (0, 5) 4 False = Inl BadRequestException
   \<and> histogram_binning [1, 2, 3, 4, 5, 6] 3 = Inr [3, 7, 11]
   \<and> int (length [1, 2, 3, 4, 5, 6 :: nat]) mod 3 = 0"
  using uneven_bin_count_rejected [of 4 "[1, 2, 3, 4, 5, 6]" "(0, 5)" False]
    uneven_bin_count_rejected [of 3 "[1, 2, 3, 4, 5, 6]" "(0, 5)" False]
  by (simp add: histogram_binning_def reshape_sum_def upt_conv_Cons)

subsection \<open>What the formatter returns\<close>

text \<open>
  Claim C3. Let the stored tight bounds lie in the histogram (\<open>0 \<le> first \<le> last < L\<close>)
  and \<open>0 < n_bins \<le> L\<close>. When \<open>n_bins < L\<close> and \<open>n_bins\<close> divides \<open>L\<close>, the
  formatter succeeds on the downsampled histogram, which has \<open>n_bins\<close> bins, each the
  sum of \<open>L / n_bins\<close> contiguous raw bins, and the same total as the raw histogram;
  \<open>first_bin\<close> and \<open>last_bin\<close> are the first and last non-zero bin of the downsampled
  histogram (when the histogram has a non-zero bin at all). When \<open>n_bins = L\<close> the
  bounds are the stored ones. In both cases \<open>full_range = True\<close> returns the whole
  array and \<open>full_range = False\<close> the bins from \<open>first_bin\<close> to \<open>last_bin\<close> inclusive.
\<close>

theorem histogram_formatter_bins_and_bounds:
  assumes "0 < nb" and "nb \<le> int (length hist)"
    and "0 \<le> fst bounds" and "fst bounds \<le> snd bounds" and "snd bounds < int (length hist)"
  shows "(nb < int (length hist) \<and> int (length hist) mod nb = 0 \<longrightarrow>
            (\<exists>r. histogram_formatter hist bounds nb full_range = Inr r
               \<and> n_bins r = nb
               \<and> length (reshape_sum hist (nat nb)) = nat nb
               \<and> (\<forall>i < nat nb. reshape_sum hist (nat nb) ! i =
                     sum_list (take (length hist div nat nb)
                                 (drop (i * (length hist div nat nb)) hist)))
               \<and> sum_list (reshape_sum hist (nat nb)) = sum_list hist
               \<and> (full_range \<longrightarrow> histogram r = reshape_sum hist (nat nb))
               \<and> (\<not> list_all (\<lambda>x. x = 0) hist \<longrightarrow>
                    is_first_nonzero (reshape_sum hist (nat nb)) (first_bin r)
                    \<and> is_last_nonzero (reshape_sum hist (nat nb)) (last_bin r)
                    \<and> (\<not> full_range \<longrightarrow>
                         histogram r = map ((!) (reshape_sum hist (nat nb)))
                                         [nat (first_bin r)..<nat (last_bin r) + 1]))))
       \<and> (nb = int (length hist) \<longrightarrow>
            histogram_formatter hist bounds nb full_range =
              Inr \<lparr>histogram = (if full_range then hist
                                 else map ((!) hist) [nat (fst bounds)..<nat (snd bounds) + 1]),
                    first_bin = fst bounds, last_bin = snd bounds,
                    minimum = fst bounds, maximum = snd bounds, n_bins = nb\<rparr>)"
proof (intro conjI impI)
  assume a: "nb < int (length hist) \<and> int (length hist) mod nb = 0"
  let ?D = "reshape_sum hist (nat nb)"
  let ?r = "\<lparr>histogram = (if full_range then ?D
                          else py_slice ?D (argmin_nonzero ?D) (argmax_nonzero ?D + 1)),
             first_bin = argmin_nonzero ?D, last_bin = argmax_nonzero ?D,
             minimum = fst bounds, maximum = snd bounds, n_bins = nb\<rparr>"
  have f: "histogram_formatter hist bounds nb full_range = Inr ?r"
    using a assms(1) by (intro formatter_downsampled) simp_all
  have dvd: "nat nb dvd length hist"
  proof -
    have "nb dvd int (length hist)" using a by (simp add: dvd_eq_mod_eq_0)
    then have "int (nat nb) dvd int (length hist)" using assms(1) by simp
    then show ?thesis by (simp only: int_dvd_int_iff)
  qed
  have pos: "0 < nat nb" using assms(1) by simp
  have len: "length ?D = nat nb" by (rule length_reshape_sum)
  have nth: "\<forall>i < nat nb. ?D ! i =
      sum_list (take (length hist div nat nb) (drop (i * (length hist div nat nb)) hist))"
    by (simp add: nth_reshape_sum)
  have tot: "sum_list ?D = sum_list hist" using dvd pos by (rule sum_list_reshape_sum)
  have nz: "is_first_nonzero ?D (argmin_nonzero ?D) \<and> is_last_nonzero ?D (argmax_nonzero ?D)
            \<and> py_slice ?D (argmin_nonzero ?D) (argmax_nonzero ?D + 1)
                = map ((!) ?D) [nat (argmin_nonzero ?D)..<nat (argmax_nonzero ?D) + 1]"
    if h: "\<not> list_all (\<lambda>x. x = 0) hist"
  proof -
    have d: "\<not> list_all (\<lambda>x. x = 0) ?D" using dvd pos h by (rule reshape_sum_nonzero)
    note lo = argmin_nonzero_first [OF d] and hi = argmax_nonzero_last [OF d]
    have le: "argmin_nonzero ?D \<le> argmax_nonzero ?D"
    proof (rule ccontr)
      assume "\<not> argmin_nonzero ?D \<le> argmax_nonzero ?D"
      then have "nat (argmax_nonzero ?D) < nat (argmin_nonzero ?D)" using lo hi by simp
      with lo have "?D ! nat (argmax_nonzero ?D) = 0" by blast
      with hi show False by blast
    qed
    have lo0: "0 \<le> argmin_nonzero ?D" using lo by blast
    have hi1: "argmax_nonzero ?D < int (length ?D)" using hi by linarith
    have "py_slice ?D (argmin_nonzero ?D) (argmax_nonzero ?D + 1)
            = map ((!) ?D) [nat (argmin_nonzero ?D)..<nat (argmax_nonzero ?D) + 1]"
      using lo0 le hi1 by (rule py_slice_inclusive)
    then show ?thesis using lo hi by (simp add: is_first_nonzero_def is_last_nonzero_def)
  qed
  show "\<exists>r. histogram_formatter hist bounds nb full_range = Inr r
               \<and> n_bins r = nb
               \<and> length (reshape_sum hist (nat nb)) = nat nb
               \<and> (\<forall>i < nat nb. reshape_sum hist (nat nb) ! i =
                     sum_list (take (length hist div nat nb)
                                 (drop (i * (length hist div nat nb)) hist)))
               \<and> sum_list (reshape_sum hist (nat nb)) = sum_list hist
               \<and> (full_range \<longrightarrow> histogram r = reshape_sum hist (nat nb))
               \<and> (\<not> list_all (\<lambda>x. x = 0) hist \<longrightarrow>
                    is_first_nonzero (reshape_sum hist (nat nb)) (first_bin r)
                    \<and> is_last_nonzero (reshape_sum hist (nat nb)) (last_bin r)
                    \<and> (\<not> full_range \<longrightarrow>
                         histogram r = map ((!) (reshape_sum hist (nat nb)))
                                         [nat (first_bin r)..<nat (last_bin r) + 1]))"
    apply (rule exI [where x = ?r])
    using f len nth tot nz by simp
next
  assume e: "nb = int (length hist)"
  have "py_slice hist (fst bounds) (snd bounds + 1)
          = map ((!) hist) [nat (fst bounds)..<nat (snd bounds) + 1]"
    using assms by (intro py_slice_inclusive) simp_all
  then show "histogram_formatter hist bounds nb full_range =
              Inr \<lparr>histogram = (if full_range then hist
                                 else map ((!) hist) [nat (fst bounds)..<nat (snd bounds) + 1]),
                    first_bin = fst bounds, last_bin = snd bounds,
                    minimum = fst bounds, maximum = snd bounds, n_bins = nb\<rparr>"
    using e by (simp add: histogram_formatter_def Let_def)
qed

theorem histogram_formatter_bins_and_bounds_witness:
  "histogram_formatter [0, 1, 2, 0, 4, 0, 0, 0] (1, 4) 4 False =
     Inr \<lparr>histogram = [1, 2, 4], first_bin = 0, last_bin = 2,
           minimum = 1, maximum = 4, n_bins = 4\<rparr>
   \<and> histogram_formatter [0, 1, 2, 0, 4, 0, 0, 0] (1, 4) 4 True =
     Inr \<lparr>histogram = [1, 2, 4, 0], first_bin = 0, last_bin = 2,
           minimum = 1, maximum = 4, n_bins = 4\<rparr>
   \<and> histogram_formatter [0, 1, 2, 0, 4, 0, 0, 0] (1, 4) 8 False =
     Inr \<lparr>histogram = [1, 2, 0, 4], first_bin = 1, last_bin = 4,
           minimum = 1, maximum = 4, n_bins = 8\<rparr>
   \<and> histogram_formatter [0, 1, 2, 0, 4, 0, 0, 0] (1, 4) 8 True =
     Inr \<lparr>histogram = [0, 1, 2, 0, 4, 0, 0, 0], first_bin = 1, last_bin = 4,
           minimum = 1, maximum = 4, n_bins = 8\<rparr>"
proof -
  have down: "histogram_formatter [0, 1, 2, 0, 4, 0, 0, 0] (1, 4) 4 False =
       Inr \<lparr>histogram = [1, 2, 4], first_bin = 0, last_bin = 2,
             minimum = 1, maximum = 4, n_bins = 4\<rparr>
     \<and> histogram_formatter [0, 1, 2, 0, 4, 0, 0, 0] (1, 4) 4 True =
       Inr \<lparr>histogram = [1, 2, 4, 0], first_bin = 0, last_bin = 2,
             minimum = 1, maximum = 4, n_bins = 4\<rparr>"
    by code_simp
  have hyps: "(0::int) < 8" "(8::int) \<le> int (length [0, 1, 2, 0, 4, 0, 0, 0 :: nat])"
    "(0::int) \<le> fst (1, 4)" "fst (1, 4) \<le> snd (1, 4 :: int)"
    "snd (1, 4 :: int) < int (length [0, 1, 2, 0, 4, 0, 0, 0 :: nat])"
    by simp_all
  have same: "histogram_formatter [0, 1, 2, 0, 4, 0, 0, 0] (1, 4) 8 False =
       Inr \<lparr>histogram = [1, 2, 0, 4], first_bin = 1, last_bin = 4,
             minimum = 1, maximum = 4, n_bins = 8\<rparr>"
    "histogram_formatter [0, 1, 2, 0, 4, 0, 0, 0] (1, 4) 8 True =
       Inr \<lparr>histogram = [0, 1, 2, 0, 4, 0, 0, 0], first_bin = 1, last_bin = 4,
             minimum = 1, maximum = 4, n_bins = 8\<rparr>"
    using histogram_formatter_bins_and_bounds [OF hyps, of False]
      histogram_formatter_bins_and_bounds [OF hyps, of True]
    by (simp_all add: upt_conv_Cons)
  show ?thesis using down same by simp
qed

subsection \<open>The bin count of a query\<close>

lemma len_value_range:
  "len_range (value_range sb) = (if sb < 63 then Inr (2 ^ sb) else Inl OverflowError)"
proof (cases "sb < 63")
  case True
  then have "(2::int) ^ sb \<le> 2 ^ 62" by (intro power_increasing) simp_all
  then have "\<not> sys_maxsize < 2 ^ sb" by (simp add: sys_maxsize_def)
  with True show ?thesis by (simp add: len_range_def length_value_range)
next
  case False
  then have "(2::int) ^ 63 \<le> 2 ^ sb" by (intro power_increasing) simp_all
  then have "sys_maxsize < 2 ^ sb" by (simp add: sys_maxsize_def)
  with False show ?thesis by (simp add: len_range_def length_value_range)
qed

lemma histogram_formatter_n_bins:
  "histogram_formatter hist bounds n full_range = Inr r \<Longrightarrow> n_bins r = n"
  by (auto simp add: histogram_formatter_def Let_def split: if_splits sum.splits)

lemma effective_n_bins_cases:
  "effective_n_bins cfg img =
     (if significant_bits img < 63
      then Inr (if cfg_n_bins cfg \<le> 2 ^ significant_bits img then cfg_n_bins cfg
                else 2 ^ significant_bits img)
      else Inl OverflowError)"
  by (simp add: effective_n_bins_def len_value_range parse_n_bins_def)

text \<open>
  Claim C10, and where the code leaves it. A query whose \<open>n_bins\<close> is not a power of two
  is refused with a bad request. For an accepted query on an image of fewer than 63
  significant bits the bin count that is used, \<open>parse_n_bins(n_bins, len(value_range))\<close>,
  is a power of two and at most \<open>2 ^ significant_bits\<close>: it is \<open>n_bins\<close> itself when that
  is small enough and is clamped to \<open>2 ^ significant_bits\<close> otherwise. From 63
  significant bits on, \<open>len(value_range)\<close> raises \<open>OverflowError\<close>: no bin count is
  computed, nothing is clamped, and every accepted query ends with that error. The
  \<open>n_bins\<close> field of every answer is a power of two that is at most
  \<open>2 ^ significant_bits\<close>, and an answer exists only below 63 significant bits.
\<close>

theorem effective_n_bins_clamped_or_overflow:
  "(\<not> (\<exists>k. nb = 2 ^ k) \<longrightarrow>
      HistogramConfig_init nb full_range = Inl BadRequestException
      \<and> show_image_histogram img nb full_range = Inl BadRequestException)
   \<and> (\<forall>cfg. HistogramConfig_init nb full_range = Inr cfg \<and> significant_bits img < 63 \<longrightarrow>
         (\<exists>n. effective_n_bins cfg img = Inr n
            \<and> (\<exists>k. n = 2 ^ k)
            \<and> n \<le> 2 ^ significant_bits img
            \<and> (nb \<le> 2 ^ significant_bits img \<longrightarrow> n = nb)
            \<and> (2 ^ significant_bits img < nb \<longrightarrow> n = 2 ^ significant_bits img)))
   \<and> (\<forall>cfg. HistogramConfig_init nb full_range = Inr cfg \<and> 63 \<le> significant_bits img \<longrightarrow>
         effective_n_bins cfg img = Inl OverflowError
         \<and> show_image_histogram img nb full_range = Inl OverflowError)
   \<and> (\<forall>r. show_image_histogram img nb full_range = Inr r \<longrightarrow>
         (\<exists>k. n_bins r = 2 ^ k) \<and> n_bins r \<le> 2 ^ significant_bits img
         \<and> significant_bits img < 63)"
proof (intro conjI allI impI)
  assume "\<not> (\<exists>k. nb = 2 ^ k)"
  then have "\<not> is_power_of_2 nb" by (simp add: is_power_of_2_iff)
  then show "HistogramConfig_init nb full_range = Inl BadRequestException"
    and "show_image_histogram img nb full_range = Inl BadRequestException"
    by (simp_all add: HistogramConfig_init_def show_image_histogram_def)
next
  fix cfg
  assume c: "HistogramConfig_init nb full_range = Inr cfg \<and> significant_bits img < 63"
  then have p: "is_power_of_2 nb" and n: "cfg_n_bins cfg = nb"
    by (auto simp add: HistogramConfig_init_def split: if_splits)
  let ?n = "if nb \<le> 2 ^ significant_bits img then nb else 2 ^ significant_bits img"
  have e: "effective_n_bins cfg img = Inr ?n"
    using c by (simp add: effective_n_bins_cases n)
  have k: "\<exists>k. ?n = 2 ^ k" using p by (auto simp add: is_power_of_2_iff)
  show "\<exists>n. effective_n_bins cfg img = Inr n
            \<and> (\<exists>k. n = 2 ^ k)
            \<and> n \<le> 2 ^ significant_bits img
            \<and> (nb \<le> 2 ^ significant_bits img \<longrightarrow> n = nb)
            \<and> (2 ^ significant_bits img < nb \<longrightarrow> n = 2 ^ significant_bits img)"
    using e k by (intro exI [where x = ?n]) simp
next
  fix cfg
  assume c: "HistogramConfig_init nb full_range = Inr cfg \<and> 63 \<le> significant_bits img"
  then show "effective_n_bins cfg img = Inl OverflowError"
    by (simp add: effective_n_bins_cases)
  with c show "show_image_histogram img nb full_range = Inl OverflowError"
    by (simp add: show_image_histogram_def)
next
  fix r assume r: "show_image_histogram img nb full_range = Inr r"
  then have p: "is_power_of_2 nb"
    by (auto simp add: show_image_histogram_def HistogramConfig_init_def split: if_splits)
  let ?cfg = "\<lparr>cfg_n_bins = nb, cfg_full_range = full_range\<rparr>"
  let ?n = "if nb \<le> 2 ^ significant_bits img then nb else 2 ^ significant_bits img"
  from r p have sb: "significant_bits img < 63"
    by (auto simp add: show_image_histogram_def HistogramConfig_init_def
        effective_n_bins_cases split: if_splits)
  then have e: "effective_n_bins ?cfg img = Inr ?n"
    by (simp add: effective_n_bins_cases)
  have f: "histogram_formatter (stored_histogram img) (stored_bounds img) ?n full_range = Inr r"
    using r p e by (simp add: show_image_histogram_def HistogramConfig_init_def)
  have nbr: "n_bins r = ?n"
    using f by (rule histogram_formatter_n_bins)
  show "\<exists>k. n_bins r = 2 ^ k" using p nbr by (auto simp add: is_power_of_2_iff)
  show "n_bins r \<le> 2 ^ significant_bits img" using nbr by simp
  show "significant_bits img < 63" by (rule sb)
qed

theorem effective_n_bins_clamped_or_overflow_witness:
  "HistogramConfig_init 6 False = Inl BadRequestException
   \<and> show_image_histogram hist_src8 6 False = Inl BadRequestException
   \<and> effective_n_bins \<lparr>cfg_n_bins = 16, cfg_full_range = True\<rparr> hist_src8 = Inr 8
   \<and> effective_n_bins \<lparr>cfg_n_bins = 4, cfg_full_range = True\<rparr> hist_src8 = Inr 4
   \<and> show_image_histogram hist_src8 16 True =
        Inr \<lparr>histogram = [0, 1, 2, 0, 4, 0, 0, 0], first_bin = 1, last_bin = 4,
              minimum = 1, maximum = 4, n_bins = 8\<rparr>
   \<and> effective_n_bins \<lparr>cfg_n_bins = 2 ^ 65, cfg_full_range = False\<rparr> hist_src64
       = Inl OverflowError
   \<and> show_image_histogram hist_src64 (2 ^ 65) False = Inl OverflowError
   \<and> show_image_histogram hist_src64 256 False = Inl OverflowError"
proof -
  have p: "is_power_of_2 ((2::int) ^ 65)" "is_power_of_2 ((2::int) ^ 8)"
    by (rule is_power_of_2_power)+
  have c: "HistogramConfig_init (2 ^ 65) False = Inr \<lparr>cfg_n_bins = 2 ^ 65, cfg_full_range = False\<rparr>"
    "HistogramConfig_init (2 ^ 8) False = Inr \<lparr>cfg_n_bins = 2 ^ 8, cfg_full_range = False\<rparr>"
    using p by (simp_all only: HistogramConfig_init_def not_True_eq_False if_False)
  have sb: "63 \<le> significant_bits hist_src64" by (simp add: hist_src64_def)
  have small: "effective_n_bins \<lparr>cfg_n_bins = 16, cfg_full_range = True\<rparr> hist_src8 = Inr 8
    \<and> effective_n_bins \<lparr>cfg_n_bins = 4, cfg_full_range = True\<rparr> hist_src8 = Inr 4
    \<and> show_image_histogram hist_src8 16 True =
        Inr \<lparr>histogram = [0, 1, 2, 0, 4, 0, 0, 0], first_bin = 1, last_bin = 4,
              minimum = 1, maximum = 4, n_bins = 8\<rparr>"
    by (simp add: hist_src8_def HistogramConfig_init_def is_power_of_2_def
        show_image_histogram_def effective_n_bins_cases histogram_formatter_def)
  have eight: "(256::int) = 2 ^ 8" by simp
  from effective_n_bins_clamped_or_overflow [of 6 False hist_src8]
  have a: "HistogramConfig_init 6 False = Inl BadRequestException
   \<and> show_image_histogram hist_src8 6 False = Inl BadRequestException"
    by (simp add: HistogramConfig_init_def is_power_of_2_def show_image_histogram_def)
  from effective_n_bins_clamped_or_overflow [of "2 ^ 65" False hist_src64] c(1) sb
  have b: "effective_n_bins \<lparr>cfg_n_bins = 2 ^ 65, cfg_full_range = False\<rparr> hist_src64
       = Inl OverflowError
   \<and> show_image_histogram hist_src64 (2 ^ 65) False = Inl OverflowError"
    by blast
  from effective_n_bins_clamped_or_overflow [of "2 ^ 8" False hist_src64] c(2) sb
  have d: "show_image_histogram hist_src64 256 False = Inl OverflowError"
    unfolding eight by blast
  from a small b d show ?thesis by blast
qed
section \<open>Properties of the normalized pyramid\<close>

lemma div_pow_Suc_left: "(w::nat) div 2 ^ Suc i = (w div 2) div 2 ^ i"
  by (simp add: div_mult2_eq)

lemma div_pow_Suc_right: "(w::nat) div 2 ^ Suc i = (w div 2 ^ i) div 2"
  by (simp only: power_Suc2 div_mult2_eq)

lemma halve_until_below_closed:
  "w div 2 ^ n < m \<and> h div 2 ^ n < m \<Longrightarrow>
   (\<forall>i<n. \<not> (w div 2 ^ i < m \<and> h div 2 ^ i < m)) \<Longrightarrow>
   halve_until_below w h m t tiers =
     Some (tiers @ map (\<lambda>i. make_tier (w div 2 ^ Suc i) (h div 2 ^ Suc i) t) [0..<n])"
proof (induction n arbitrary: w h tiers)
  case 0
  then show ?case by (subst halve_until_below.simps) simp
next
  case (Suc n)
  from Suc.prems(2) have first: "\<not> (w < m \<and> h < m)" by (metis zero_less_Suc power_0 div_by_1)
  have a: "(w div 2) div 2 ^ n < m \<and> (h div 2) div 2 ^ n < m"
    using Suc.prems(1) by (simp add: div_pow_Suc_left del: power_Suc)
  have b: "\<forall>i<n. \<not> ((w div 2) div 2 ^ i < m \<and> (h div 2) div 2 ^ i < m)"
  proof (intro allI impI)
    fix i assume "i < n"
    then have "Suc i < Suc n" by simp
    with Suc.prems(2) have "\<not> (w div 2 ^ Suc i < m \<and> h div 2 ^ Suc i < m)" by blast
    then show "\<not> ((w div 2) div 2 ^ i < m \<and> (h div 2) div 2 ^ i < m)"
      by (simp add: div_pow_Suc_left del: power_Suc)
  qed
  have "halve_until_below w h m t tiers =
          halve_until_below (w div 2) (h div 2) m t (tiers @ [make_tier (w div 2) (h div 2) t])"
    by (subst halve_until_below.simps) (simp only: first if_False)
  also have "\<dots> = Some ((tiers @ [make_tier (w div 2) (h div 2) t]) @
      map (\<lambda>i. make_tier ((w div 2) div 2 ^ Suc i) ((h div 2) div 2 ^ Suc i) t) [0..<n])"
    by (rule Suc.IH [OF a b])
  also have "\<dots> = Some (tiers @
      map (\<lambda>i. make_tier (w div 2 ^ Suc i) (h div 2 ^ Suc i) t) [0..<Suc n])"
    unfolding upt_0_Suc_shift by (simp add: comp_def div_pow_Suc_left del: power_Suc)
  finally show ?case .
qed

lemma halving_reaches_below:
  fixes w h m :: nat
  assumes "0 < m"
  shows "\<exists>n. (w div 2 ^ n < m \<and> h div 2 ^ n < m)
            \<and> (\<forall>i<n. \<not> (w div 2 ^ i < m \<and> h div 2 ^ i < m))"
proof -
  let ?P = "\<lambda>n. w div 2 ^ n < m \<and> h div 2 ^ n < m"
  have "w < 2 ^ w" "h < 2 ^ h" by (rule less_exp)+
  moreover have "(2::nat) ^ w \<le> 2 ^ (w + h)" "(2::nat) ^ h \<le> 2 ^ (w + h)"
    by (simp_all add: power_increasing)
  ultimately have "w < 2 ^ (w + h)" "h < 2 ^ (w + h)" by linarith+
  then have "?P (w + h)" using assms by simp
  then have "?P (LEAST n. ?P n)" by (rule LeastI)
  moreover have "\<forall>i < (LEAST n. ?P n). \<not> ?P i" using not_less_Least by blast
  ultimately show ?thesis by blast
qed

lemma synthesize_normalized_closed:
  assumes "0 < m"
  shows "\<exists>n. synthesize_normalized w h m t =
               Some (map (\<lambda>i. make_tier (w div 2 ^ i) (h div 2 ^ i) t) [0..<Suc n])
            \<and> (\<forall>i<n. \<not> (w div 2 ^ i < m \<and> h div 2 ^ i < m))
            \<and> (w < m \<or> h < m \<longrightarrow> n = 0)
            \<and> (m \<le> w \<and> m \<le> h \<longrightarrow> w div 2 ^ n < m \<and> h div 2 ^ n < m)"
proof (cases "w < m \<or> h < m")
  case True
  then have "synthesize_normalized w h m t = Some [make_tier w h t]"
    by (simp add: synthesize_normalized_def)
  then show ?thesis using True by (intro exI [where x = 0]) auto
next
  case False
  obtain n where n: "w div 2 ^ n < m \<and> h div 2 ^ n < m"
      "\<forall>i<n. \<not> (w div 2 ^ i < m \<and> h div 2 ^ i < m)"
    using halving_reaches_below [OF assms] by blast
  have "synthesize_normalized w h m t = halve_until_below w h m t [make_tier w h t]"
    using False by (simp add: synthesize_normalized_def)
  also have "\<dots> = Some ([make_tier w h t] @
       map (\<lambda>i. make_tier (w div 2 ^ Suc i) (h div 2 ^ Suc i) t) [0..<n])"
    using n by (rule halve_until_below_closed)
  also have "\<dots> = Some (map (\<lambda>i. make_tier (w div 2 ^ i) (h div 2 ^ i) t) [0..<Suc n])"
    unfolding upt_0_Suc_shift by (simp add: comp_def)
  finally show ?thesis using n False by (intro exI [where x = n]) auto
qed

lemma halve_until_below_needs_positive:
  "halve_until_below w h m t tiers = Some r \<Longrightarrow> 0 < m"
  by (rule halve_until_below.raw_induct [where P = "\<lambda>w h m t tiers r. 0 < m"])
    (auto split: if_splits)

text \<open>
  The minimum tier dimension is a size that the dimensions are to fall below, so it is
  positive; \<open>Image.normalized_pyramid\<close> passes the width and the height alone, the
  minimum being fixed inside the missing function. For the record, a minimum of 0 would
  leave the loop of the spec without an end, since no dimension is ever below 0.
\<close>

lemma halving_never_ends_at_zero_minimum:
  "synthesize_normalized 1 1 0 256 = None"
proof (cases "synthesize_normalized 1 1 0 256")
  case None then show ?thesis .
next
  case (Some r)
  then have "halve_until_below 1 1 0 256 [make_tier 1 1 256] = Some r"
    by (simp add: synthesize_normalized_def)
  then have "(0::nat) < 0" by (rule halve_until_below_needs_positive)
  then show ?thesis by simp
qed

text \<open>
  Claim C9, for a positive minimum tier dimension \<open>m\<close>. The synthesis returns a tier
  sequence (a function of \<open>w\<close>, \<open>h\<close>, \<open>m\<close> and \<open>t\<close> alone, so two calls agree);
  tier 0 is \<open>(w, h)\<close>; each tier after the first has half the width and half the
  height of the one before (floor division), and a tier is followed by another only if
  it is not below \<open>m\<close> in both dimensions; every tier has the tile size \<open>t\<close>; when
  both base dimensions are at least \<open>m\<close> the last tier is below \<open>m\<close> in both;
  and when \<open>w\<close> or \<open>h\<close> is already below \<open>m\<close> the pyramid has exactly one tier.
\<close>

theorem synthesize_normalized_tiers:
  assumes "0 < m"
  shows "\<exists>tiers. synthesize_normalized w h m t = Some tiers
           \<and> tiers \<noteq> []
           \<and> tiers ! 0 = make_tier w h t
           \<and> (\<forall>i. Suc i < length tiers \<longrightarrow>
                 width (tiers ! Suc i) = width (tiers ! i) div 2
                 \<and> height (tiers ! Suc i) = height (tiers ! i) div 2
                 \<and> \<not> (width (tiers ! i) < m \<and> height (tiers ! i) < m))
           \<and> (\<forall>i < length tiers. tile_width (tiers ! i) = t \<and> tile_height (tiers ! i) = t)
           \<and> (m \<le> w \<and> m \<le> h \<longrightarrow> width (last tiers) < m \<and> height (last tiers) < m)
           \<and> (w < m \<or> h < m \<longrightarrow> length tiers = 1)"
proof -
  obtain n where n: "synthesize_normalized w h m t =
               Some (map (\<lambda>i. make_tier (w div 2 ^ i) (h div 2 ^ i) t) [0..<Suc n])"
      "\<forall>i<n. \<not> (w div 2 ^ i < m \<and> h div 2 ^ i < m)"
      "w < m \<or> h < m \<longrightarrow> n = 0"
      "m \<le> w \<and> m \<le> h \<longrightarrow> w div 2 ^ n < m \<and> h div 2 ^ n < m"
    using synthesize_normalized_closed [OF assms] by blast
  let ?ts = "map (\<lambda>i. make_tier (w div 2 ^ i) (h div 2 ^ i) t) [0..<Suc n]"
  have len: "length ?ts = Suc n" by simp
  have nth: "?ts ! i = make_tier (w div 2 ^ i) (h div 2 ^ i) t" if "i < Suc n" for i
    using that by (simp only: nth_map length_upt nth_upt diff_zero add_0)
  have lst: "last ?ts = make_tier (w div 2 ^ n) (h div 2 ^ n) t"
    by (simp add: last_map)
  have step: "width (?ts ! Suc i) = width (?ts ! i) div 2
              \<and> height (?ts ! Suc i) = height (?ts ! i) div 2
              \<and> \<not> (width (?ts ! i) < m \<and> height (?ts ! i) < m)" if "Suc i < length ?ts" for i
  proof -
    have i: "i < n" "i < Suc n" "Suc i < Suc n" using that by simp_all
    show ?thesis
      using n(2) i(1)
      by (simp only: nth [OF i(2)] nth [OF i(3)])
        (simp add: make_tier_def div_pow_Suc_right del: power_Suc)
  qed
  have tiles: "tile_width (?ts ! i) = t \<and> tile_height (?ts ! i) = t" if "i < length ?ts" for i
  proof -
    have "i < Suc n" using that by simp
    then show ?thesis by (simp only: nth) (simp add: make_tier_def)
  qed
  have base: "?ts ! 0 = make_tier w h t" by (simp only: nth [OF zero_less_Suc]) simp
  have "?ts \<noteq> []" by simp
  moreover have "m \<le> w \<and> m \<le> h \<longrightarrow> width (last ?ts) < m \<and> height (last ?ts) < m"
    using n(4) by (simp only: lst) (simp add: make_tier_def)
  moreover have "w < m \<or> h < m \<longrightarrow> length ?ts = 1" using n(3) by simp
  ultimately show ?thesis using n(1) base step tiles by blast
qed

theorem synthesize_normalized_tiers_witness:
  "synthesize_normalized 1000 300 256 256 =
     Some [make_tier 1000 300 256, make_tier 500 150 256, make_tier 250 75 256]
   \<and> synthesize_normalized 100 3000 256 256 = Some [make_tier 100 3000 256]"
proof -
  have c: "synthesize_normalized 1000 300 256 256 =
     Some [make_tier 1000 300 256, make_tier 500 150 256, make_tier 250 75 256]
   \<and> synthesize_normalized 100 3000 256 256 = Some [make_tier 100 3000 256]"
    by (simp add: synthesize_normalized_def halve_until_below.simps)
  have pos: "(0::nat) < 256" by simp
  show ?thesis
    using synthesize_normalized_tiers [OF pos, of 1000 300 256]
      synthesize_normalized_tiers [OF pos, of 100 3000 256]
    by - (rule c)
qed

section \<open>Properties of the import pipeline\<close>

subsection \<open>Running a statement sequence\<close>

lemma returnE_apply: "returnE x s = (Inr x, s)"
  by (simp add: returnE_def)

lemma raise_apply: "raise e s = (Inl e, s)"
  by (simp add: raise_def)

lemma bindE_apply:
  "bindE m f s = (case m s of (Inl e, s1) \<Rightarrow> (Inl e, s1) | (Inr x, s1) \<Rightarrow> f x s1)"
  by (simp add: bindE_def)

lemma thenE_apply:
  "thenE m n s = (case m s of (Inl e, s1) \<Rightarrow> (Inl e, s1) | (Inr x, s1) \<Rightarrow> n s1)"
  by (simp add: thenE_def bindE_def)

lemma try_except_apply:
  "try_except m h s = (case m s of (Inl e, s1) \<Rightarrow> h e s1 | (Inr x, s1) \<Rightarrow> (Inr x, s1))"
  by (simp add: try_except_def)

lemma gets_apply: "gets f s = (Inr (f s), s)"
  by (simp add: gets_def)

lemma modify_apply: "modify f s = (Inr (), f s)"
  by (simp add: modify_def)

lemma notify_apply:
  "notify loggers method args s =
     notify_from 0 loggers (method, args) (s\<lparr>emitted := emitted s @ [(method, args)]\<rparr>)"
  by (simp add: notify_def)

lemma notify_from_Nil_apply: "notify_from i [] ev s = (Inr (), s)"
  by (simp add: returnE_def)

lemma mkdir_apply:
  "mkdir loggers directory s =
     (case fs_mkdir (fs s) directory of
        Inr fs1 \<Rightarrow> (Inr (), s\<lparr>fs := fs1\<rparr>)
      | Inl e \<Rightarrow>
          thenE (notify loggers FILE_ERROR [APath directory, AExc e])
            (raise (FileErrorProblem directory)) s)"
  by (simp add: mkdir_def)

lemma move_apply:
  "move loggers origin dest prefer_copy s =
     (case (if prefer_copy then fs_copy (fs s) origin dest
            else fs_move (fs s) origin dest) of
        Inr fs1 \<Rightarrow> (Inr (), s\<lparr>fs := fs1\<rparr>)
      | Inl e \<Rightarrow>
          thenE (notify loggers FILE_NOT_MOVED [APath origin, AExc e])
            (raise (FileErrorProblem origin)) s)"
  by (simp add: move_def)

lemma mksymlink_apply:
  "mksymlink loggers p target s =
     (case fs_symlink (fs s) p target of
        Inr fs1 \<Rightarrow> (Inr (), s\<lparr>fs := fs1\<rparr>)
      | Inl e \<Rightarrow>
          thenE (notify loggers FILE_ERROR [APath p, AExc e])
            (raise (FileErrorProblem p)) s)"
  by (simp add: mksymlink_def)

lemma extract_archive_apply:
  "extract_archive a target s =
     (case archive_extract a of
        Inl e \<Rightarrow> (Inl e, s)
      | Inr nd \<Rightarrow> (Inr (), s\<lparr>fs := (fs s)(target \<mapsto> nd)\<rparr>))"
  by (simp add: extract_archive_def)

lemma run_convert_apply:
  "run_convert f target s =
     (case convert f of
        Inl e \<Rightarrow> (Inl e, s)
      | Inr rp \<Rightarrow>
          (Inr (fst rp),
           s\<lparr>fs := (if snd rp then (fs s)(target \<mapsto> File) else (fs s)(target := None))\<rparr>))"
  by (simp add: run_convert_def)

lemma resolve_numeral:
  "resolve (numeral k) fsys p =
     (case fsys p of
        None \<Rightarrow> None
      | Some nd \<Rightarrow>
          (case nd of Link q \<Rightarrow> resolve (pred_numeral k) fsys q | File \<Rightarrow> Some (p, File)
           | Dir \<Rightarrow> Some (p, Dir)))"
  by (simp add: numeral_eq_Suc)

lemmas exec_rules = returnE_apply raise_apply bindE_apply thenE_apply try_except_apply
  gets_apply modify_apply notify_apply notify_from_Nil_apply notify_from.simps(2)
  mkdir_apply move_apply mksymlink_apply extract_archive_apply run_convert_apply
  register_children.simps

lemmas fs_defs = fs_mkdir_def fs_move_def fs_copy_def fs_symlink_def is_dir_def
  path_exists_def parent_def path_name_def resolve_numeral

lemmas stage_defs = run_def prepare_original_def move_pending_file_def identify_format_def
  create_original_role_def finish_import_def report_integrity_def deploy_spatial_def
  convert_to_spatial_def check_converted_def deploy_histogram_def import_collection_def
  check_integrity_def Image_init_def role_filename_def arg_of_path_def arg_of_image_def
  metadata_attributes_def Let_def
  PROCESSED_DIR_def ORIGINAL_STEM_def SPATIAL_STEM_def HISTOGRAM_STEM_def EXTRACTED_DIR_def

lemmas input_defs = world_def tiff_format_def jpeg_format_def lying_format_def
  zip_format_def zip_archive_def pending_def disk_def stdout_listener_def
  mute_listener_def failing_listener_def conversion_failing_listener_def initial_state_def

subsection \<open>When a statement sequence returns\<close>

lemma returnE_Inr: "(returnE x s = (Inr y, s')) = (y = x \<and> s' = s)"
  by (auto simp add: returnE_def)

lemma raise_Inr: "(raise e s = (Inr y, s')) = False"
  by (simp add: raise_def)

lemma bindE_Inr:
  "(bindE m f s = (Inr y, s')) = (\<exists>x s1. m s = (Inr x, s1) \<and> f x s1 = (Inr y, s'))"
  by (auto simp add: bindE_def split: prod.splits sum.splits)

lemma thenE_Inr:
  "(thenE m n s = (Inr y, s')) = (\<exists>x s1. m s = (Inr x, s1) \<and> n s1 = (Inr y, s'))"
  by (simp add: thenE_def bindE_Inr)

lemma try_except_Inr:
  "(try_except m h s = (Inr y, s')) =
     (m s = (Inr y, s') \<or> (\<exists>e s1. m s = (Inl e, s1) \<and> h e s1 = (Inr y, s')))"
  by (auto simp add: try_except_def split: prod.splits sum.splits)

lemma gets_Inr: "(gets f s = (Inr y, s')) = (y = f s \<and> s' = s)"
  by (auto simp add: gets_def)

lemma modify_Inr: "(modify f s = (Inr y, s')) = (s' = f s)"
  by (auto simp add: modify_def)

lemma notify_from_state:
  "notify_from i loggers ev s = (r, s') \<Longrightarrow> \<exists>d. s' = s\<lparr>delivered := d\<rparr>"
proof (induction loggers arbitrary: i s)
  case Nil
  then have "s' = s" by (simp add: returnE_def)
  then have "s' = s\<lparr>delivered := delivered s\<rparr>" by simp
  then show ?case by blast
next
  case (Cons l ls)
  show ?case
  proof (cases "handler l (history i (delivered s)) ev")
    case NoHandler
    with Cons.prems have "notify_from (Suc i) ls ev s = (r, s')" by simp
    then show ?thesis by (rule Cons.IH)
  next
    case Returns
    with Cons.prems
    have "notify_from (Suc i) ls ev (s\<lparr>delivered := delivered s @ [(i, ev)]\<rparr>) = (r, s')"
      by simp
    from Cons.IH [OF this] show ?thesis by auto
  next
    case (Raises e)
    show ?thesis
    proof (cases "e = AttributeError")
      case True
      with Raises Cons.prems
      have "notify_from (Suc i) ls ev (s\<lparr>delivered := delivered s @ [(i, ev)]\<rparr>) = (r, s')"
        by simp
      from Cons.IH [OF this] show ?thesis by auto
    next
      case False
      with Raises Cons.prems have "s' = s\<lparr>delivered := delivered s @ [(i, ev)]\<rparr>" by auto
      then show ?thesis by blast
    qed
  qed
qed

lemma notify_state:
  "notify loggers k a s = (r, s') \<Longrightarrow>
     \<exists>d. s' = s\<lparr>emitted := emitted s @ [(k, a)], delivered := d\<rparr>"
  by (auto simp add: notify_def dest!: notify_from_state)

lemma mkdir_Inr:
  "(mkdir loggers d s = (Inr u, s')) = (\<exists>f. fs_mkdir (fs s) d = Inr f \<and> s' = s\<lparr>fs := f\<rparr>)"
  by (auto simp add: mkdir_def thenE_Inr raise_Inr split: sum.splits)

lemma move_Inr:
  "(move loggers origin dest c s = (Inr u, s')) =
     (\<exists>f. (if c then fs_copy (fs s) origin dest else fs_move (fs s) origin dest) = Inr f
          \<and> s' = s\<lparr>fs := f\<rparr>)"
  by (auto simp add: move_def thenE_Inr raise_Inr split: sum.splits)

lemma mksymlink_Inr:
  "(mksymlink loggers p target s = (Inr u, s')) =
     (\<exists>f. fs_symlink (fs s) p target = Inr f \<and> s' = s\<lparr>fs := f\<rparr>)"
  by (auto simp add: mksymlink_def thenE_Inr raise_Inr split: sum.splits)

lemma extract_archive_Inr:
  "(extract_archive a target s = (Inr u, s')) =
     (\<exists>nd. archive_extract a = Inr nd \<and> s' = s\<lparr>fs := (fs s)(target \<mapsto> nd)\<rparr>)"
  by (auto simp add: extract_archive_def split: sum.splits)

lemma run_convert_Inr:
  "(run_convert f target s = (Inr r, s')) =
     (\<exists>present. convert f = Inr (r, present)
        \<and> s' = s\<lparr>fs := (if present then (fs s)(target \<mapsto> File)
                          else (fs s)(target := None))\<rparr>)"
  by (auto simp add: run_convert_def split: sum.splits)

lemmas Inr_rules = returnE_Inr raise_Inr bindE_Inr thenE_Inr try_except_Inr gets_Inr
  modify_Inr mkdir_Inr move_Inr mksymlink_Inr extract_archive_Inr run_convert_Inr

subsection \<open>Listeners whose handlers do not raise\<close>

lemma quiet_Cons: "quiet (l # ls) \<Longrightarrow> quiet ls"
  by (simp add: quiet_def)

lemma quiet_no_failure: "quiet loggers \<Longrightarrow> \<not> listener_failure loggers e"
  by (auto simp add: quiet_def listener_failure_def)

lemma notify_from_failure:
  "notify_from i loggers ev s = (Inl e, s') \<Longrightarrow> listener_failure loggers e"
proof (induction loggers arbitrary: i s)
  case Nil
  then show ?case by (simp add: returnE_def)
next
  case (Cons l ls)
  have up: "listener_failure ls e \<Longrightarrow> listener_failure (l # ls) e"
    by (auto simp add: listener_failure_def)
  show ?case
  proof (cases "handler l (history i (delivered s)) ev")
    case NoHandler
    with Cons.prems have "notify_from (Suc i) ls ev s = (Inl e, s')" by simp
    then show ?thesis by (intro up Cons.IH)
  next
    case Returns
    with Cons.prems
    have "notify_from (Suc i) ls ev (s\<lparr>delivered := delivered s @ [(i, ev)]\<rparr>) = (Inl e, s')"
      by simp
    then show ?thesis by (intro up Cons.IH)
  next
    case (Raises x)
    show ?thesis
    proof (cases "x = AttributeError")
      case True
      with Raises Cons.prems
      have "notify_from (Suc i) ls ev (s\<lparr>delivered := delivered s @ [(i, ev)]\<rparr>) = (Inl e, s')"
        by simp
      then show ?thesis by (intro up Cons.IH)
    next
      case False
      with Raises Cons.prems have "x = e" by auto
      with Raises have "\<exists>past ev'. handler l past ev' = Raises e" by blast
      with False \<open>x = e\<close> show ?thesis by (simp add: listener_failure_def)
    qed
  qed
qed

lemma notify_failure:
  "notify loggers k a s = (Inl e, s') \<Longrightarrow> listener_failure loggers e"
  unfolding notify_def by (rule notify_from_failure)

lemma notify_cases:
  obtains (ok) "notify loggers k a s = (Inr (), notified loggers k a s)"
  | (failed) e where "notify loggers k a s = (Inl e, notified loggers k a s)"
      "listener_failure loggers e"
proof (cases "fst (notify loggers k a s)")
  case (Inl e)
  then have n: "notify loggers k a s = (Inl e, notified loggers k a s)"
    unfolding notified_def by (metis prod.collapse)
  then have "listener_failure loggers e" by (rule notify_failure)
  with n show ?thesis by (rule failed)
next
  case (Inr u)
  then have "notify loggers k a s = (Inr (), notified loggers k a s)"
    unfolding notified_def by (metis prod.collapse old.unit.exhaust)
  then show ?thesis by (rule ok)
qed

lemma notify_quiet:
  assumes "quiet loggers"
  shows "notify loggers k a s = (Inr (), notified loggers k a s)"
  using assms by (cases rule: notify_cases [of loggers k a s]) (auto simp add: quiet_no_failure)

text \<open>What \<open>notify\<close> leaves of the state, whatever the listeners do.\<close>

lemma notified_state:
  "\<exists>d. notified loggers k a s = s\<lparr>emitted := emitted s @ [(k, a)], delivered := d\<rparr>"
  unfolding notified_def
  by (rule notify_state [of loggers k a s "fst (notify loggers k a s)"]) simp

lemma notified_fields:
  "fs (notified loggers k a s) = fs s"
  "emitted (notified loggers k a s) = emitted s @ [(k, a)]"
  "dispatched (notified loggers k a s) = dispatched s"
  "upload_dir (notified loggers k a s) = upload_dir s"
  "upload_path (notified loggers k a s) = upload_path s"
  "original_path (notified loggers k a s) = original_path s"
  "spatial_path (notified loggers k a s) = spatial_path s"
  "histogram_path (notified loggers k a s) = histogram_path s"
  "processed_dir (notified loggers k a s) = processed_dir s"
  "extracted_dir (notified loggers k a s) = extracted_dir s"
  using notified_state [of loggers k a s] by auto

subsection \<open>The integrity check\<close>

lemma check_attributes_all:
  "check_attributes False getattr attributes errors
     = errors @ attribute_errors getattr attributes"
  by (induction attributes arbitrary: errors)
    (auto simp add: attribute_errors_def split: option.splits)

lemma check_attributes_lazy:
  "check_attributes True getattr attributes errors
     = errors @ take 1 (attribute_errors getattr attributes)"
  by (induction attributes arbitrary: errors)
    (auto simp add: attribute_errors_def split: option.splits)

lemma attribute_errors_set:
  "set (attribute_errors getattr attributes)
     = {(a, e). a \<in> set attributes \<and> getattr a = Some e}"
  by (auto simp add: attribute_errors_def split: option.splits)

lemma report_integrity_quiet:
  assumes "quiet loggers"
  shows "fst (report_integrity loggers img s) =
           (if check_integrity img False True = [] then Inr ()
            else Inl (ImageParsingProblem (image_path img)))"
  by (simp add: report_integrity_def Let_def thenE_apply raise_apply notify_quiet [OF assms])

lemma report_integrity_result:
  "(check_integrity img False True \<noteq> [] \<longrightarrow>
      (\<exists>e. fst (report_integrity loggers img s) = Inl e
          \<and> (e = ImageParsingProblem (image_path img) \<or> listener_failure loggers e)))
   \<and> (check_integrity img False True = [] \<longrightarrow>
        fst (report_integrity loggers img s) = Inr ()
        \<or> (\<exists>e. fst (report_integrity loggers img s) = Inl e \<and> listener_failure loggers e))"
proof (intro conjI impI)
  assume ne: "check_integrity img False True \<noteq> []"
  show "\<exists>e. fst (report_integrity loggers img s) = Inl e
          \<and> (e = ImageParsingProblem (image_path img) \<or> listener_failure loggers e)"
    using ne
    by (cases rule: notify_cases [of loggers ERROR_INTEGRITY_CHECK
          "[APath (image_path img), AErrors (check_integrity img False True)]" s])
      (simp_all add: report_integrity_def Let_def thenE_apply raise_apply)
next
  assume e: "check_integrity img False True = []"
  show "fst (report_integrity loggers img s) = Inr ()
        \<or> (\<exists>e. fst (report_integrity loggers img s) = Inl e \<and> listener_failure loggers e)"
    using e
    by (cases rule: notify_cases [of loggers END_INTEGRITY_CHECK "[APath (image_path img)]" s])
      (simp_all add: report_integrity_def Let_def)
qed

subsection \<open>Integrity of the original and of the converted image\<close>

lemma absent_after_removal: "\<not> path_exists (fsys(p := None)) p"
  by (simp add: path_exists_def resolve_numeral)

lemma run_preparation:
  assumes "fst (prepare_original ev loggers pf pn pc s0) = Inr role"
  shows "run ev loggers pf pn pc s0 =
           (case finish_import ev loggers role (snd (prepare_original ev loggers pf pn pc s0)) of
              (Inl e, s1) \<Rightarrow>
                thenE (notify loggers FILE_ERROR [arg_of_path (upload_path s1), AExc e])
                  (raise e) s1
            | (Inr x, s1) \<Rightarrow> (Inr x, s1))"
proof -
  obtain s1 where "prepare_original ev loggers pf pn pc s0 = (Inr role, s1)"
    using assms by (metis prod.collapse)
  then show ?thesis
    by (simp add: run_def try_except_apply bindE_apply gets_apply
        split: prod.splits sum.splits)
qed

lemma finish_import_integrity_quiet:
  assumes q: "quiet loggers" and ne: "check_integrity (Image_init ev opath f) False True \<noteq> []"
  shows "fst (finish_import ev loggers (Single f opath up pdir) s) = Inl (ImageParsingProblem opath)"
  using ne
  by (simp add: finish_import_def report_integrity_def Let_def thenE_apply raise_apply
      modify_apply notify_quiet [OF q] Image_init_def)

lemma check_converted_integrity_quiet:
  assumes q: "quiet loggers"
    and m: "SpatialReadableFormatFactory_match ev (fs s) spath = Some sf"
    and ne: "check_integrity (Image_init ev spath sf) False True \<noteq> []"
  shows "fst (check_converted ev loggers spath s) = Inl (ImageParsingProblem spath)"
  using ne m
  by (simp add: check_converted_def report_integrity_def Let_def thenE_apply bindE_apply
      gets_apply raise_apply modify_apply notify_quiet [OF q] notified_fields Image_init_def)

lemma finish_import_success_integrity:
  assumes "fst (finish_import ev loggers (Single f opath up pdir) s) = Inr r"
  shows "check_integrity (Image_init ev opath f) False True = []"
proof (rule ccontr)
  assume ne: "check_integrity (Image_init ev opath f) False True \<noteq> []"
  obtain s' where "finish_import ev loggers (Single f opath up pdir) s = (Inr r, s')"
    using assms by (metis prod.collapse)
  then show False using ne
    by (auto simp add: finish_import_def report_integrity_def Let_def Inr_rules)
qed

lemma check_converted_success_integrity:
  assumes "fst (check_converted ev loggers spath s) = Inr img"
  shows "check_integrity img False True = [] \<and> image_path img = spath"
proof -
  obtain s' where "check_converted ev loggers spath s = (Inr img, s')"
    using assms by (metis prod.collapse)
  then show ?thesis
    by (auto simp add: check_converted_def report_integrity_def Let_def Inr_rules Image_init_def
        split: option.splits if_splits)
qed

lemma present_after_write: "path_exists (fsys(p \<mapsto> File)) p"
  by (simp add: path_exists_def resolve_numeral)

lemma image_path_Image_init: "image_path (Image_init ev p f) = p"
  by (simp add: Image_init_def)

text \<open>
  What \<open>deploy_spatial\<close> answers for a format that is converted, when the converter
  writes its target and the converted file is recognised: the result is decided by the
  integrity of the converted image, then by the assertion on its role.
\<close>

lemma deploy_spatial_converting_quiet:
  assumes q: "quiet loggers" and nc: "need_conversion f"
    and cf: "conversion_format f = Inr ext" and cv: "convert f = Inr (True, True)"
    and m: "SpatialReadableFormatFactory_match ev
              ((fs s)(pdir @ [role_filename SPATIAL_STEM ext] \<mapsto> File))
              (pdir @ [role_filename SPATIAL_STEM ext]) = Some sf"
  shows "fst (deploy_spatial ev loggers f opath pdir up s) =
           (if check_integrity (Image_init ev (pdir @ [role_filename SPATIAL_STEM ext]) sf)
                 False True = []
            then (if has_spatial_role ev (pdir @ [role_filename SPATIAL_STEM ext])
                  then Inr (Image_init ev (pdir @ [role_filename SPATIAL_STEM ext]) sf)
                  else Inl AssertionError)
            else Inl (ImageParsingProblem (pdir @ [role_filename SPATIAL_STEM ext])))"
  using nc cf cv m
  by (simp add: deploy_spatial_def convert_to_spatial_def check_converted_def
      report_integrity_def Let_def thenE_apply bindE_apply try_except_apply gets_apply
      modify_apply raise_apply returnE_apply run_convert_apply notify_quiet [OF q]
      notified_fields present_after_write image_path_Image_init)

lemma deploy_spatial_integrity_case:
  assumes "quiet loggers" "need_conversion f" "conversion_format f = Inr ext"
    "convert f = Inr (True, True)"
    "SpatialReadableFormatFactory_match ev
       ((fs s)(pdir @ [role_filename SPATIAL_STEM ext] \<mapsto> File))
       (pdir @ [role_filename SPATIAL_STEM ext]) = Some sf"
    "check_integrity (Image_init ev (pdir @ [role_filename SPATIAL_STEM ext]) sf) False True
       \<noteq> []"
  shows "(case deploy_spatial ev loggers f opath pdir up s of
            (Inl e, s1) \<Rightarrow> (Inl e, s1) | (Inr x, s1) \<Rightarrow> k x s1)
         = (Inl (ImageParsingProblem (pdir @ [role_filename SPATIAL_STEM ext])),
            snd (deploy_spatial ev loggers f opath pdir up s))"
proof -
  have "fst (deploy_spatial ev loggers f opath pdir up s)
          = Inl (ImageParsingProblem (pdir @ [role_filename SPATIAL_STEM ext]))"
    using assms(6) by (simp add: deploy_spatial_converting_quiet [OF assms(1-5)])
  then show ?thesis by (cases "deploy_spatial ev loggers f opath pdir up s") simp
qed

lemma finish_import_spatial_integrity_quiet:
  assumes q: "quiet loggers" and f: "is_spatial f" "need_conversion f"
    "conversion_format f = Inr ext" "convert f = Inr (True, True)"
    and ok: "check_integrity (Image_init ev opath f) False True = []"
    and m: "SpatialReadableFormatFactory_match ev
              ((fs s)(pdir @ [role_filename SPATIAL_STEM ext] \<mapsto> File))
              (pdir @ [role_filename SPATIAL_STEM ext]) = Some sf"
    and ne: "check_integrity (Image_init ev (pdir @ [role_filename SPATIAL_STEM ext]) sf)
               False True \<noteq> []"
  shows "fst (finish_import ev loggers (Single f opath up pdir) s)
           = Inl (ImageParsingProblem (pdir @ [role_filename SPATIAL_STEM ext]))"
proof -
  let ?s3 = "notified loggers END_INTEGRITY_CHECK [APath opath]
               ((notified loggers START_INTEGRITY_CHECK [APath opath] s)
                  \<lparr>original := Some (Image_init ev opath f)\<rparr>)"
  have "fs ?s3 = fs s" by (simp add: notified_fields)
  with m have m3: "SpatialReadableFormatFactory_match ev
              ((fs ?s3)(pdir @ [role_filename SPATIAL_STEM ext] \<mapsto> File))
              (pdir @ [role_filename SPATIAL_STEM ext]) = Some sf"
    by simp
  show ?thesis
    using ok f(1)
    by (simp add: finish_import_def report_integrity_def Let_def thenE_apply modify_apply
        notify_quiet [OF q] image_path_Image_init
        deploy_spatial_integrity_case [OF q f(2,3,4) m3 ne])
qed

text \<open>With quiet listeners, a conversion raises \<open>ImageParsingProblem\<close> for no other reason.\<close>

lemma deploy_spatial_parsing_problem_quiet:
  assumes q: "quiet loggers" and nc: "need_conversion f"
    and r: "fst (deploy_spatial ev loggers f opath pdir up s) = Inl (ImageParsingProblem p)"
  shows "\<exists>ext sf. conversion_format f = Inr ext
           \<and> p = pdir @ [role_filename SPATIAL_STEM ext]
           \<and> SpatialReadableFormatFactory_match ev ((fs s)(p \<mapsto> File)) p = Some sf
           \<and> check_integrity (Image_init ev p sf) False True \<noteq> []"
  using r nc
  by (auto simp add: deploy_spatial_def convert_to_spatial_def check_converted_def
      report_integrity_def Let_def thenE_apply bindE_apply try_except_apply gets_apply
      modify_apply raise_apply returnE_apply run_convert_apply notify_quiet [OF q]
      notified_fields present_after_write absent_after_removal image_path_Image_init
      split: sum.splits prod.splits if_splits option.splits)

lemma quiet_stdout: "quiet [stdout_listener]"
  by (simp add: quiet_def stdout_listener_def)

subsection \<open>A conversion that leaves no target\<close>

lemma conversion_handler_result:
  "\<exists>e. fst (bindE (gets spatial_path) (\<lambda>sp.
             thenE (notify loggers ERROR_CONVERSION [arg_of_path sp, AExc x])
               (raise FormatConversionProblem)) s) = Inl e
       \<and> (e = FormatConversionProblem \<or> listener_failure loggers e)"
  by (cases rule: notify_cases [of loggers ERROR_CONVERSION
        "[arg_of_path (spatial_path s), AExc x]" s])
    (simp_all add: bindE_apply gets_apply thenE_apply raise_apply)

lemma convert_to_spatial_never_returns:
  assumes "conversion_format f = Inr ext" "convert f = Inr (r, False)"
  shows "\<exists>e. fst (convert_to_spatial loggers f pdir up s) = Inl e
            \<and> (e = FormatConversionProblem \<or> listener_failure loggers e)"
proof -
  let ?h = "\<lambda>e. bindE (gets spatial_path) (\<lambda>sp.
             thenE (notify loggers ERROR_CONVERSION [arg_of_path sp, AExc e])
               (raise FormatConversionProblem))"
  let ?body = "(let spath = pdir @ [role_filename SPATIAL_STEM ext]
             in thenE (modify (\<lambda>s. s\<lparr>spatial_path := Some spath\<rparr>))
               (thenE (notify loggers START_CONVERSION [APath spath, APath up])
               (bindE (run_convert f spath) (\<lambda>r.
                bindE (gets fs) (\<lambda>fs1.
                if \<not> r \<or> \<not> path_exists fs1 spath
                then thenE (notify loggers ERROR_CONVERSION [APath spath])
                       (raise FormatConversionProblem)
                else returnE spath)))))"
  have c: "convert_to_spatial loggers f pdir up s = try_except ?body ?h s"
    using assms(1) by (simp add: convert_to_spatial_def)
  have "\<exists>e s1. ?body s = (Inl e, s1)"
    by (cases rule: notify_cases [of loggers START_CONVERSION
          "[APath (pdir @ [role_filename SPATIAL_STEM ext]), APath up]"
          "s\<lparr>spatial_path := Some (pdir @ [role_filename SPATIAL_STEM ext])\<rparr>"];
        cases rule: notify_cases [of loggers ERROR_CONVERSION
          "[APath (pdir @ [role_filename SPATIAL_STEM ext])]"
          "(notified loggers START_CONVERSION
              [APath (pdir @ [role_filename SPATIAL_STEM ext]), APath up]
              (s\<lparr>spatial_path := Some (pdir @ [role_filename SPATIAL_STEM ext])\<rparr>))
           \<lparr>fs := (fs s)(pdir @ [role_filename SPATIAL_STEM ext] := None)\<rparr>"])
      (simp_all add: Let_def thenE_apply bindE_apply modify_apply run_convert_apply gets_apply
        raise_apply assms(2) notified_fields absent_after_removal)
  then obtain e s1 where "?body s = (Inl e, s1)" by blast
  then have "convert_to_spatial loggers f pdir up s = ?h e s1"
    by (simp only: c try_except_apply) simp
  then show ?thesis using conversion_handler_result [of loggers e s1] by simp
qed

lemma deploy_spatial_never_returns:
  assumes "need_conversion f" "conversion_format f = Inr ext" "convert f = Inr (r, False)"
  shows "\<exists>e. fst (deploy_spatial ev loggers f opath pdir up s) = Inl e
            \<and> (e = FormatConversionProblem \<or> listener_failure loggers e)"
proof (cases rule: notify_cases [of loggers START_SPATIAL_DEPLOY "[APath opath]" s])
  case ok
  let ?s1 = "notified loggers START_SPATIAL_DEPLOY [APath opath] s"
  obtain e where e: "fst (convert_to_spatial loggers f pdir up ?s1) = Inl e"
      "e = FormatConversionProblem \<or> listener_failure loggers e"
    using convert_to_spatial_never_returns [OF assms(2,3)] by blast
  then obtain s2 where "convert_to_spatial loggers f pdir up ?s1 = (Inl e, s2)"
    by (metis prod.collapse)
  then have "fst (deploy_spatial ev loggers f opath pdir up s) = Inl e"
    using ok assms(1) by (simp add: deploy_spatial_def thenE_apply bindE_apply)
  with e(2) show ?thesis by blast
next
  case (failed e)
  then have "fst (deploy_spatial ev loggers f opath pdir up s) = Inl e"
    by (simp add: deploy_spatial_def thenE_apply)
  with failed(2) show ?thesis by blast
qed

lemma deploy_spatial_reported_failure:
  assumes "need_conversion f" "conversion_format f = Inr ext" "convert f = Inr (True, False)"
  shows "deploy_spatial ev loggers f opath pdir up s
           = deploy_spatial ev loggers (f\<lparr>convert := Inr (False, False)\<rparr>) opath pdir up s"
proof -
  have "convert_to_spatial loggers f pdir up
          = convert_to_spatial loggers (f\<lparr>convert := Inr (False, False)\<rparr>) pdir up"
    by (rule ext)
      (simp add: convert_to_spatial_def assms Let_def try_except_apply thenE_apply bindE_apply
        modify_apply run_convert_apply gets_apply absent_after_removal
        split: prod.splits sum.splits)
  then show ?thesis using assms(1) by (simp add: deploy_spatial_def)
qed


lemma deploy_spatial_failure_case:
  assumes "quiet loggers" "need_conversion f" "conversion_format f = Inr ext"
    "convert f = Inr (r, False)"
  shows "(case deploy_spatial ev loggers f opath pdir up s of
            (Inl e, s1) \<Rightarrow> (Inl e, s1) | (Inr x, s1) \<Rightarrow> k x s1)
         = (Inl FormatConversionProblem, snd (deploy_spatial ev loggers f opath pdir up s))"
proof -
  obtain e where "fst (deploy_spatial ev loggers f opath pdir up s) = Inl e"
      "e = FormatConversionProblem \<or> listener_failure loggers e"
    using deploy_spatial_never_returns [OF assms(2,3,4)] by blast
  with assms(1) have "fst (deploy_spatial ev loggers f opath pdir up s) = Inl FormatConversionProblem"
    by (auto simp add: quiet_no_failure)
  then show ?thesis by (cases "deploy_spatial ev loggers f opath pdir up s") simp
qed

lemma finish_import_conversion_failure:
  assumes q: "quiet loggers" and f: "is_spatial f" "need_conversion f"
    "conversion_format f = Inr ext" "convert f = Inr (r, False)"
    and ok: "check_integrity (Image_init ev opath f) False True = []"
  shows "fst (finish_import ev loggers (Single f opath up pdir) s) = Inl FormatConversionProblem"
  using ok f(1)
  by (simp add: finish_import_def report_integrity_def Let_def thenE_apply modify_apply
      notify_quiet [OF q] deploy_spatial_failure_case [OF q f(2,3,4)])

text \<open>
  Claim C7. For a format that needs conversion, let the converter report success and
  leave no file at the target. Then \<open>deploy_spatial\<close> never returns: it raises
  \<open>FormatConversionProblem\<close>, or the exception of a listener that failed while the
  step was announced; it does exactly what it does when the converter reports failure;
  and, with listeners that do not raise, an import that reaches the conversion with an
  intact original fails with \<open>FormatConversionProblem\<close>.
\<close>

theorem absent_target_is_conversion_failure:
  assumes "need_conversion f" and "conversion_format f = Inr ext"
    and "convert f = Inr (True, False)"
  shows "(\<exists>e. fst (deploy_spatial ev loggers f opath pdir up s) = Inl e
            \<and> (e = FormatConversionProblem \<or> listener_failure loggers e))
       \<and> (quiet loggers \<longrightarrow>
            fst (deploy_spatial ev loggers f opath pdir up s) = Inl FormatConversionProblem)
       \<and> deploy_spatial ev loggers f opath pdir up s
            = deploy_spatial ev loggers (f\<lparr>convert := Inr (False, False)\<rparr>) opath pdir up s
       \<and> (quiet loggers \<and> is_spatial f
            \<and> fst (prepare_original ev loggers pf pn pc s0) = Inr (Single f opath up pdir)
            \<and> check_integrity (Image_init ev opath f) False True = [] \<longrightarrow>
            fst (run ev loggers pf pn pc s0) = Inl FormatConversionProblem)"
proof (intro conjI impI)
  show fails: "\<exists>e. fst (deploy_spatial ev loggers f opath pdir up s) = Inl e
            \<and> (e = FormatConversionProblem \<or> listener_failure loggers e)"
    using assms by (rule deploy_spatial_never_returns)
  show "fst (deploy_spatial ev loggers f opath pdir up s) = Inl FormatConversionProblem"
    if "quiet loggers"
    using fails that by (auto simp add: quiet_no_failure)
  show "deploy_spatial ev loggers f opath pdir up s
            = deploy_spatial ev loggers (f\<lparr>convert := Inr (False, False)\<rparr>) opath pdir up s"
    using assms by (rule deploy_spatial_reported_failure)
next
  assume a: "quiet loggers \<and> is_spatial f
            \<and> fst (prepare_original ev loggers pf pn pc s0) = Inr (Single f opath up pdir)
            \<and> check_integrity (Image_init ev opath f) False True = []"
  then have q: "quiet loggers" by simp
  let ?s1 = "snd (prepare_original ev loggers pf pn pc s0)"
  have "fst (finish_import ev loggers (Single f opath up pdir) ?s1) = Inl FormatConversionProblem"
    using a assms by (intro finish_import_conversion_failure) simp_all
  then obtain s2 where "finish_import ev loggers (Single f opath up pdir) ?s1
          = (Inl FormatConversionProblem, s2)"
    by (metis prod.collapse)
  then show "fst (run ev loggers pf pn pc s0) = Inl FormatConversionProblem"
    using a by (simp add: run_preparation thenE_apply raise_apply notify_quiet [OF q])
qed

lemma prepare_lying:
  "fst (prepare_original (world (Some lying_format) None) [stdout_listener] pending None False
          (initial_state disk))
     = Inr (Single lying_format (upload0 @ [''processed'', ''original.JPEG''])
              (upload0 @ [''slide'']) (upload0 @ [''processed'']))"
  by (simp add: prepare_original_def move_pending_file_def identify_format_def
      create_original_role_def role_filename_def Let_def
      PROCESSED_DIR_def ORIGINAL_STEM_def exec_rules fs_defs world_def pending_def disk_def
      stdout_listener_def initial_state_def upload0_def)
    (simp add: lying_format_def jpeg_format_def)

theorem absent_target_is_conversion_failure_witness:
  "fst (deploy_spatial (world (Some lying_format) None) [stdout_listener] lying_format
          (upload0 @ [''processed'', ''original.JPEG'']) (upload0 @ [''processed''])
          (upload0 @ [''slide'']) (initial_state disk))
     = Inl FormatConversionProblem
   \<and> fst (run (world (Some lying_format) None) [stdout_listener] pending None False
            (initial_state disk))
     = Inl FormatConversionProblem"
proof -
  have f: "need_conversion lying_format" "conversion_format lying_format = Inr ''TIFF''"
    "convert lying_format = Inr (True, False)" "is_spatial lying_format"
    by (simp_all add: lying_format_def jpeg_format_def)
  have ok: "check_integrity (Image_init (world (Some lying_format) None)
              (upload0 @ [''processed'', ''original.JPEG'']) lying_format) False True = []"
    by (simp add: check_integrity_def Image_init_def world_def metadata_attributes_def)
  note t = absent_target_is_conversion_failure [OF f(1,2,3),
      where loggers = "[stdout_listener]" and ev = "world (Some lying_format) None"
        and opath = "upload0 @ [''processed'', ''original.JPEG'']"
        and pdir = "upload0 @ [''processed'']" and up = "upload0 @ [''slide'']"
        and s = "initial_state disk" and pf = pending and pn = None and pc = False
        and ?s0.0 = "initial_state disk"]
  show ?thesis using t quiet_stdout f(4) prepare_lying ok by blast
qed

subsection \<open>What a collection import returns\<close>

lemma import_collection_returns_empty:
  "import_collection ev loggers collection pc up s = (Inr r, s') \<Longrightarrow> r = []"
  by (auto simp add: import_collection_def Let_def Inr_rules split: option.splits)

lemma create_original_role_collection:
  "create_original_role ev loggers pc udir up f arch s = (Inr (Collection c), s') \<Longrightarrow> c = []"
  by (auto simp add: create_original_role_def Let_def Inr_rules
      dest: import_collection_returns_empty split: option.splits if_splits)

lemma prepare_original_collection:
  assumes "fst (prepare_original ev loggers pf pn pc s) = Inr (Collection c)"
  shows "c = []"
proof -
  obtain s' where "prepare_original ev loggers pf pn pc s = (Inr (Collection c), s')"
    using assms by (metis prod.collapse)
  then show ?thesis
    by (auto simp add: prepare_original_def bindE_Inr dest: create_original_role_collection)
qed

text \<open>
  Claim C1, the collection part, as the code has it: whenever the upload turns out to
  be a collection, \<open>import_collection\<close> and with it \<open>run\<close> return the empty list,
  however many children were registered and handed to the workers. (For a single image
  \<open>run\<close> returns the one-element list of the upload path.)
\<close>

theorem collection_import_returns_nothing:
  "fst (prepare_original ev loggers pf pn pc s) = Inr (Collection c) \<Longrightarrow>
     c = [] \<and> fst (run ev loggers pf pn pc s) = Inr []"
proof -
  assume a: "fst (prepare_original ev loggers pf pn pc s) = Inr (Collection c)"
  then have c: "c = []" by (rule prepare_original_collection)
  have "fst (run ev loggers pf pn pc s) = Inr c"
    by (simp add: run_preparation [OF a] finish_import_def returnE_apply)
  with c show ?thesis by simp
qed

lemma prepare_zip:
  "fst (prepare_original (world None (Some zip_archive)) [stdout_listener] pending None False
          (initial_state disk)) = Inr (Collection [])"
  by (simp add: prepare_original_def move_pending_file_def identify_format_def
      create_original_role_def import_collection_def role_filename_def Let_def
      PROCESSED_DIR_def ORIGINAL_STEM_def EXTRACTED_DIR_def exec_rules fs_defs world_def
      pending_def disk_def stdout_listener_def initial_state_def zip_archive_def
      zip_format_def)

lemma dispatched_zip:
  "dispatched (snd (run (world None (Some zip_archive)) [stdout_listener] pending None False
          (initial_state disk)))
     = [(''pims.tasks.worker.run_import'', upload0 @ [''processed'', ''original.ZIP'', ''a.tif'']),
        (''pims.tasks.worker.run_import'', upload0 @ [''processed'', ''original.ZIP'', ''b.tif''])]"
  by (simp add: run_def finish_import_def prepare_original_def move_pending_file_def
      identify_format_def
      create_original_role_def import_collection_def role_filename_def Let_def
      PROCESSED_DIR_def ORIGINAL_STEM_def EXTRACTED_DIR_def exec_rules fs_defs world_def
      pending_def disk_def stdout_listener_def initial_state_def zip_archive_def
      zip_format_def upload0_def)

theorem collection_import_returns_nothing_witness:
  "fst (run (world None (Some zip_archive)) [stdout_listener] pending None False
          (initial_state disk)) = Inr []
   \<and> length (dispatched (snd (run (world None (Some zip_archive)) [stdout_listener] pending
          None False (initial_state disk)))) = 2"
  using collection_import_returns_nothing [OF prepare_zip] by (simp add: dispatched_zip)

subsection \<open>Dispatching an event\<close>

lemma history_other: "j \<noteq> i \<Longrightarrow> history j (d @ [(i, ev)]) = history j d"
  by (simp add: history_def)

lemma notify_from_quiet:
  assumes "quiet loggers"
  shows "notify_from i loggers ev s =
     (Inr (), s\<lparr>delivered := delivered s @
        map (\<lambda>j. (j, ev))
          (filter (\<lambda>j. handler (loggers ! (j - i)) (history j (delivered s)) ev \<noteq> NoHandler)
             [i..<i + length loggers])\<rparr>)"
  using assms
proof (induction loggers arbitrary: i s)
  case Nil
  then show ?case by (simp add: returnE_def)
next
  case (Cons l ls)
  from Cons.prems have q: "quiet ls" by (rule quiet_Cons)
  let ?P = "\<lambda>d j. handler ((l # ls) ! (j - i)) (history j d) ev \<noteq> NoHandler"
  have split: "[i..<i + length (l # ls)] = i # [Suc i..<Suc i + length ls]"
    using upt_conv_Cons [of i "i + length (l # ls)"] by (simp del: upt_Suc)
  have tail: "filter (\<lambda>j. handler (ls ! (j - Suc i)) (history j d') ev \<noteq> NoHandler)
                 [Suc i..<Suc i + length ls]
              = filter (?P d) [Suc i..<Suc i + length ls]"
    if "\<And>j. Suc i \<le> j \<Longrightarrow> history j d' = history j d" for d d'
  proof (rule filter_cong [OF refl])
    fix j assume "j \<in> set [Suc i..<Suc i + length ls]"
    then have j: "Suc i \<le> j" by (simp del: upt_Suc)
    then have "(l # ls) ! (j - i) = ls ! (j - Suc i)"
      by (simp add: nth_Cons' Suc_diff_le)
    with that [OF j]
    show "(handler (ls ! (j - Suc i)) (history j d') ev \<noteq> NoHandler) = ?P d j" by simp
  qed
  let ?s1 = "s\<lparr>delivered := delivered s @ [(i, ev)]\<rparr>"
  have keep: "filter (\<lambda>j. handler (ls ! (j - Suc i)) (history j (delivered ?s1)) ev \<noteq> NoHandler)
                 [Suc i..<Suc i + length ls]
              = filter (?P (delivered s)) [Suc i..<Suc i + length ls]"
    by (rule tail) (simp add: history_other)
  have same: "filter (\<lambda>j. handler (ls ! (j - Suc i)) (history j (delivered s)) ev \<noteq> NoHandler)
                 [Suc i..<Suc i + length ls]
              = filter (?P (delivered s)) [Suc i..<Suc i + length ls]"
    by (rule tail) simp
  show ?case
  proof (cases "handler l (history i (delivered s)) ev")
    case NoHandler
    then show ?thesis
      by (simp only: notify_from.simps outcome.case Cons.IH [OF q] split same)
        (simp del: upt_Suc)
  next
    case Returns
    then show ?thesis
      by (simp only: notify_from.simps outcome.case Cons.IH [OF q] split keep)
        (simp del: upt_Suc)
  next
    case (Raises e)
    then have "e = AttributeError" using Cons.prems unfolding quiet_def by (meson list.set_intros(1))
    with Raises show ?thesis
      by (simp only: notify_from.simps outcome.case Cons.IH [OF q] split keep if_True)
        (simp del: upt_Suc)
  qed
qed

lemma notify_quiet_delivery:
  assumes "quiet loggers"
  shows "notify loggers k a s =
     (Inr (), s\<lparr>emitted := emitted s @ [(k, a)],
                delivered := delivered s @
                  map (\<lambda>i. (i, (k, a)))
                    (filter (\<lambda>i. handler (loggers ! i) (history i (delivered s)) (k, a)
                                  \<noteq> NoHandler)
                       [0..<length loggers])\<rparr>)"
  by (simp add: notify_def notify_from_quiet [OF assms])


subsection \<open>The listener whose handler raises\<close>







subsection \<open>Listeners that do not raise and the outcome of an import\<close>




































lemma notify_first_raises:
  assumes "handler l (history 0 (delivered s)) (k, a) = Raises e" "e \<noteq> AttributeError"
  shows "notify (l # ls) k a s =
           (Inl e, s\<lparr>emitted := emitted s @ [(k, a)],
                       delivered := delivered s @ [(0, (k, a))]\<rparr>)"
  using assms by (simp add: notify_def)





subsection \<open>The trace of a successful import\<close>

lemma move_pending_file_success:
  assumes "move_pending_file ev loggers pf pn pc s = (Inr (udir, up), s')"
  shows "emitted s' = emitted s @
              [(START_DATA_EXTRACTION, [APath pf]), (MOVED_PENDING_FILE, [APath pf, APath up]),
               (END_DATA_EXTRACTION, [APath up])]"
    and "udir = FILE_ROOT_PATH ev @ [upload_dir_name ev]"
  using assms
  by (auto simp add: move_pending_file_def Let_def Inr_rules split: if_splits
      dest!: notify_state)

lemma identify_format_success:
  assumes "identify_format ev loggers up s = (Inr fa, s')"
    and "FormatFactory_match ev (fs s) up = Some f"
  shows "fa = (f, None)"
    and "emitted s' = emitted s @
           [(START_FORMAT_DETECTION, [APath up]),
            (END_FORMAT_DETECTION, [APath up, AFormat (get_identifier f)])]"
    and "fs s' = fs s"
  using assms
  by (auto simp add: identify_format_def Inr_rules dest!: notify_state)

lemma create_original_role_single_success:
  assumes "create_original_role ev loggers pc udir up f None s = (Inr role, s')"
  shows "role = Single f (udir @ [PROCESSED_DIR, role_filename ORIGINAL_STEM (get_identifier f)])
                  up (udir @ [PROCESSED_DIR])"
    and "emitted s' = emitted s"
    and "fs s' (udir @ [PROCESSED_DIR, role_filename ORIGINAL_STEM (get_identifier f)])
           = Some (Link up)"
    and "original_path s'
           = Some (udir @ [PROCESSED_DIR, role_filename ORIGINAL_STEM (get_identifier f)])"
  using assms
  by (auto simp add: create_original_role_def Let_def Inr_rules fs_symlink_def fs_mkdir_def
      split: if_splits option.splits)

lemma convert_to_spatial_success:
  assumes "convert_to_spatial loggers f pdir up s = (Inr p, s')"
  shows "\<exists>ext. conversion_format f = Inr ext \<and> p = pdir @ [role_filename SPATIAL_STEM ext]"
    and "emitted s' = emitted s @ [(START_CONVERSION, [APath p, APath up])]"
    and "fs s' = (fs s)(p \<mapsto> File)"
    and "spatial_path s' = Some p"
    and "original_path s' = original_path s"
  using assms
  by (auto simp add: convert_to_spatial_def Let_def Inr_rules absent_after_removal
      split: if_splits sum.splits dest!: notify_state)

lemma check_converted_success:
  assumes "check_converted ev loggers p s = (Inr img, s')"
  shows "\<exists>ident. emitted s' = emitted s @
           [(END_CONVERSION, [APath p]), (START_FORMAT_DETECTION, [APath p]),
            (END_FORMAT_DETECTION, [APath p, AFormat ident]),
            (START_INTEGRITY_CHECK, [APath p]), (END_INTEGRITY_CHECK, [APath p])]"
    and "fs s' = fs s"
    and "spatial_path s' = spatial_path s"
    and "original_path s' = original_path s"
    and "image_path img = p"
proof -
  let ?rest = "\<lambda>fs1. case SpatialReadableFormatFactory_match ev fs1 p of
        None \<Rightarrow>
          thenE (notify loggers ERROR_NO_FORMAT [APath p])
            (raise (NoMatchingFormatProblem p))
      | Some spatial_format \<Rightarrow>
          thenE (notify loggers END_FORMAT_DETECTION
                   [APath p, AFormat (get_identifier spatial_format)])
          (thenE (modify (\<lambda>s. s\<lparr>spatial := Some (Image_init ev p spatial_format)\<rparr>))
          (thenE (notify loggers START_INTEGRITY_CHECK [APath p])
          (thenE (report_integrity loggers (Image_init ev p spatial_format))
          (returnE (Image_init ev p spatial_format)))))"
  from assms obtain s1 s2 where
    n1: "notify loggers END_CONVERSION [APath p] s = (Inr (), s1)" and
    n2: "notify loggers START_FORMAT_DETECTION [APath p] s1 = (Inr (), s2)" and
    r: "?rest (fs s2) s2 = (Inr img, s')"
    by (auto simp add: check_converted_def thenE_Inr bindE_Inr gets_Inr)
  from n1 n2 have s2: "emitted s2 = emitted s @
      [(END_CONVERSION, [APath p]), (START_FORMAT_DETECTION, [APath p])]"
    "fs s2 = fs s" "spatial_path s2 = spatial_path s" "original_path s2 = original_path s"
    by (auto dest!: notify_state)
  have all: "(\<exists>ident. emitted s' = emitted s @
           [(END_CONVERSION, [APath p]), (START_FORMAT_DETECTION, [APath p]),
            (END_FORMAT_DETECTION, [APath p, AFormat ident]),
            (START_INTEGRITY_CHECK, [APath p]), (END_INTEGRITY_CHECK, [APath p])])
      \<and> fs s' = fs s \<and> spatial_path s' = spatial_path s
      \<and> original_path s' = original_path s \<and> image_path img = p"
  proof (cases "SpatialReadableFormatFactory_match ev (fs s2) p")
    case None
    with r show ?thesis by (simp add: Inr_rules)
  next
    case (Some sf)
    with r have "emitted s' = emitted s2 @
            [(END_FORMAT_DETECTION, [APath p, AFormat (get_identifier sf)]),
             (START_INTEGRITY_CHECK, [APath p]), (END_INTEGRITY_CHECK, [APath p])]
          \<and> fs s' = fs s2 \<and> spatial_path s' = spatial_path s2
          \<and> original_path s' = original_path s2 \<and> image_path img = p"
      by (auto simp add: report_integrity_def Let_def Inr_rules Image_init_def
          split: if_splits dest!: notify_state)
    then show ?thesis by (simp add: s2)
  qed
  from all show "\<exists>ident. emitted s' = emitted s @
           [(END_CONVERSION, [APath p]), (START_FORMAT_DETECTION, [APath p]),
            (END_FORMAT_DETECTION, [APath p, AFormat ident]),
            (START_INTEGRITY_CHECK, [APath p]), (END_INTEGRITY_CHECK, [APath p])]"
    and "fs s' = fs s"
    and "spatial_path s' = spatial_path s"
    and "original_path s' = original_path s"
    and "image_path img = p"
    by blast+
qed


lemma deploy_spatial_converted_success:
  assumes d: "deploy_spatial ev loggers f opath pdir up s = (Inr img, s')"
    and nc: "need_conversion f"
  shows "\<exists>ext ident. conversion_format f = Inr ext
           \<and> emitted s' = emitted s @
               [(START_SPATIAL_DEPLOY, [APath opath]),
                (START_CONVERSION, [APath (pdir @ [role_filename SPATIAL_STEM ext]), APath up]),
                (END_CONVERSION, [APath (pdir @ [role_filename SPATIAL_STEM ext])]),
                (START_FORMAT_DETECTION, [APath (pdir @ [role_filename SPATIAL_STEM ext])]),
                (END_FORMAT_DETECTION,
                   [APath (pdir @ [role_filename SPATIAL_STEM ext]), AFormat ident]),
                (START_INTEGRITY_CHECK, [APath (pdir @ [role_filename SPATIAL_STEM ext])]),
                (END_INTEGRITY_CHECK, [APath (pdir @ [role_filename SPATIAL_STEM ext])]),
                (END_SPATIAL_DEPLOY, [APath (pdir @ [role_filename SPATIAL_STEM ext])])]
           \<and> fs s' = (fs s)(pdir @ [role_filename SPATIAL_STEM ext] \<mapsto> File)
           \<and> spatial_path s' = Some (pdir @ [role_filename SPATIAL_STEM ext])
           \<and> original_path s' = original_path s"
proof -
  from d nc obtain s1 p s2 img0 s3 where
    n: "notify loggers START_SPATIAL_DEPLOY [APath opath] s = (Inr (), s1)" and
    c: "convert_to_spatial loggers f pdir up s1 = (Inr p, s2)" and
    k: "check_converted ev loggers p s2 = (Inr img0, s3)" and
    e: "(if has_spatial_role ev (image_path img0)
         then thenE (notify loggers END_SPATIAL_DEPLOY [APath (image_path img0)])
                (returnE img0)
         else raise AssertionError) s3 = (Inr img, s')"
    by (auto simp add: deploy_spatial_def thenE_Inr bindE_Inr)
  from n have s1: "emitted s1 = emitted s @ [(START_SPATIAL_DEPLOY, [APath opath])]"
    "fs s1 = fs s" "original_path s1 = original_path s"
    by (auto dest!: notify_state)
  from convert_to_spatial_success [OF c] obtain ext where
    x: "conversion_format f = Inr ext" "p = pdir @ [role_filename SPATIAL_STEM ext]" and
    s2: "emitted s2 = emitted s1 @ [(START_CONVERSION, [APath p, APath up])]"
      "fs s2 = (fs s1)(p \<mapsto> File)" "spatial_path s2 = Some p"
      "original_path s2 = original_path s1"
    by blast
  from check_converted_success [OF k] obtain ident where
    s3: "emitted s3 = emitted s2 @
           [(END_CONVERSION, [APath p]), (START_FORMAT_DETECTION, [APath p]),
            (END_FORMAT_DETECTION, [APath p, AFormat ident]),
            (START_INTEGRITY_CHECK, [APath p]), (END_INTEGRITY_CHECK, [APath p])]"
      "fs s3 = fs s2" "spatial_path s3 = spatial_path s2"
      "original_path s3 = original_path s2" "image_path img0 = p"
    by blast
  from e have s4: "emitted s' = emitted s3 @ [(END_SPATIAL_DEPLOY, [APath p])]"
      "fs s' = fs s3" "spatial_path s' = spatial_path s3"
      "original_path s' = original_path s3"
    by (auto simp add: Inr_rules s3(5) split: if_splits dest!: notify_state)
  have "emitted s' = emitted s @
               [(START_SPATIAL_DEPLOY, [APath opath]),
                (START_CONVERSION, [APath p, APath up]),
                (END_CONVERSION, [APath p]),
                (START_FORMAT_DETECTION, [APath p]),
                (END_FORMAT_DETECTION, [APath p, AFormat ident]),
                (START_INTEGRITY_CHECK, [APath p]),
                (END_INTEGRITY_CHECK, [APath p]),
                (END_SPATIAL_DEPLOY, [APath p])]"
    by (simp add: s4 s3 s2 s1)
  moreover have "fs s' = (fs s)(p \<mapsto> File)" by (simp add: s4 s3 s2 s1)
  moreover have "spatial_path s' = Some p" by (simp add: s4 s3 s2)
  moreover have "original_path s' = original_path s" by (simp add: s4 s3 s2 s1)
  ultimately show ?thesis using x by blast
qed

lemma deploy_spatial_alias_success:
  assumes "deploy_spatial ev loggers f opath pdir up s = (Inr img, s')"
    and "\<not> need_conversion f"
  shows "emitted s' = emitted s @
           [(START_SPATIAL_DEPLOY, [APath opath]),
            (END_SPATIAL_DEPLOY,
               [APath (pdir @ [role_filename SPATIAL_STEM (get_identifier f)])])]"
    and "fs s' = (fs s)(pdir @ [role_filename SPATIAL_STEM (get_identifier f)] \<mapsto> Link opath)"
    and "spatial_path s' = Some (pdir @ [role_filename SPATIAL_STEM (get_identifier f)])"
    and "original_path s' = original_path s"
  using assms
  by (auto simp add: deploy_spatial_def Let_def Inr_rules Image_init_def fs_symlink_def
      split: if_splits option.splits dest!: notify_state)

lemma deploy_histogram_success:
  assumes "deploy_histogram ev loggers img pdir s = (Inr h, s')"
  shows "emitted s' = emitted s @
           [(START_HISTOGRAM_DEPLOY, [APath (pdir @ [HISTOGRAM_STEM]), arg_of_image img]),
            (END_HISTOGRAM_DEPLOY, [APath (pdir @ [HISTOGRAM_STEM]), arg_of_image img])]"
    and "fs s' = (fs s)(pdir @ [HISTOGRAM_STEM] \<mapsto> File)"
    and "spatial_path s' = spatial_path s"
    and "original_path s' = original_path s"
  using assms
  by (auto simp add: deploy_histogram_def Let_def Inr_rules
      split: if_splits option.splits dest!: notify_state)


lemma finish_import_success:
  assumes "finish_import ev loggers (Single f opath up pdir) s = (Inr r, s')"
  obtains img s3 s4 where
    "emitted s3 = emitted s @
       [(START_INTEGRITY_CHECK, [APath opath]), (END_INTEGRITY_CHECK, [APath opath])]"
    "fs s3 = fs s" "original_path s3 = original_path s"
    "deploy_spatial ev loggers f opath pdir up s3 = (Inr img, s4)"
    "emitted s' = emitted s4 @
       [(START_HISTOGRAM_DEPLOY,
           [APath (pdir @ [HISTOGRAM_STEM]),
            arg_of_image (get_spatial ev (fs s4) (Image_init ev opath f))]),
        (END_HISTOGRAM_DEPLOY,
           [APath (pdir @ [HISTOGRAM_STEM]),
            arg_of_image (get_spatial ev (fs s4) (Image_init ev opath f))]),
        (END_SUCCESSFUL_IMPORT, [APath up, APath opath])]"
    "fs s' = (fs s4)(pdir @ [HISTOGRAM_STEM] \<mapsto> File)"
    "spatial_path s' = spatial_path s4" "original_path s' = original_path s4"
    "r = [up]"
proof -
  from assms obtain s1 s3 img s4 h s5 where
    n: "notify loggers START_INTEGRITY_CHECK [APath opath] s = (Inr (), s1)" and
    i: "report_integrity loggers (Image_init ev opath f)
          (s1\<lparr>original := Some (Image_init ev opath f)\<rparr>) = (Inr (), s3)" and
    d: "(if is_spatial f then deploy_spatial ev loggers f opath pdir up
         else raise NotImplementedError) s3 = (Inr img, s4)" and
    h: "deploy_histogram ev loggers (get_spatial ev (fs s4) (Image_init ev opath f)) pdir s4
          = (Inr h, s5)" and
    e: "notify loggers END_SUCCESSFUL_IMPORT [APath up, APath opath] s5 = (Inr (), s')" and
    r: "r = [up]"
    by (auto simp add: finish_import_def thenE_Inr bindE_Inr gets_Inr modify_Inr returnE_Inr)
  from n i have s3: "emitted s3 = emitted s @
       [(START_INTEGRITY_CHECK, [APath opath]), (END_INTEGRITY_CHECK, [APath opath])]"
    "fs s3 = fs s" "original_path s3 = original_path s"
    by (auto simp add: report_integrity_def Let_def Inr_rules Image_init_def
        split: if_splits dest!: notify_state)
  from d have d': "deploy_spatial ev loggers f opath pdir up s3 = (Inr img, s4)"
    by (simp add: raise_Inr split: if_splits)
  note s5 = deploy_histogram_success [OF h]
  from e have s6: "emitted s' = emitted s5 @ [(END_SUCCESSFUL_IMPORT, [APath up, APath opath])]"
    "fs s' = fs s5" "spatial_path s' = spatial_path s5" "original_path s' = original_path s5"
    by (auto dest!: notify_state)
  show ?thesis
    by (rule that [OF s3 d' _ _ _ _ r]) (simp_all add: s6 s5)
qed

lemma prepare_original_single_success:
  assumes mv: "fst (move_pending_file ev loggers pf pn pc s0) = Inr (udir, up)"
    and fm: "FormatFactory_match ev (fs (snd (move_pending_file ev loggers pf pn pc s0))) up
               = Some f"
    and p: "prepare_original ev loggers pf pn pc s0 = (Inr role, s3)"
  shows "role = Single f (original_role_path udir f) up (udir @ [PROCESSED_DIR])"
    and "emitted s3 = emitted s0 @
           [(START_DATA_EXTRACTION, [APath pf]), (MOVED_PENDING_FILE, [APath pf, APath up]),
            (END_DATA_EXTRACTION, [APath up]), (START_FORMAT_DETECTION, [APath up]),
            (END_FORMAT_DETECTION, [APath up, AFormat (get_identifier f)])]"
    and "fs s3 (original_role_path udir f) = Some (Link up)"
    and "original_path s3 = Some (original_role_path udir f)"
proof -
  let ?m = "move_pending_file ev loggers pf pn pc s0"
  have m: "?m = (Inr (udir, up), snd ?m)" using mv by (metis prod.collapse)
  from p obtain fa s2 where
    i: "identify_format ev loggers up (snd ?m) = (Inr fa, s2)" and
    c: "create_original_role ev loggers pc udir up (fst fa) (snd fa) s2 = (Inr role, s3)"
    by (subst (asm) prepare_original_def, subst (asm) bindE_Inr, subst (asm) m)
      (auto simp add: bindE_Inr)
  note s1 = move_pending_file_success [OF m]
  note s2 = identify_format_success [OF i fm]
  from c s2(1) have c': "create_original_role ev loggers pc udir up f None s2 = (Inr role, s3)"
    by simp
  note s3 = create_original_role_single_success [OF c']
  show "role = Single f (original_role_path udir f) up (udir @ [PROCESSED_DIR])"
    by (simp add: s3 original_role_path_def)
  show "emitted s3 = emitted s0 @
           [(START_DATA_EXTRACTION, [APath pf]), (MOVED_PENDING_FILE, [APath pf, APath up]),
            (END_DATA_EXTRACTION, [APath up]), (START_FORMAT_DETECTION, [APath up]),
            (END_FORMAT_DETECTION, [APath up, AFormat (get_identifier f)])]"
    by (simp add: s3 s2 s1)
  show "fs s3 (original_role_path udir f) = Some (Link up)"
    by (simp add: s3 original_role_path_def)
  show "original_path s3 = Some (original_role_path udir f)"
    by (simp add: s3 original_role_path_def)
qed

lemma run_success:
  assumes "run ev loggers pf pn pc s0 = (Inr r, s')"
  obtains role s3 where "prepare_original ev loggers pf pn pc s0 = (Inr role, s3)"
    "finish_import ev loggers role s3 = (Inr r, s')"
  using assms
  by (auto simp add: run_def try_except_Inr bindE_Inr thenE_Inr raise_Inr)

lemma role_paths_differ:
  "spatial_role_path udir x \<noteq> original_role_path udir f"
  "histogram_role_path udir \<noteq> original_role_path udir f"
  "histogram_role_path udir \<noteq> spatial_role_path udir x"
  by (simp_all add: spatial_role_path_def original_role_path_def histogram_role_path_def
      role_filename_def SPATIAL_STEM_def ORIGINAL_STEM_def HISTOGRAM_STEM_def)

lemma scenario_is_subsequence:
  "subseq (scenario_events pf up opath spath hpath detected himg)
     (converted_import_events pf up opath spath hpath detected converted himg)"
  by (simp add: scenario_events_def converted_import_events_def subseq_Cons2_neq)

subsection \<open>The events of an import that converts\<close>

text \<open>
  Claim C5. Let the upload itself be identified as a format \<open>f\<close> that needs conversion
  (a single-file format: no archive is involved), and let \<open>run\<close> return. Then the
  events that \<open>run\<close> has emitted are exactly the eighteen of
  \<open>converted_import_events\<close>, in that order; the events of the spec's scenario
  (\<open>START_DATA_EXTRACTION\<close>, \<open>MOVED_PENDING_FILE\<close>, \<open>END_FORMAT_DETECTION\<close> with the
  detected format, \<open>START_CONVERSION\<close>, \<open>END_CONVERSION\<close>, \<open>END_INTEGRITY_CHECK\<close>,
  \<open>END_HISTOGRAM_DEPLOY\<close>, \<open>END_SUCCESSFUL_IMPORT\<close>) are a subsequence of them; and the
  spatial role path differs from the original role path, the former holding the
  converted file and the latter a link to the upload.
\<close>

theorem converted_import_events_in_order:
  assumes mv: "fst (move_pending_file ev loggers pf pn pc s0) = Inr (udir, up)"
    and fm: "FormatFactory_match ev (fs (snd (move_pending_file ev loggers pf pn pc s0))) up
               = Some f"
    and nc: "need_conversion f"
    and ok: "run ev loggers pf pn pc s0 = (Inr r, s')"
  shows "\<exists>ext converted himg.
           conversion_format f = Inr ext
           \<and> emitted s' = emitted s0 @
                 converted_import_events pf up (original_role_path udir f)
                   (spatial_role_path udir ext) (histogram_role_path udir)
                   (get_identifier f) converted himg
           \<and> subseq (scenario_events pf up (original_role_path udir f)
                       (spatial_role_path udir ext) (histogram_role_path udir)
                       (get_identifier f) himg)
                 (drop (length (emitted s0)) (emitted s'))
           \<and> spatial_role_path udir ext \<noteq> original_role_path udir f
           \<and> fs s' (spatial_role_path udir ext) = Some File
           \<and> fs s' (original_role_path udir f) = Some (Link up)
           \<and> spatial_path s' = Some (spatial_role_path udir ext)
           \<and> original_path s' = Some (original_role_path udir f)
           \<and> r = [up]"
proof -
  let ?op = "original_role_path udir f"
  let ?pd = "udir @ [PROCESSED_DIR]"
  from ok obtain role s3 where
    p: "prepare_original ev loggers pf pn pc s0 = (Inr role, s3)" and
    fi: "finish_import ev loggers role s3 = (Inr r, s')"
    by (rule run_success)
  note pre = prepare_original_single_success [OF mv fm p]
  from fi pre(1) have fi': "finish_import ev loggers (Single f ?op up ?pd) s3 = (Inr r, s')"
    by simp
  from fi' obtain img s4 s5 where
    s4: "emitted s4 = emitted s3 @
       [(START_INTEGRITY_CHECK, [APath ?op]), (END_INTEGRITY_CHECK, [APath ?op])]"
      "fs s4 = fs s3" "original_path s4 = original_path s3" and
    d: "deploy_spatial ev loggers f ?op ?pd up s4 = (Inr img, s5)" and
    s6: "emitted s' = emitted s5 @
       [(START_HISTOGRAM_DEPLOY,
           [APath (?pd @ [HISTOGRAM_STEM]),
            arg_of_image (get_spatial ev (fs s5) (Image_init ev ?op f))]),
        (END_HISTOGRAM_DEPLOY,
           [APath (?pd @ [HISTOGRAM_STEM]),
            arg_of_image (get_spatial ev (fs s5) (Image_init ev ?op f))]),
        (END_SUCCESSFUL_IMPORT, [APath up, APath ?op])]"
      "fs s' = (fs s5)(?pd @ [HISTOGRAM_STEM] \<mapsto> File)"
      "spatial_path s' = spatial_path s5" "original_path s' = original_path s5"
      "r = [up]"
    by (rule finish_import_success)
  from deploy_spatial_converted_success [OF d nc] obtain ext converted where
    x: "conversion_format f = Inr ext" and
    s5: "emitted s5 = emitted s4 @
               [(START_SPATIAL_DEPLOY, [APath ?op]),
                (START_CONVERSION, [APath (?pd @ [role_filename SPATIAL_STEM ext]), APath up]),
                (END_CONVERSION, [APath (?pd @ [role_filename SPATIAL_STEM ext])]),
                (START_FORMAT_DETECTION, [APath (?pd @ [role_filename SPATIAL_STEM ext])]),
                (END_FORMAT_DETECTION,
                   [APath (?pd @ [role_filename SPATIAL_STEM ext]), AFormat converted]),
                (START_INTEGRITY_CHECK, [APath (?pd @ [role_filename SPATIAL_STEM ext])]),
                (END_INTEGRITY_CHECK, [APath (?pd @ [role_filename SPATIAL_STEM ext])]),
                (END_SPATIAL_DEPLOY, [APath (?pd @ [role_filename SPATIAL_STEM ext])])]"
      "fs s5 = (fs s4)(?pd @ [role_filename SPATIAL_STEM ext] \<mapsto> File)"
      "spatial_path s5 = Some (?pd @ [role_filename SPATIAL_STEM ext])"
      "original_path s5 = original_path s4"
    by blast
  let ?sp = "spatial_role_path udir ext"
  let ?hp = "histogram_role_path udir"
  let ?himg = "arg_of_image (get_spatial ev (fs s5) (Image_init ev ?op f))"
  have sp: "udir @ [PROCESSED_DIR, role_filename SPATIAL_STEM ext] = ?sp"
    and hp: "udir @ [PROCESSED_DIR, HISTOGRAM_STEM] = ?hp"
    by (simp_all add: spatial_role_path_def histogram_role_path_def)
  have ev: "emitted s' = emitted s0 @
      converted_import_events pf up ?op ?sp ?hp (get_identifier f) converted ?himg"
    by (simp add: s6 s5 s4 pre(2) converted_import_events_def sp hp)
  then have sub: "subseq (scenario_events pf up ?op ?sp ?hp (get_identifier f) ?himg)
                 (drop (length (emitted s0)) (emitted s'))"
    by (simp add: scenario_is_subsequence)
  have f1: "fs s' ?sp = Some File"
    using role_paths_differ(3) [of udir ext] by (simp add: s6 s5 sp hp)
  have "fs s' ?op = fs s3 ?op"
    using role_paths_differ(1) [of udir ext f] role_paths_differ(2) [of udir f]
    by (simp add: s6 s5 s4 sp hp)
  with pre(3) have f2: "fs s' ?op = Some (Link up)" by simp
  have f3: "spatial_path s' = Some ?sp" by (simp add: s6 s5 sp)
  have f4: "original_path s' = Some ?op" by (simp add: s6 s5 s4 pre(4))
  from x ev sub role_paths_differ(1) f1 f2 f3 f4 s6(5) show ?thesis by blast
qed


theorem converted_import_events_in_order_witness:
  "map fst (emitted (snd (run (world (Some jpeg_format) None) [stdout_listener] pending None
      False (initial_state disk))))
     = [START_DATA_EXTRACTION, MOVED_PENDING_FILE, END_DATA_EXTRACTION,
        START_FORMAT_DETECTION, END_FORMAT_DETECTION, START_INTEGRITY_CHECK,
        END_INTEGRITY_CHECK, START_SPATIAL_DEPLOY, START_CONVERSION, END_CONVERSION,
        START_FORMAT_DETECTION, END_FORMAT_DETECTION, START_INTEGRITY_CHECK,
        END_INTEGRITY_CHECK, END_SPATIAL_DEPLOY, START_HISTOGRAM_DEPLOY,
        END_HISTOGRAM_DEPLOY, END_SUCCESSFUL_IMPORT]
   \<and> fs (snd (run (world (Some jpeg_format) None) [stdout_listener] pending None False
          (initial_state disk))) (upload0 @ [''processed'', ''spatial.TIFF'']) = Some File
   \<and> fs (snd (run (world (Some jpeg_format) None) [stdout_listener] pending None False
          (initial_state disk))) (upload0 @ [''processed'', ''original.JPEG''])
       = Some (Link (upload0 @ [''slide'']))"
proof -
  let ?W = "world (Some jpeg_format) None"
  let ?run = "run ?W [stdout_listener] pending None False (initial_state disk)"
  have mv: "fst (move_pending_file ?W [stdout_listener] pending None False (initial_state disk))
              = Inr (upload0, upload0 @ [''slide''])"
    by (simp add: move_pending_file_def Let_def exec_rules fs_defs world_def pending_def
        disk_def stdout_listener_def initial_state_def upload0_def)
  have fm: "FormatFactory_match ?W
              (fs (snd (move_pending_file ?W [stdout_listener] pending None False
                     (initial_state disk)))) (upload0 @ [''slide'']) = Some jpeg_format"
    by (simp add: world_def upload0_def)
  have nc: "need_conversion jpeg_format" and cf: "conversion_format jpeg_format = Inr ''TIFF''"
    and gi: "get_identifier jpeg_format = ''JPEG''"
    by (simp_all add: jpeg_format_def)
  have "fst ?run = Inr [upload0 @ [''slide'']]"
    by (simp add: stage_defs exec_rules fs_defs input_defs upload0_def)
  then have ok: "?run = (Inr [upload0 @ [''slide'']], snd ?run)" by (metis prod.collapse)
  from converted_import_events_in_order [OF mv fm nc ok] obtain ext converted himg where
    x: "conversion_format jpeg_format = Inr ext" and
    e: "emitted (snd ?run) = emitted (initial_state disk) @
          converted_import_events pending (upload0 @ [''slide''])
            (original_role_path upload0 jpeg_format) (spatial_role_path upload0 ext)
            (histogram_role_path upload0) (get_identifier jpeg_format) converted himg" and
    f: "fs (snd ?run) (spatial_role_path upload0 ext) = Some File"
       "fs (snd ?run) (original_role_path upload0 jpeg_format) = Some (Link (upload0 @ [''slide'']))"
    by blast
  from x cf have ext: "ext = ''TIFF''" by simp
  have paths: "spatial_role_path upload0 ''TIFF'' = upload0 @ [''processed'', ''spatial.TIFF'']"
    "original_role_path upload0 jpeg_format = upload0 @ [''processed'', ''original.JPEG'']"
    by (simp_all add: spatial_role_path_def original_role_path_def role_filename_def gi
        PROCESSED_DIR_def SPATIAL_STEM_def ORIGINAL_STEM_def)
  from e have "map fst (emitted (snd ?run))
     = [START_DATA_EXTRACTION, MOVED_PENDING_FILE, END_DATA_EXTRACTION,
        START_FORMAT_DETECTION, END_FORMAT_DETECTION, START_INTEGRITY_CHECK,
        END_INTEGRITY_CHECK, START_SPATIAL_DEPLOY, START_CONVERSION, END_CONVERSION,
        START_FORMAT_DETECTION, END_FORMAT_DETECTION, START_INTEGRITY_CHECK,
        END_INTEGRITY_CHECK, END_SPATIAL_DEPLOY, START_HISTOGRAM_DEPLOY,
        END_HISTOGRAM_DEPLOY, END_SUCCESSFUL_IMPORT]"
    by (simp add: converted_import_events_def initial_state_def)
  with f show ?thesis by (simp add: ext paths)
qed

subsection \<open>Imports that need no conversion\<close>

lemma ku_returnE: "keeps_unconverted (returnE x)"
  by (simp add: keeps_unconverted_def returnE_def)

lemma ku_raise: "keeps_unconverted (raise e)"
  by (simp add: keeps_unconverted_def raise_def)

lemma ku_gets: "keeps_unconverted (gets f)"
  by (simp add: keeps_unconverted_def gets_def)

lemma ku_modify: "(\<And>s. emitted (f s) = emitted s) \<Longrightarrow> keeps_unconverted (modify f)"
  by (auto simp add: keeps_unconverted_def modify_def unconverted_def)

lemma ku_bindE:
  "keeps_unconverted m \<Longrightarrow> (\<And>x. keeps_unconverted (f x)) \<Longrightarrow> keeps_unconverted (bindE m f)"
  unfolding keeps_unconverted_def bindE_def
  by (auto split: prod.splits sum.splits)

lemma ku_thenE:
  "keeps_unconverted m \<Longrightarrow> keeps_unconverted n \<Longrightarrow> keeps_unconverted (thenE m n)"
  unfolding thenE_def by (rule ku_bindE)

lemma ku_try_except:
  "keeps_unconverted m \<Longrightarrow> (\<And>e. keeps_unconverted (h e)) \<Longrightarrow>
     keeps_unconverted (try_except m h)"
  unfolding keeps_unconverted_def try_except_def
  by (auto split: prod.splits sum.splits)

lemma ku_notify: "k \<noteq> START_CONVERSION \<Longrightarrow> keeps_unconverted (notify loggers k a)"
  by (auto simp add: keeps_unconverted_def unconverted_def dest!: notify_state)

lemma ku_fs_step:
  assumes "\<And>s. \<exists>t. m s = (t, s) \<or> (\<exists>fsys. m s = (t, s\<lparr>fs := fsys\<rparr>))"
  shows "keeps_unconverted m"
  unfolding keeps_unconverted_def unconverted_def
proof (intro allI impI)
  fix s r s' assume a: "m s = (r, s')" "START_CONVERSION \<notin> fst ` set (emitted s)"
  from assms [of s] a(1) have "emitted s' = emitted s" by auto
  with a(2) show "START_CONVERSION \<notin> fst ` set (emitted s')" by simp
qed

lemma ku_if:
  "(c \<Longrightarrow> keeps_unconverted m) \<Longrightarrow> (\<not> c \<Longrightarrow> keeps_unconverted n) \<Longrightarrow>
     keeps_unconverted (if c then m else n)"
  by simp

lemmas ku_rules = ku_returnE ku_raise ku_gets ku_modify ku_bindE ku_thenE ku_try_except
  ku_notify ku_if

lemma ku_mkdir: "keeps_unconverted (mkdir loggers d)"
  unfolding keeps_unconverted_def
  by (auto simp add: mkdir_def thenE_apply raise_apply unconverted_def
      split: sum.splits prod.splits dest!: notify_state)

lemma ku_move: "keeps_unconverted (move loggers a b c)"
  unfolding keeps_unconverted_def
  by (auto simp add: move_def thenE_apply raise_apply unconverted_def
      split: sum.splits prod.splits if_splits dest!: notify_state)

lemma ku_mksymlink: "keeps_unconverted (mksymlink loggers a b)"
  unfolding keeps_unconverted_def
  by (auto simp add: mksymlink_def thenE_apply raise_apply unconverted_def
      split: sum.splits prod.splits dest!: notify_state)

lemma ku_extract_archive: "keeps_unconverted (extract_archive a p)"
  unfolding keeps_unconverted_def
  by (auto simp add: extract_archive_def unconverted_def split: sum.splits)

lemma ku_register_children:
  "keeps_unconverted (register_children loggers cyt task up children tasks)"
  by (induction children arbitrary: tasks) (auto intro!: ku_rules)

lemma ku_import_collection: "keeps_unconverted (import_collection ev loggers c pc up)"
  by (auto simp add: import_collection_def Let_def intro!: ku_rules ku_register_children
      split: option.splits)

lemma ku_move_pending_file: "keeps_unconverted (move_pending_file ev loggers pf pn pc)"
  by (auto simp add: move_pending_file_def Let_def
      intro!: ku_rules ku_mkdir ku_move ku_mksymlink)

lemma ku_identify_format: "keeps_unconverted (identify_format ev loggers up)"
  by (auto simp add: identify_format_def intro!: ku_rules split: option.splits)

lemma ku_create_original_role:
  "keeps_unconverted (create_original_role ev loggers pc udir up f arch)"
  by (auto simp add: create_original_role_def Let_def
      intro!: ku_rules ku_mkdir ku_move ku_mksymlink ku_extract_archive ku_import_collection
      split: option.splits)

lemma ku_prepare_original: "keeps_unconverted (prepare_original ev loggers pf pn pc)"
  by (auto simp add: prepare_original_def
      intro!: ku_rules ku_move_pending_file ku_identify_format ku_create_original_role)

lemma ku_report_integrity: "keeps_unconverted (report_integrity loggers img)"
  by (auto simp add: report_integrity_def Let_def intro!: ku_rules)

lemma ku_deploy_spatial_alias:
  "\<not> need_conversion f \<Longrightarrow> keeps_unconverted (deploy_spatial ev loggers f opath pdir up)"
  by (auto simp add: deploy_spatial_def Let_def intro!: ku_rules ku_mksymlink)

lemma ku_deploy_histogram: "keeps_unconverted (deploy_histogram ev loggers img pdir)"
  by (auto simp add: deploy_histogram_def Let_def intro!: ku_rules split: option.splits)

lemma ku_finish_import_alias:
  "\<not> need_conversion f \<Longrightarrow>
     keeps_unconverted (finish_import ev loggers (Single f opath up pdir))"
  by (auto simp add: finish_import_def
      intro!: ku_rules ku_report_integrity ku_deploy_spatial_alias ku_deploy_histogram)

lemma create_original_role_original_path:
  assumes "create_original_role ev loggers pc udir up f arch s = (Inr (Single g opath u pdir), s')"
  shows "original_path s' = Some opath"
  using assms
  by (auto simp add: create_original_role_def Let_def Inr_rules
      split: if_splits option.splits sum.splits dest!: notify_state)

lemma prepare_original_original_path:
  assumes "prepare_original ev loggers pf pn pc s0 = (Inr (Single g opath u pdir), s')"
  shows "original_path s' = Some opath"
  using assms
  by (auto simp add: prepare_original_def bindE_Inr dest: create_original_role_original_path)

lemma alias_resolves_to_target:
  "fsys p = Some (Link q) \<Longrightarrow> resolve (Suc n) fsys p = resolve n fsys q"
  by simp

lemma spatial_is_not_histogram:
  "role_filename SPATIAL_STEM x \<noteq> HISTOGRAM_STEM"
  by (simp add: role_filename_def SPATIAL_STEM_def HISTOGRAM_STEM_def)

text \<open>
  Claim C8. Let the preparation of an import end with a single image of a format \<open>f\<close>
  that needs no conversion, in a state that has seen no \<open>START_CONVERSION\<close> event. Then
  \<open>run\<close> emits no \<open>START_CONVERSION\<close> event, however it ends. When it returns, the spatial
  role path is \<open>spatial.<identifier of f>\<close> in the processed directory and is a symbolic
  link to the original role path: looking the spatial path up is one step more than
  looking the original path up, with the same file as result.
\<close>

theorem unconverted_import_aliases_original:
  assumes p: "fst (prepare_original ev loggers pf pn pc s0) = Inr (Single f opath up pdir)"
    and nc: "\<not> need_conversion f"
    and u: "unconverted s0"
  shows "unconverted (snd (run ev loggers pf pn pc s0))
       \<and> (\<forall>r. fst (run ev loggers pf pn pc s0) = Inr r \<longrightarrow>
            r = [up]
          \<and> original_path (snd (run ev loggers pf pn pc s0)) = Some opath
          \<and> spatial_path (snd (run ev loggers pf pn pc s0))
              = Some (pdir @ [role_filename SPATIAL_STEM (get_identifier f)])
          \<and> fs (snd (run ev loggers pf pn pc s0))
               (pdir @ [role_filename SPATIAL_STEM (get_identifier f)]) = Some (Link opath)
          \<and> (\<forall>n. resolve (Suc n) (fs (snd (run ev loggers pf pn pc s0)))
                     (pdir @ [role_filename SPATIAL_STEM (get_identifier f)])
                 = resolve n (fs (snd (run ev loggers pf pn pc s0))) opath))"
proof (intro conjI allI impI)
  let ?prep = "prepare_original ev loggers pf pn pc s0"
  let ?fin = "finish_import ev loggers (Single f opath up pdir) (snd ?prep)"
  let ?run = "run ev loggers pf pn pc s0"
  let ?sp = "pdir @ [role_filename SPATIAL_STEM (get_identifier f)]"
  have pe: "?prep = (Inr (Single f opath up pdir), snd ?prep)"
    using p by (metis prod.collapse)
  have u1: "unconverted (snd ?prep)"
    using ku_prepare_original [of ev loggers pf pn pc] pe u
    unfolding keeps_unconverted_def by blast
  obtain res s6 where fe: "?fin = (res, s6)" by (cases ?fin)
  have u2: "unconverted s6"
    using ku_finish_import_alias [OF nc, of ev loggers opath up pdir] u1 fe
    unfolding keeps_unconverted_def by blast
  show "unconverted (snd ?run)"
  proof (cases res)
    case (Inr x)
    with fe have "?run = (Inr x, s6)"
      by (simp add: run_preparation [OF p])
    with u2 show ?thesis by simp
  next
    case (Inl e)
    let ?h = "thenE (notify loggers FILE_ERROR [arg_of_path (upload_path s6), AExc e])
                (raise e) :: path list action"
    from Inl fe have r: "?run = ?h s6"
      by (simp add: run_preparation [OF p])
    have "keeps_unconverted ?h"
      by (intro ku_thenE ku_notify ku_raise) simp
    with u2 have "unconverted (snd (?h s6))"
      unfolding keeps_unconverted_def by (metis prod.collapse)
    with r show ?thesis by simp
  qed
  fix r assume "fst ?run = Inr r"
  then have ok: "?run = (Inr r, snd ?run)" by (metis prod.collapse)
  from ok obtain role s3 where
    p3: "?prep = (Inr role, s3)" and f3: "finish_import ev loggers role s3 = (Inr r, snd ?run)"
    by (rule run_success)
  from p3 pe have role: "role = Single f opath up pdir" by simp
  from p3 role have o3: "original_path s3 = Some opath"
    by (simp add: prepare_original_original_path)
  from f3 role obtain img s4 s5 where
    s4: "original_path s4 = original_path s3" and
    d: "deploy_spatial ev loggers f opath pdir up s4 = (Inr img, s5)" and
    s6: "fs (snd ?run) = (fs s5)(pdir @ [HISTOGRAM_STEM] \<mapsto> File)"
      "spatial_path (snd ?run) = spatial_path s5" "original_path (snd ?run) = original_path s5"
      "r = [up]"
    by (auto elim!: finish_import_success)
  note s5 = deploy_spatial_alias_success [OF d nc]
  show "r = [up]" by (rule s6(4))
  show "original_path (snd ?run) = Some opath" by (simp add: s6 s5 s4 o3)
  show "spatial_path (snd ?run) = Some ?sp" by (simp add: s6 s5)
  show l: "fs (snd ?run) ?sp = Some (Link opath)"
    by (simp add: s6 s5 spatial_is_not_histogram)
  fix n
  show "resolve (Suc n) (fs (snd ?run)) ?sp = resolve n (fs (snd ?run)) opath"
    using l by (rule alias_resolves_to_target)
qed

theorem unconverted_import_aliases_original_witness:
  "START_CONVERSION \<notin> fst ` set (emitted (snd (run (world (Some tiff_format) None)
      [stdout_listener] pending None False (initial_state disk))))
   \<and> fst (run (world (Some tiff_format) None) [stdout_listener] pending None False
        (initial_state disk)) = Inr [upload0 @ [''slide'']]
   \<and> fs (snd (run (world (Some tiff_format) None) [stdout_listener] pending None False
          (initial_state disk))) (upload0 @ [''processed'', ''spatial.TIFF''])
       = Some (Link (upload0 @ [''processed'', ''original.TIFF'']))
   \<and> resolve 3 (fs (snd (run (world (Some tiff_format) None) [stdout_listener] pending None
          False (initial_state disk)))) (upload0 @ [''processed'', ''spatial.TIFF''])
       = resolve 2 (fs (snd (run (world (Some tiff_format) None) [stdout_listener] pending
          None False (initial_state disk)))) (upload0 @ [''processed'', ''original.TIFF''])"
proof -
  let ?W = "world (Some tiff_format) None"
  let ?run = "run ?W [stdout_listener] pending None False (initial_state disk)"
  let ?op = "upload0 @ [''processed'', ''original.TIFF'']"
  have p: "fst (prepare_original ?W [stdout_listener] pending None False (initial_state disk))
             = Inr (Single tiff_format ?op (upload0 @ [''slide'']) (upload0 @ [''processed'']))"
    by (simp add: stage_defs exec_rules fs_defs input_defs upload0_def)
  have nc: "\<not> need_conversion tiff_format" and gi: "get_identifier tiff_format = ''TIFF''"
    by (simp_all add: tiff_format_def)
  have u: "unconverted (initial_state disk)"
    by (simp add: unconverted_def initial_state_def)
  have ok: "fst ?run = Inr [upload0 @ [''slide'']]"
    by (simp add: stage_defs exec_rules fs_defs input_defs upload0_def)
  have sp: "(upload0 @ [''processed'']) @ [role_filename SPATIAL_STEM (get_identifier tiff_format)]
              = upload0 @ [''processed'', ''spatial.TIFF'']"
    by (simp add: gi role_filename_def SPATIAL_STEM_def)
  have three: "(3::nat) = Suc 2" by simp
  from unconverted_import_aliases_original [OF p nc u] ok
  show ?thesis unfolding sp unconverted_def three by blast
qed

subsection \<open>Integrity errors and the outcome of an import\<close>

lemma deploy_spatial_success_integrity:
  assumes d: "deploy_spatial ev loggers f opath pdir up s = (Inr img, s')"
    and nc: "need_conversion f"
  shows "check_integrity img False True = []
       \<and> (\<exists>ext. conversion_format f = Inr ext
              \<and> image_path img = pdir @ [role_filename SPATIAL_STEM ext])"
proof -
  from d nc obtain s1 p s2 img0 s3 where
    c: "convert_to_spatial loggers f pdir up s1 = (Inr p, s2)" and
    k: "check_converted ev loggers p s2 = (Inr img0, s3)" and
    e: "(if has_spatial_role ev (image_path img0)
         then thenE (notify loggers END_SPATIAL_DEPLOY [APath (image_path img0)])
                (returnE img0)
         else raise AssertionError) s3 = (Inr img, s')"
    by (auto simp add: deploy_spatial_def thenE_Inr bindE_Inr)
  from convert_to_spatial_success(1) [OF c] obtain ext where
    x: "conversion_format f = Inr ext" "p = pdir @ [role_filename SPATIAL_STEM ext]"
    by blast
  from k have "fst (check_converted ev loggers p s2) = Inr img0" by simp
  then have i: "check_integrity img0 False True = [] \<and> image_path img0 = p"
    by (rule check_converted_success_integrity)
  from e have "img = img0" by (auto simp add: Inr_rules split: if_splits)
  with i x show ?thesis by blast
qed

lemma run_success_integrity:
  assumes r: "fst (run ev loggers pf pn pc s) = Inr r"
    and p: "fst (prepare_original ev loggers pf pn pc s) = Inr (Single f opath up pdir)"
  shows "check_integrity (Image_init ev opath f) False True = []"
    and "need_conversion f \<Longrightarrow>
           \<exists>ext converted. conversion_format f = Inr ext
             \<and> image_path converted = pdir @ [role_filename SPATIAL_STEM ext]
             \<and> check_integrity converted False True = []"
proof -
  from r have "run ev loggers pf pn pc s = (Inr r, snd (run ev loggers pf pn pc s))"
    by (metis prod.collapse)
  then obtain role s3 where
    p3: "prepare_original ev loggers pf pn pc s = (Inr role, s3)" and
    f3: "finish_import ev loggers role s3 = (Inr r, snd (run ev loggers pf pn pc s))"
    by (rule run_success)
  from p3 p have role: "role = Single f opath up pdir" by simp
  from f3 role have "fst (finish_import ev loggers (Single f opath up pdir) s3) = Inr r"
    by simp
  then show "check_integrity (Image_init ev opath f) False True = []"
    by (rule finish_import_success_integrity)
  from f3 role obtain img s4 s5 where
    d: "deploy_spatial ev loggers f opath pdir up s4 = (Inr img, s5)"
    by (auto elim!: finish_import_success)
  show "\<exists>ext converted. conversion_format f = Inr ext
             \<and> image_path converted = pdir @ [role_filename SPATIAL_STEM ext]
             \<and> check_integrity converted False True = []"
    if "need_conversion f"
    using deploy_spatial_success_integrity [OF d that] by blast
qed

lemma run_spatial_integrity_quiet:
  assumes q: "quiet loggers" and f: "is_spatial f" "need_conversion f"
    "conversion_format f = Inr ext" "convert f = Inr (True, True)"
    and p: "fst (prepare_original ev loggers pf pn pc s) = Inr (Single f opath up pdir)"
    and ok: "check_integrity (Image_init ev opath f) False True = []"
    and m: "SpatialReadableFormatFactory_match ev
              ((fs (snd (prepare_original ev loggers pf pn pc s)))
                 (pdir @ [role_filename SPATIAL_STEM ext] \<mapsto> File))
              (pdir @ [role_filename SPATIAL_STEM ext]) = Some sf"
    and ne: "check_integrity (Image_init ev (pdir @ [role_filename SPATIAL_STEM ext]) sf)
               False True \<noteq> []"
  shows "fst (run ev loggers pf pn pc s)
           = Inl (ImageParsingProblem (pdir @ [role_filename SPATIAL_STEM ext]))"
proof -
  let ?s1 = "snd (prepare_original ev loggers pf pn pc s)"
  have "fst (finish_import ev loggers (Single f opath up pdir) ?s1)
          = Inl (ImageParsingProblem (pdir @ [role_filename SPATIAL_STEM ext]))"
    using q f ok m ne by (rule finish_import_spatial_integrity_quiet)
  then obtain s2 where "finish_import ev loggers (Single f opath up pdir) ?s1
          = (Inl (ImageParsingProblem (pdir @ [role_filename SPATIAL_STEM ext])), s2)"
    by (metis prod.collapse)
  then show ?thesis
    using p by (simp add: run_preparation thenE_apply raise_apply notify_quiet [OF q])
qed

lemma run_original_integrity_quiet:
  assumes q: "quiet loggers"
    and p: "fst (prepare_original ev loggers pf pn pc s) = Inr (Single f opath up pdir)"
    and ne: "check_integrity (Image_init ev opath f) False True \<noteq> []"
  shows "fst (run ev loggers pf pn pc s) = Inl (ImageParsingProblem opath)"
proof -
  let ?s1 = "snd (prepare_original ev loggers pf pn pc s)"
  have "fst (finish_import ev loggers (Single f opath up pdir) ?s1)
          = Inl (ImageParsingProblem opath)"
    using q ne by (rule finish_import_integrity_quiet)
  then obtain s2 where "finish_import ev loggers (Single f opath up pdir) ?s1
          = (Inl (ImageParsingProblem opath), s2)"
    by (metis prod.collapse)
  then show ?thesis
    using p by (simp add: run_preparation thenE_apply raise_apply notify_quiet [OF q])
qed

text \<open>
  Claim C6. In non-lazy mode \<open>check_integrity\<close> returns, in the order of the attributes,
  one pair of attribute and exception for exactly the attributes whose access raises;
  in lazy mode it returns the first of these pairs alone. With listeners that do not
  raise, reporting the integrity of an image raises \<open>ImageParsingProblem\<close> exactly when
  that list is not empty. The pipeline applies this twice. Once to the original: with
  a non-empty list \<open>run\<close> raises \<open>ImageParsingProblem\<close> of the original path. And again
  to the spatial representation that a conversion has produced: when the converter has
  written its target and the target is recognised, \<open>deploy_spatial\<close> raises
  \<open>ImageParsingProblem\<close> of the spatial path if the list of the converted image is not
  empty and goes on otherwise, \<open>run\<close> raises that exception after an intact original,
  and a conversion raises \<open>ImageParsingProblem\<close> for no other reason. Neither
  \<open>deploy_spatial\<close> nor \<open>run\<close> returns unless the lists are empty.
\<close>

theorem integrity_errors_recorded_and_raised:
  "check_integrity img False True = attribute_errors (getattr_raises img) metadata_attributes
   \<and> set (check_integrity img False True)
       = {(a, e). a \<in> set metadata_attributes \<and> getattr_raises img a = Some e}
   \<and> check_integrity img True True
       = take 1 (attribute_errors (getattr_raises img) metadata_attributes)
   \<and> (quiet loggers \<longrightarrow>
        fst (report_integrity loggers img s) =
          (if check_integrity img False True = [] then Inr ()
           else Inl (ImageParsingProblem (image_path img))))
   \<and> (quiet loggers \<and> check_integrity (Image_init ev opath f) False True \<noteq> []
        \<and> fst (prepare_original ev loggers pf pn pc s) = Inr (Single f opath up pdir) \<longrightarrow>
        fst (run ev loggers pf pn pc s) = Inl (ImageParsingProblem opath))
   \<and> (quiet loggers \<and> need_conversion f \<and> conversion_format f = Inr ext
        \<and> convert f = Inr (True, True)
        \<and> SpatialReadableFormatFactory_match ev
            ((fs s)(pdir @ [role_filename SPATIAL_STEM ext] \<mapsto> File))
            (pdir @ [role_filename SPATIAL_STEM ext]) = Some sf \<longrightarrow>
        fst (deploy_spatial ev loggers f opath pdir up s) =
          (if check_integrity (Image_init ev (pdir @ [role_filename SPATIAL_STEM ext]) sf)
                False True = []
           then (if has_spatial_role ev (pdir @ [role_filename SPATIAL_STEM ext])
                 then Inr (Image_init ev (pdir @ [role_filename SPATIAL_STEM ext]) sf)
                 else Inl AssertionError)
           else Inl (ImageParsingProblem (pdir @ [role_filename SPATIAL_STEM ext]))))
   \<and> (quiet loggers \<and> is_spatial f \<and> need_conversion f \<and> conversion_format f = Inr ext
        \<and> convert f = Inr (True, True)
        \<and> fst (prepare_original ev loggers pf pn pc s) = Inr (Single f opath up pdir)
        \<and> check_integrity (Image_init ev opath f) False True = []
        \<and> SpatialReadableFormatFactory_match ev
            ((fs (snd (prepare_original ev loggers pf pn pc s)))
               (pdir @ [role_filename SPATIAL_STEM ext] \<mapsto> File))
            (pdir @ [role_filename SPATIAL_STEM ext]) = Some sf
        \<and> check_integrity (Image_init ev (pdir @ [role_filename SPATIAL_STEM ext]) sf)
             False True \<noteq> [] \<longrightarrow>
        fst (run ev loggers pf pn pc s)
          = Inl (ImageParsingProblem (pdir @ [role_filename SPATIAL_STEM ext])))
   \<and> (\<forall>p. quiet loggers \<and> need_conversion f
          \<and> fst (deploy_spatial ev loggers f opath pdir up s) = Inl (ImageParsingProblem p) \<longrightarrow>
        (\<exists>x sf'. conversion_format f = Inr x
           \<and> p = pdir @ [role_filename SPATIAL_STEM x]
           \<and> SpatialReadableFormatFactory_match ev ((fs s)(p \<mapsto> File)) p = Some sf'
           \<and> check_integrity (Image_init ev p sf') False True \<noteq> []))
   \<and> (\<forall>converted. need_conversion f
          \<and> fst (deploy_spatial ev loggers f opath pdir up s) = Inr converted \<longrightarrow>
        check_integrity converted False True = [])
   \<and> (\<forall>r. fst (run ev loggers pf pn pc s) = Inr r
          \<and> fst (prepare_original ev loggers pf pn pc s) = Inr (Single f opath up pdir) \<longrightarrow>
        check_integrity (Image_init ev opath f) False True = []
        \<and> (need_conversion f \<longrightarrow>
             (\<exists>x converted. conversion_format f = Inr x
                \<and> image_path converted = pdir @ [role_filename SPATIAL_STEM x]
                \<and> check_integrity converted False True = [])))"
proof (intro conjI impI allI)
  show "check_integrity img False True = attribute_errors (getattr_raises img) metadata_attributes"
    by (simp add: check_integrity_def check_attributes_all)
  then show "set (check_integrity img False True)
       = {(a, e). a \<in> set metadata_attributes \<and> getattr_raises img a = Some e}"
    by (simp only: attribute_errors_set)
  show "check_integrity img True True
       = take 1 (attribute_errors (getattr_raises img) metadata_attributes)"
    by (simp add: check_integrity_def check_attributes_lazy)
next
  assume "quiet loggers"
  then show "fst (report_integrity loggers img s) =
          (if check_integrity img False True = [] then Inr ()
           else Inl (ImageParsingProblem (image_path img)))"
    by (rule report_integrity_quiet)
next
  assume "quiet loggers \<and> check_integrity (Image_init ev opath f) False True \<noteq> []
        \<and> fst (prepare_original ev loggers pf pn pc s) = Inr (Single f opath up pdir)"
  then show "fst (run ev loggers pf pn pc s) = Inl (ImageParsingProblem opath)"
    by (intro run_original_integrity_quiet [where f = f and up = up and pdir = pdir])
      simp_all
next
  assume "quiet loggers \<and> need_conversion f \<and> conversion_format f = Inr ext
        \<and> convert f = Inr (True, True)
        \<and> SpatialReadableFormatFactory_match ev
            ((fs s)(pdir @ [role_filename SPATIAL_STEM ext] \<mapsto> File))
            (pdir @ [role_filename SPATIAL_STEM ext]) = Some sf"
  then show "fst (deploy_spatial ev loggers f opath pdir up s) =
          (if check_integrity (Image_init ev (pdir @ [role_filename SPATIAL_STEM ext]) sf)
                False True = []
           then (if has_spatial_role ev (pdir @ [role_filename SPATIAL_STEM ext])
                 then Inr (Image_init ev (pdir @ [role_filename SPATIAL_STEM ext]) sf)
                 else Inl AssertionError)
           else Inl (ImageParsingProblem (pdir @ [role_filename SPATIAL_STEM ext])))"
    by (intro deploy_spatial_converting_quiet) simp_all
next
  assume "quiet loggers \<and> is_spatial f \<and> need_conversion f \<and> conversion_format f = Inr ext
        \<and> convert f = Inr (True, True)
        \<and> fst (prepare_original ev loggers pf pn pc s) = Inr (Single f opath up pdir)
        \<and> check_integrity (Image_init ev opath f) False True = []
        \<and> SpatialReadableFormatFactory_match ev
            ((fs (snd (prepare_original ev loggers pf pn pc s)))
               (pdir @ [role_filename SPATIAL_STEM ext] \<mapsto> File))
            (pdir @ [role_filename SPATIAL_STEM ext]) = Some sf
        \<and> check_integrity (Image_init ev (pdir @ [role_filename SPATIAL_STEM ext]) sf)
             False True \<noteq> []"
  then show "fst (run ev loggers pf pn pc s)
          = Inl (ImageParsingProblem (pdir @ [role_filename SPATIAL_STEM ext]))"
    by (intro run_spatial_integrity_quiet [where f = f and sf = sf and opath = opath
          and up = up]) simp_all
next
  fix p
  assume "quiet loggers \<and> need_conversion f
          \<and> fst (deploy_spatial ev loggers f opath pdir up s) = Inl (ImageParsingProblem p)"
  then show "\<exists>x sf'. conversion_format f = Inr x
           \<and> p = pdir @ [role_filename SPATIAL_STEM x]
           \<and> SpatialReadableFormatFactory_match ev ((fs s)(p \<mapsto> File)) p = Some sf'
           \<and> check_integrity (Image_init ev p sf') False True \<noteq> []"
    by (intro deploy_spatial_parsing_problem_quiet [where loggers = loggers and opath = opath
          and up = up]) simp_all
next
  fix converted
  assume a: "need_conversion f
          \<and> fst (deploy_spatial ev loggers f opath pdir up s) = Inr converted"
  then have "deploy_spatial ev loggers f opath pdir up s
               = (Inr converted, snd (deploy_spatial ev loggers f opath pdir up s))"
    by (metis prod.collapse)
  from deploy_spatial_success_integrity [OF this] a
  show "check_integrity converted False True = []" by simp
next
  fix r
  assume a: "fst (run ev loggers pf pn pc s) = Inr r
          \<and> fst (prepare_original ev loggers pf pn pc s) = Inr (Single f opath up pdir)"
  then have r: "fst (run ev loggers pf pn pc s) = Inr r"
    and p: "fst (prepare_original ev loggers pf pn pc s) = Inr (Single f opath up pdir)"
    by simp_all
  show "check_integrity (Image_init ev opath f) False True = []"
    using r p by (rule run_success_integrity(1))
  show "\<exists>x converted. conversion_format f = Inr x
                \<and> image_path converted = pdir @ [role_filename SPATIAL_STEM x]
                \<and> check_integrity converted False True = []"
    if "need_conversion f"
    using r p that by (rule run_success_integrity(2))
qed

lemma prepare_unreadable:
  "fst (prepare_original (world_unreadable (Some jpeg_format) q) [stdout_listener] pending None
          False (initial_state disk))
     = Inr (Single jpeg_format (upload0 @ [''processed'', ''original.JPEG''])
              (upload0 @ [''slide'']) (upload0 @ [''processed'']))"
  by (simp add: prepare_original_def move_pending_file_def identify_format_def
      create_original_role_def role_filename_def Let_def
      PROCESSED_DIR_def ORIGINAL_STEM_def exec_rules fs_defs world_unreadable_def world_def
      pending_def disk_def stdout_listener_def initial_state_def upload0_def)
    (simp add: jpeg_format_def)

theorem integrity_errors_recorded_and_raised_witness:
  "check_integrity broken_image False True = [(''width'', ValueError), (''pyramid'', ValueError)]
   \<and> check_integrity broken_image True True = [(''width'', ValueError)]
   \<and> fst (report_integrity [stdout_listener] broken_image (initial_state disk))
       = Inl (ImageParsingProblem (image_path broken_image))
   \<and> fst (run (world_unreadable (Some jpeg_format) (upload0 @ [''processed'', ''original.JPEG'']))
            [stdout_listener] pending None False (initial_state disk))
       = Inl (ImageParsingProblem (upload0 @ [''processed'', ''original.JPEG'']))
   \<and> fst (run (world_unreadable (Some jpeg_format) (upload0 @ [''processed'', ''spatial.TIFF'']))
            [stdout_listener] pending None False (initial_state disk))
       = Inl (ImageParsingProblem (upload0 @ [''processed'', ''spatial.TIFF'']))"
proof -
  let ?op = "upload0 @ [''processed'', ''original.JPEG'']"
  let ?sp = "upload0 @ [''processed'', ''spatial.TIFF'']"
  let ?pd = "upload0 @ [''processed'']"
  note t0 = integrity_errors_recorded_and_raised
    [where img = broken_image and loggers = "[stdout_listener]" and s = "initial_state disk"
       and ev = "world None None" and opath = "[]" and f = tiff_format and up = "[]"
       and pdir = "[]" and pf = "[]" and pn = None and pc = False and sf = tiff_format
       and ext = "[]"]
  note t1 = integrity_errors_recorded_and_raised
    [where img = broken_image and loggers = "[stdout_listener]" and s = "initial_state disk"
       and ev = "world_unreadable (Some jpeg_format) ?op" and opath = ?op and f = jpeg_format
       and up = "upload0 @ [''slide'']" and pdir = ?pd and pf = pending and pn = None
       and pc = False and sf = tiff_format and ext = "''TIFF''"]
  note t2 = integrity_errors_recorded_and_raised
    [where img = broken_image and loggers = "[stdout_listener]" and s = "initial_state disk"
       and ev = "world_unreadable (Some jpeg_format) ?sp" and opath = ?op and f = jpeg_format
       and up = "upload0 @ [''slide'']" and pdir = ?pd and pf = pending and pn = None
       and pc = False and sf = tiff_format and ext = "''TIFF''"]
  have a: "attribute_errors (getattr_raises broken_image) metadata_attributes
             = [(''width'', ValueError), (''pyramid'', ValueError)]"
    by (simp add: attribute_errors_def broken_image_def metadata_attributes_def)
  have f: "is_spatial jpeg_format" "need_conversion jpeg_format"
    "conversion_format jpeg_format = Inr ''TIFF''" "convert jpeg_format = Inr (True, True)"
    by (simp_all add: jpeg_format_def)
  have sp: "?pd @ [role_filename SPATIAL_STEM ''TIFF''] = ?sp"
    by (simp add: role_filename_def SPATIAL_STEM_def)
  have p: "fst (prepare_original (world_unreadable (Some jpeg_format) q) [stdout_listener]
                  pending None False (initial_state disk))
             = Inr (Single jpeg_format ?op (upload0 @ [''slide'']) ?pd)" for q
    by (rule prepare_unreadable)
  have m: "SpatialReadableFormatFactory_match (world_unreadable (Some jpeg_format) q) fsys r
             = Some tiff_format" for q fsys r
    by (simp add: world_unreadable_def world_def)
  have bad1: "check_integrity (Image_init (world_unreadable (Some jpeg_format) ?op) ?op
                jpeg_format) False True \<noteq> []"
    and ok2: "check_integrity (Image_init (world_unreadable (Some jpeg_format) ?sp) ?op
                jpeg_format) False True = []"
    and bad2: "check_integrity (Image_init (world_unreadable (Some jpeg_format) ?sp) ?sp
                tiff_format) False True \<noteq> []"
    by (simp_all add: check_integrity_def Image_init_def world_unreadable_def world_def
        metadata_attributes_def upload0_def)
  from t0 quiet_stdout have c0:
    "check_integrity broken_image False True = [(''width'', ValueError), (''pyramid'', ValueError)]
     \<and> check_integrity broken_image True True = [(''width'', ValueError)]
     \<and> fst (report_integrity [stdout_listener] broken_image (initial_state disk))
         = Inl (ImageParsingProblem (image_path broken_image))"
    by (simp add: a)
  from t1 quiet_stdout bad1 p [of ?op] have c1:
    "fst (run (world_unreadable (Some jpeg_format) ?op) [stdout_listener] pending None False
            (initial_state disk)) = Inl (ImageParsingProblem ?op)"
    by blast
  from t2 quiet_stdout f p [of ?sp] ok2 m bad2 have c2:
    "fst (run (world_unreadable (Some jpeg_format) ?sp) [stdout_listener] pending None False
            (initial_state disk)) = Inl (ImageParsingProblem ?sp)"
    unfolding sp by blast
  from c0 c1 c2 show ?thesis by blast
qed

end
